theory Spec2Isabelle
  imports Main "HOL-Library.Word" "HOL-Library.Signed_Division"
begin

section \<open>The IR data model\<close>

text \<open>
  The compiler lowers a MiniC syntax tree to a linear three-address IR
  (\<^verbatim>\<open>IRGenerator.cpp\<close>) and selects ARM32 instructions for it
  (\<^verbatim>\<open>InstSelectorArm32.cpp\<close>). Source integers are \<^verbatim>\<open>int32_t\<close>: 32-bit words,
  read as two's complement where the source compares them.
\<close>

type_synonym int32 = "32 word"

datatype Type =
    VoidType
  | Int32Type
  | BoolType
  | PointerType Type
  | ArrayType Type "int32 list"

datatype IRInstOperator =
    IRINST_OP_ADD_I | IRINST_OP_SUB_I | IRINST_OP_MUL_I | IRINST_OP_DIV_I | IRINST_OP_MOD_I
  | IRINST_OP_LT_I | IRINST_OP_GT_I | IRINST_OP_LE_I | IRINST_OP_GE_I
  | IRINST_OP_EQ_I | IRINST_OP_NE_I

text \<open>
  Every \<^verbatim>\<open>Value\<close> of the source is a heap object referred to by pointer; instructions
  are values and hold their operands by pointer. An object created by \<^verbatim>\<open>new\<close> carries
  here the number of its allocation, which stands for the pointer's identity: two labels,
  or two instructions with equal operands, are different objects. \<^verbatim>\<open>ConstInt\<close> objects
  are interned per value, so the value is the identity. \<open>NullV\<close> is \<^verbatim>\<open>nullptr\<close>.
  An unconditional \<^verbatim>\<open>GotoInstruction\<close> has \<^verbatim>\<open>cond = nullptr\<close> and
  \<^verbatim>\<open>falseTarget = nullptr\<close>, as its first constructor sets them.
\<close>

datatype Value =
    NullV
  | ConstInt int32
  | LocalVariable nat string Type
  | GlobalVar nat string Type
  | LabelInstruction nat
  | GotoInstruction nat (getCond: Value) (getTrueTarget: Value) (getFalseTarget: Value)
  | BinaryInstruction nat IRInstOperator Value Value Type
  | MoveInstruction nat Value Value
  | LoadArrayInstruction nat Value Value Type
  | StoreArrayInstruction nat Value Value Value
  | ArraySliceInstruction nat Value Type
  | FuncCallInstruction nat string "Value list" Type

fun getType :: "Value \<Rightarrow> Type option" where
  "getType NullV = None"
| "getType (ConstInt _) = Some Int32Type"
| "getType (LocalVariable _ _ t) = Some t"
| "getType (GlobalVar _ _ t) = Some t"
| "getType (LabelInstruction _) = Some VoidType"
| "getType (GotoInstruction _ _ _ _) = Some VoidType"
| "getType (BinaryInstruction _ _ _ _ t) = Some t"
| "getType (MoveInstruction _ _ _) = Some VoidType"
| "getType (LoadArrayInstruction _ _ _ t) = Some t"
| "getType (StoreArrayInstruction _ _ _ _) = Some VoidType"
| "getType (ArraySliceInstruction _ _ t) = Some t"
| "getType (FuncCallInstruction _ _ _ t) = Some t"

text \<open>The allocation number of an object; constants and the null pointer have none.\<close>

fun objId :: "Value \<Rightarrow> nat option" where
  "objId NullV = None"
| "objId (ConstInt _) = None"
| "objId (LocalVariable i _ _) = Some i"
| "objId (GlobalVar i _ _) = Some i"
| "objId (LabelInstruction i) = Some i"
| "objId (GotoInstruction i _ _ _) = Some i"
| "objId (BinaryInstruction i _ _ _ _) = Some i"
| "objId (MoveInstruction i _ _) = Some i"
| "objId (LoadArrayInstruction i _ _ _) = Some i"
| "objId (StoreArrayInstruction i _ _ _) = Some i"
| "objId (ArraySliceInstruction i _ _) = Some i"
| "objId (FuncCallInstruction i _ _ _) = Some i"

definition olderThan :: "nat \<Rightarrow> Value \<Rightarrow> bool" where
  "olderThan n v = (case objId v of None \<Rightarrow> True | Some i \<Rightarrow> i < n)"

text \<open>
  An object all of whose parts, operands included, were allocated before the \<open>n\<close>-th
  allocation: what a buffer holds that was finished before that allocation.
\<close>

fun deepOlder :: "nat \<Rightarrow> Value \<Rightarrow> bool" where
  "deepOlder n NullV = True"
| "deepOlder n (ConstInt c) = True"
| "deepOlder n (LocalVariable i x t) = (i < n)"
| "deepOlder n (GlobalVar i x t) = (i < n)"
| "deepOlder n (LabelInstruction i) = (i < n)"
| "deepOlder n (GotoInstruction i c t f) =
     (i < n \<and> deepOlder n c \<and> deepOlder n t \<and> deepOlder n f)"
| "deepOlder n (BinaryInstruction i opr a b t) = (i < n \<and> deepOlder n a \<and> deepOlder n b)"
| "deepOlder n (MoveInstruction i dst src) = (i < n \<and> deepOlder n dst \<and> deepOlder n src)"
| "deepOlder n (LoadArrayInstruction i base off t) =
     (i < n \<and> deepOlder n base \<and> deepOlder n off)"
| "deepOlder n (StoreArrayInstruction i v base off) =
     (i < n \<and> deepOlder n v \<and> deepOlder n base \<and> deepOlder n off)"
| "deepOlder n (ArraySliceInstruction i a t) = (i < n \<and> deepOlder n a)"
| "deepOlder n (FuncCallInstruction i f args t) = (i < n \<and> list_all (deepOlder n) args)"

subsection \<open>Global variables\<close>

text \<open>
  \<^verbatim>\<open>GlobalVariable.h\<close>: the constructor sets the alignment to 4; the fields
  \<^verbatim>\<open>inBSSSection = true\<close> and \<^verbatim>\<open>initializer = nullptr\<close> are the defaults.
  \<open>gvId\<close> is the allocation number of the object, by which the \<open>GlobalVar\<close> value
  of the lowering refers to it.
\<close>

record GlobalVariable =
  gvId :: nat
  gvName :: string
  gvType :: Type
  alignment :: nat
  inBSSSection :: bool
  initializer :: Value

definition newGlobalVariable :: "nat \<Rightarrow> Type \<Rightarrow> string \<Rightarrow> GlobalVariable" where
  "newGlobalVariable i t n =
     \<lparr> gvId = i, gvName = n, gvType = t, alignment = 4, inBSSSection = True, initializer = NullV \<rparr>"

definition setInitializer :: "Value \<Rightarrow> GlobalVariable \<Rightarrow> GlobalVariable" where
  "setInitializer initVal g =
     (let g1 = g\<lparr> initializer := initVal \<rparr>
      in if initVal \<noteq> NullV then g1\<lparr> inBSSSection := False \<rparr> else g1)"

definition isInBSSSection :: "GlobalVariable \<Rightarrow> bool" where
  "isInBSSSection g = inBSSSection g"

definition getInitializer :: "GlobalVariable \<Rightarrow> Value" where
  "getInitializer g = initializer g"

subsection \<open>The module and the generator's state\<close>

text \<open>
  The fields of \<^verbatim>\<open>Function\<close> that the lowering reads and writes.
\<close>

record Function =
  fnName :: string
  returnType :: Type
  paramCount :: nat
  returnValue :: Value
  exitLabel :: Value
  existFuncCall :: bool
  maxFuncCallArgCnt :: int

text \<open>
  One state for what the lowering mutates: the allocation counter, the module (scope
  stack innermost first, functions, globals, the function being lowered) and the
  generator's two loop stacks, whose back is the end of the list.
\<close>

record IRGenerator =
  nextId :: nat
  scopes :: "(string \<times> Value) list list"
  funcVector :: "Function list"
  globals :: "GlobalVariable list"
  currentFunction :: "Function option"
  loopCondStack :: "Value list"
  loopEndStack :: "Value list"

datatype error =
    SemanticError
  | NullDereference
  | IndexOutOfRange

text \<open>
  What a visit leaves in its \<^verbatim>\<open>ast_node\<close>: the result value \<^verbatim>\<open>val\<close>, the
  instruction buffer \<^verbatim>\<open>blockInsts\<close>, and the node's entry in the side table
  \<^verbatim>\<open>g_arrayAccessAddresses\<close> (a map keyed by the node's address; every node is
  visited once, so the entry travels with the node).
\<close>

record node =
  val :: Value
  blockInsts :: "Value list"
  arrayAccessAddress :: "Value option"

definition emptyNode :: node where
  "emptyNode = \<lparr> val = NullV, blockInsts = [], arrayAccessAddress = None \<rparr>"

definition newLabel :: "IRGenerator \<Rightarrow> Value \<times> IRGenerator" where
  "newLabel st = (LabelInstruction (nextId st), st\<lparr> nextId := Suc (nextId st) \<rparr>)"

definition newBinary ::
  "IRInstOperator \<Rightarrow> Value \<Rightarrow> Value \<Rightarrow> Type \<Rightarrow> IRGenerator \<Rightarrow> Value \<times> IRGenerator" where
  "newBinary opr a b t st =
     (BinaryInstruction (nextId st) opr a b t, st\<lparr> nextId := Suc (nextId st) \<rparr>)"

definition newMove :: "Value \<Rightarrow> Value \<Rightarrow> IRGenerator \<Rightarrow> Value \<times> IRGenerator" where
  "newMove dst src st = (MoveInstruction (nextId st) dst src, st\<lparr> nextId := Suc (nextId st) \<rparr>)"

definition newGoto :: "Value \<Rightarrow> IRGenerator \<Rightarrow> Value \<times> IRGenerator" where
  "newGoto target st =
     (GotoInstruction (nextId st) NullV target NullV, st\<lparr> nextId := Suc (nextId st) \<rparr>)"

definition newCondGoto :: "Value \<Rightarrow> Value \<Rightarrow> Value \<Rightarrow> IRGenerator \<Rightarrow> Value \<times> IRGenerator" where
  "newCondGoto c t f st =
     (GotoInstruction (nextId st) c t f, st\<lparr> nextId := Suc (nextId st) \<rparr>)"

text \<open>
  Modelled from the spec: \<^verbatim>\<open>Module\<close> is not among the source files. Section 4.1:
  \<^verbatim>\<open>newConstInt(v)\<close> interns; \<^verbatim>\<open>newVarValue(type, name?)\<close> creates a local in the
  current function or a global when no function is active (a named one is entered in the
  innermost scope); \<^verbatim>\<open>findVarValue(name)\<close> searches the scopes from the innermost
  outward and yields \<^verbatim>\<open>nullptr\<close> when no scope has the name; \<^verbatim>\<open>findFunction\<close>
  finds a function by name; \<^verbatim>\<open>enterScope\<close> and \<^verbatim>\<open>leaveScope\<close> push and pop.
\<close>

definition newConstInt :: "int32 \<Rightarrow> Value" where
  "newConstInt v = ConstInt v"

definition declareInScope :: "string \<Rightarrow> Value \<Rightarrow> (string \<times> Value) list list \<Rightarrow> (string \<times> Value) list list" where
  "declareInScope n v ss =
     (if n = [] then ss
      else case ss of [] \<Rightarrow> [[(n, v)]] | s # rest \<Rightarrow> ((n, v) # s) # rest)"

definition newVarValue :: "Type \<Rightarrow> string \<Rightarrow> IRGenerator \<Rightarrow> Value \<times> IRGenerator" where
  "newVarValue t n st =
     (case currentFunction st of
        Some f \<Rightarrow>
          (let v = LocalVariable (nextId st) n t
           in (v, st\<lparr> nextId := Suc (nextId st), scopes := declareInScope n v (scopes st) \<rparr>))
      | None \<Rightarrow>
          (let v = GlobalVar (nextId st) n t
           in (v, st\<lparr> nextId := Suc (nextId st), scopes := declareInScope n v (scopes st),
                       globals := globals st @ [newGlobalVariable (nextId st) t n] \<rparr>)))"

fun findVarValue_scopes :: "(string \<times> Value) list list \<Rightarrow> string \<Rightarrow> Value" where
  "findVarValue_scopes [] n = NullV"
| "findVarValue_scopes (s # rest) n =
     (case map_of s n of Some v \<Rightarrow> v | None \<Rightarrow> findVarValue_scopes rest n)"

definition findVarValue :: "string \<Rightarrow> IRGenerator \<Rightarrow> Value" where
  "findVarValue n st = findVarValue_scopes (scopes st) n"

definition findFunction :: "string \<Rightarrow> IRGenerator \<Rightarrow> Function option" where
  "findFunction n st = find (\<lambda>f. fnName f = n) (funcVector st)"

definition enterScope :: "IRGenerator \<Rightarrow> IRGenerator" where
  "enterScope st = st\<lparr> scopes := [] # scopes st \<rparr>"

definition leaveScope :: "IRGenerator \<Rightarrow> IRGenerator" where
  "leaveScope st = st\<lparr> scopes := tl (scopes st) \<rparr>"

section \<open>Lowering: the handlers of \<^verbatim>\<open>IRGenerator.cpp\<close>\<close>

text \<open>\<^verbatim>\<open>node->blockInsts.addInst\<close>, for one instruction and for a child's buffer.\<close>

definition addInst :: "Value \<Rightarrow> node \<Rightarrow> node" where
  "addInst i n = n\<lparr> blockInsts := blockInsts n @ [i] \<rparr>"

definition addInsts :: "Value list \<Rightarrow> node \<Rightarrow> node" where
  "addInsts is n = n\<lparr> blockInsts := blockInsts n @ is \<rparr>"

subsection \<open>Widening a boolean\<close>

text \<open>
  \<^verbatim>\<open>convertBoolToInt(node, boolValue)\<close>: the result variable is created first, then
  the three labels, then the instructions in the order in which they are appended.
\<close>

definition convertBoolToInt :: "node \<Rightarrow> Value \<Rightarrow> IRGenerator \<Rightarrow> (Value \<times> node) \<times> IRGenerator" where
  "convertBoolToInt n boolValue st =
     (let (result, s1) = newVarValue Int32Type [] st;
          (L_true, s2) = newLabel s1;
          (L_false, s3) = newLabel s2;
          (L_end, s4) = newLabel s3;
          (br, s5) = newCondGoto boolValue L_true L_false s4;
          (mv1, s6) = newMove result (newConstInt 1) s5;
          (g1, s7) = newGoto L_end s6;
          (mv0, s8) = newMove result (newConstInt 0) s7;
          (g0, s9) = newGoto L_end s8
      in ((result, addInsts [br, L_true, mv1, g1, L_false, mv0, g0, L_end] n), s9))"

subsection \<open>Binary arithmetic and comparisons\<close>

text \<open>
  \<^verbatim>\<open>ir_add\<close>, \<^verbatim>\<open>ir_sub\<close>, \<^verbatim>\<open>ir_mul\<close>, \<^verbatim>\<open>ir_div\<close>, \<^verbatim>\<open>ir_mod\<close> differ in the
  operator only: after both operands are visited, one \<^verbatim>\<open>BinaryInstruction\<close> of type
  \<^verbatim>\<open>i32\<close> follows the two buffers. \<^verbatim>\<open>ir_le\<close>, \<^verbatim>\<open>ir_ge\<close>, \<^verbatim>\<open>ir_eq\<close>,
  \<^verbatim>\<open>ir_ne\<close> do the same at type \<^verbatim>\<open>i1\<close> and expose the comparison itself;
  \<^verbatim>\<open>ir_lt\<close> and \<^verbatim>\<open>ir_gt\<close> end with \<^verbatim>\<open>convertBoolToInt\<close>.
\<close>

definition ir_binary :: "IRInstOperator \<Rightarrow> Type \<Rightarrow> node \<Rightarrow> node \<Rightarrow> IRGenerator \<Rightarrow> node \<times> IRGenerator" where
  "ir_binary opr t left right st =
     (let (inst, s1) = newBinary opr (val left) (val right) t st
      in ((addInst inst (addInsts (blockInsts right) (addInsts (blockInsts left) emptyNode)))
            \<lparr> val := inst \<rparr>, s1))"

definition ir_add :: "node \<Rightarrow> node \<Rightarrow> IRGenerator \<Rightarrow> node \<times> IRGenerator" where
  "ir_add = ir_binary IRINST_OP_ADD_I Int32Type"

definition ir_sub :: "node \<Rightarrow> node \<Rightarrow> IRGenerator \<Rightarrow> node \<times> IRGenerator" where
  "ir_sub = ir_binary IRINST_OP_SUB_I Int32Type"

definition ir_mul :: "node \<Rightarrow> node \<Rightarrow> IRGenerator \<Rightarrow> node \<times> IRGenerator" where
  "ir_mul = ir_binary IRINST_OP_MUL_I Int32Type"

definition ir_div :: "node \<Rightarrow> node \<Rightarrow> IRGenerator \<Rightarrow> node \<times> IRGenerator" where
  "ir_div = ir_binary IRINST_OP_DIV_I Int32Type"

definition ir_mod :: "node \<Rightarrow> node \<Rightarrow> IRGenerator \<Rightarrow> node \<times> IRGenerator" where
  "ir_mod = ir_binary IRINST_OP_MOD_I Int32Type"

definition ir_le :: "node \<Rightarrow> node \<Rightarrow> IRGenerator \<Rightarrow> node \<times> IRGenerator" where
  "ir_le = ir_binary IRINST_OP_LE_I BoolType"

definition ir_ge :: "node \<Rightarrow> node \<Rightarrow> IRGenerator \<Rightarrow> node \<times> IRGenerator" where
  "ir_ge = ir_binary IRINST_OP_GE_I BoolType"

definition ir_eq :: "node \<Rightarrow> node \<Rightarrow> IRGenerator \<Rightarrow> node \<times> IRGenerator" where
  "ir_eq = ir_binary IRINST_OP_EQ_I BoolType"

definition ir_ne :: "node \<Rightarrow> node \<Rightarrow> IRGenerator \<Rightarrow> node \<times> IRGenerator" where
  "ir_ne = ir_binary IRINST_OP_NE_I BoolType"

definition ir_compare_widened :: "IRInstOperator \<Rightarrow> node \<Rightarrow> node \<Rightarrow> IRGenerator \<Rightarrow> node \<times> IRGenerator" where
  "ir_compare_widened opr left right st =
     (let (cmpInst, s1) = newBinary opr (val left) (val right) BoolType st;
          n1 = addInst cmpInst (addInsts (blockInsts right) (addInsts (blockInsts left) emptyNode));
          ((result, n2), s2) = convertBoolToInt n1 cmpInst s1
      in (n2\<lparr> val := result \<rparr>, s2))"

definition ir_lt :: "node \<Rightarrow> node \<Rightarrow> IRGenerator \<Rightarrow> node \<times> IRGenerator" where
  "ir_lt = ir_compare_widened IRINST_OP_LT_I"

definition ir_gt :: "node \<Rightarrow> node \<Rightarrow> IRGenerator \<Rightarrow> node \<times> IRGenerator" where
  "ir_gt = ir_compare_widened IRINST_OP_GT_I"

subsection \<open>Logical operators\<close>

text \<open>
  \<^verbatim>\<open>ir_and\<close>, \<^verbatim>\<open>ir_or\<close> and \<^verbatim>\<open>ir_not\<close> after their operands have been visited.
  The three labels are created before anything is appended.
\<close>

definition ir_and :: "node \<Rightarrow> node \<Rightarrow> IRGenerator \<Rightarrow> node \<times> IRGenerator" where
  "ir_and leftNode rightNode st =
     (let (L_rhs, s1) = newLabel st;
          (L_false, s2) = newLabel s1;
          (L_end, s3) = newLabel s2;
          n1 = addInsts (blockInsts leftNode) emptyNode;
          zero = newConstInt 0;
          (cmpL, s4) = newBinary IRINST_OP_NE_I (val leftNode) zero BoolType s3;
          n2 = addInst cmpL n1;
          (br, s5) = newCondGoto cmpL L_rhs L_false s4;
          n3 = addInst br n2;
          n4 = addInsts (blockInsts rightNode) (addInst L_rhs n3);
          (cmpR, s6) = newBinary IRINST_OP_NE_I (val rightNode) zero BoolType s5;
          n5 = addInst cmpR n4;
          ((result, n6), s7) = convertBoolToInt n5 cmpR s6;
          (g1, s8) = newGoto L_end s7;
          n7 = addInst L_false (addInst g1 n6);
          (mv, s9) = newMove result (newConstInt 0) s8;
          (g2, s10) = newGoto L_end s9;
          n8 = addInst L_end (addInst g2 (addInst mv n7))
      in (n8\<lparr> val := result \<rparr>, s10))"

definition ir_or :: "node \<Rightarrow> node \<Rightarrow> IRGenerator \<Rightarrow> node \<times> IRGenerator" where
  "ir_or leftNode rightNode st =
     (let (L_rhs, s1) = newLabel st;
          (L_true, s2) = newLabel s1;
          (L_end, s3) = newLabel s2;
          n1 = addInsts (blockInsts leftNode) emptyNode;
          zero = newConstInt 0;
          (cmpL, s4) = newBinary IRINST_OP_NE_I (val leftNode) zero BoolType s3;
          n2 = addInst cmpL n1;
          (br, s5) = newCondGoto cmpL L_true L_rhs s4;
          n3 = addInst br n2;
          n4 = addInsts (blockInsts rightNode) (addInst L_rhs n3);
          (cmpR, s6) = newBinary IRINST_OP_NE_I (val rightNode) zero BoolType s5;
          n5 = addInst cmpR n4;
          ((result, n6), s7) = convertBoolToInt n5 cmpR s6;
          (g1, s8) = newGoto L_end s7;
          n7 = addInst L_true (addInst g1 n6);
          (mv, s9) = newMove result (newConstInt 1) s8;
          (g2, s10) = newGoto L_end s9;
          n8 = addInst L_end (addInst g2 (addInst mv n7))
      in (n8\<lparr> val := result \<rparr>, s10))"

definition ir_not :: "node \<Rightarrow> IRGenerator \<Rightarrow> node \<times> IRGenerator" where
  "ir_not operandNode st =
     (let zero = newConstInt 0;
          (eqInst, s1) = newBinary IRINST_OP_EQ_I (val operandNode) zero BoolType st;
          n1 = addInst eqInst (addInsts (blockInsts operandNode) emptyNode);
          ((result, n2), s2) = convertBoolToInt n1 eqInst s1
      in (n2\<lparr> val := result \<rparr>, s2))"

subsection \<open>Leaves\<close>

definition ir_leaf_node_var_id :: "string \<Rightarrow> IRGenerator \<Rightarrow> bool \<times> node" where
  "ir_leaf_node_var_id name st =
     (let v = findVarValue name st
      in (True, emptyNode\<lparr> val := v \<rparr>))"

definition ir_leaf_node_uint :: "int32 \<Rightarrow> bool \<times> node" where
  "ir_leaf_node_uint integer_val = (True, emptyNode\<lparr> val := newConstInt integer_val \<rparr>)"

subsection \<open>Unary minus\<close>

text \<open>
  \<^verbatim>\<open>ir_neg\<close> after its operand has been visited. \<^verbatim>\<open>target->getType()\<close> dereferences
  the operand's value, which is null after an identifier that no scope has.
\<close>

definition ir_neg :: "node \<Rightarrow> IRGenerator \<Rightarrow> error + node \<times> IRGenerator" where
  "ir_neg operand st =
     (let target = val operand in
      case currentFunction st of
        None \<Rightarrow>
          (case target of
             ConstInt v \<Rightarrow> Inr (emptyNode\<lparr> val := newConstInt (- v) \<rparr>, st)
           | _ \<Rightarrow> Inl SemanticError)
      | Some cur \<Rightarrow>
          (let zero = newConstInt 0 in
           case getType target of
             None \<Rightarrow> Inl NullDereference
           | Some t \<Rightarrow>
               if t = BoolType then
                 (let (L_true, s1) = newLabel st;
                      (L_false, s2) = newLabel s1;
                      (L_join, s3) = newLabel s2;
                      (tmpInt, s4) = newVarValue Int32Type [] s3;
                      n1 = addInsts (blockInsts operand) emptyNode;
                      (br, s5) = newCondGoto target L_true L_false s4;
                      (mv1, s6) = newMove tmpInt (newConstInt 1) s5;
                      (g1, s7) = newGoto L_join s6;
                      (mv0, s8) = newMove tmpInt (newConstInt 0) s7;
                      (g0, s9) = newGoto L_join s8;
                      n2 = addInsts [br, L_true, mv1, g1, L_false, mv0, g0, L_join] n1;
                      (negInst, s10) = newBinary IRINST_OP_SUB_I zero tmpInt Int32Type s9
                  in Inr ((addInst negInst n2)\<lparr> val := negInst \<rparr>, s10))
               else
                 (let n1 = addInsts (blockInsts operand) emptyNode;
                      (negInst, s1) = newBinary IRINST_OP_SUB_I zero target Int32Type st
                  in Inr ((addInst negInst n1)\<lparr> val := negInst \<rparr>, s1))))"

subsection \<open>Assignment and return\<close>

text \<open>
  \<^verbatim>\<open>ir_assign\<close> after the left and then the right operand have been visited;
  \<open>leftIsArrayAccess\<close> is the test \<^verbatim>\<open>son1_node->node_type == AST_OP_ARRAY_ACCESS\<close>.
  \<^verbatim>\<open>g_arrayAccessAddresses[left]\<close> is null when the map has no entry for the node.
\<close>

definition ir_assign :: "bool \<Rightarrow> node \<Rightarrow> node \<Rightarrow> IRGenerator \<Rightarrow> node \<times> IRGenerator" where
  "ir_assign leftIsArrayAccess left right st =
     (if leftIsArrayAccess then
        (let arrayAddr = (case arrayAccessAddress left of Some a \<Rightarrow> a | None \<Rightarrow> NullV);
             storeInst = StoreArrayInstruction (nextId st) (val right) arrayAddr (newConstInt 0);
             s1 = st\<lparr> nextId := Suc (nextId st) \<rparr>;
             n = addInst storeInst
                   (addInsts (blockInsts left) (addInsts (blockInsts right) emptyNode))
         in (n\<lparr> val := storeInst \<rparr>, s1))
      else
        (let (movInst, s1) = newMove (val left) (val right) st;
             n = addInst movInst
                   (addInsts (blockInsts left) (addInsts (blockInsts right) emptyNode))
         in (n\<lparr> val := movInst \<rparr>, s1)))"

definition ir_return :: "node option \<Rightarrow> IRGenerator \<Rightarrow> error + node \<times> IRGenerator" where
  "ir_return right st =
     (case currentFunction st of
        None \<Rightarrow> Inl NullDereference
      | Some currentFunc \<Rightarrow>
          (case right of
             Some r \<Rightarrow>
               (let n1 = addInsts (blockInsts r) emptyNode;
                    (mv, s1) = newMove (returnValue currentFunc) (val r) st;
                    (g, s2) = newGoto (exitLabel currentFunc) s1
                in Inr ((addInst g (addInst mv n1))\<lparr> val := val r \<rparr>, s2))
           | None \<Rightarrow>
               (let (g, s1) = newGoto (exitLabel currentFunc) st
                in Inr (addInst g emptyNode, s1))))"

subsection \<open>Control flow\<close>

text \<open>
  \<^verbatim>\<open>ir_if\<close> after the condition and the branches that are present have been visited
  (an absent or empty branch is \<open>None\<close>).
\<close>

definition isConstInt :: "Value \<Rightarrow> bool" where
  "isConstInt v = (case v of ConstInt _ \<Rightarrow> True | _ \<Rightarrow> False)"

definition getVal :: "Value \<Rightarrow> int32" where
  "getVal v = (case v of ConstInt c \<Rightarrow> c | _ \<Rightarrow> 0)"

definition ir_if :: "node \<Rightarrow> node option \<Rightarrow> node option \<Rightarrow> IRGenerator \<Rightarrow> node \<times> IRGenerator" where
  "ir_if condNode thenNode elseNode st =
     (let (L_then, s1) = newLabel st;
          (L_else, s2) = newLabel s1;
          (L_end, s3) = newLabel s2;
          n1 = addInsts (blockInsts condNode) emptyNode;
          (br, s4) =
            (if isConstInt (val condNode) then
               (if getVal (val condNode) \<noteq> 0 then newGoto L_then s3 else newGoto L_else s3)
             else newCondGoto (val condNode) L_then L_else s3);
          n2 = addInst L_then (addInst br n1);
          n3 = (case thenNode of Some t \<Rightarrow> addInsts (blockInsts t) n2 | None \<Rightarrow> n2);
          (g, s5) = newGoto L_end s4;
          n4 = addInst L_else (addInst g n3);
          n5 = (case elseNode of Some e \<Rightarrow> addInsts (blockInsts e) n4 | None \<Rightarrow> n4)
      in (addInst L_end n5, s5))"

text \<open>
  \<^verbatim>\<open>ir_while\<close> in two halves: what it does before it visits its children (three
  labels, two pushes), and what it does after.
\<close>

definition ir_while_enter :: "IRGenerator \<Rightarrow> (Value \<times> Value \<times> Value) \<times> IRGenerator" where
  "ir_while_enter st =
     (let (L_cond, s1) = newLabel st;
          (L_body, s2) = newLabel s1;
          (L_end, s3) = newLabel s2
      in ((L_cond, L_body, L_end),
          s3\<lparr> loopCondStack := loopCondStack s3 @ [L_cond],
              loopEndStack := loopEndStack s3 @ [L_end] \<rparr>))"

definition ir_while_emit ::
  "Value \<times> Value \<times> Value \<Rightarrow> node \<Rightarrow> node option \<Rightarrow> IRGenerator \<Rightarrow> node \<times> IRGenerator" where
  "ir_while_emit labels condNode bodyNode st =
     (let (L_cond, L_body, L_end) = labels;
          n1 = addInsts (blockInsts condNode) (addInst L_cond emptyNode);
          (br, s1) =
            (if isConstInt (val condNode) then
               (if getVal (val condNode) \<noteq> 0 then newGoto L_body st else newGoto L_end st)
             else newCondGoto (val condNode) L_body L_end st);
          n2 = addInst L_body (addInst br n1);
          n3 = (case bodyNode of Some b \<Rightarrow> addInsts (blockInsts b) n2 | None \<Rightarrow> n2);
          (g, s2) = newGoto L_cond s1;
          n4 = addInst L_end (addInst g n3)
      in (n4, s2\<lparr> loopCondStack := butlast (loopCondStack s2),
                   loopEndStack := butlast (loopEndStack s2) \<rparr>))"

definition ir_break :: "IRGenerator \<Rightarrow> error + node \<times> IRGenerator" where
  "ir_break st =
     (if loopEndStack st = [] then Inl SemanticError
      else (let L_end = last (loopEndStack st);
                (g, s1) = newGoto L_end st
            in Inr (addInst g emptyNode, s1)))"

definition ir_continue :: "IRGenerator \<Rightarrow> error + node \<times> IRGenerator" where
  "ir_continue st =
     (if loopCondStack st = [] then Inl SemanticError
      else (let L_cond = last (loopCondStack st);
                (g, s1) = newGoto L_cond st
            in Inr (addInst g emptyNode, s1)))"

subsection \<open>Function calls\<close>

text \<open>
  \<^verbatim>\<open>ir_function_call\<close> before its arguments are visited, and after. The callee is
  looked up first; \<^verbatim>\<open>currentFunc->setExistFuncCall(true)\<close> dereferences the current
  function. \<open>argsCount\<close> is the number of argument nodes.
\<close>

definition ir_function_call_enter :: "string \<Rightarrow> nat \<Rightarrow> IRGenerator \<Rightarrow> error + Function \<times> IRGenerator" where
  "ir_function_call_enter funcName argsCount st =
     (case findFunction funcName st of
        None \<Rightarrow> Inl SemanticError
      | Some calledFunction \<Rightarrow>
          (case currentFunction st of
             None \<Rightarrow> Inl NullDereference
           | Some currentFunc \<Rightarrow>
               (let f1 = currentFunc\<lparr> existFuncCall := True \<rparr>;
                    f2 = (if argsCount \<noteq> 0 \<and> int argsCount > maxFuncCallArgCnt f1
                          then f1\<lparr> maxFuncCallArgCnt := int argsCount \<rparr> else f1)
                in Inr (calledFunction, st\<lparr> currentFunction := Some f2 \<rparr>))))"

definition ir_function_call_emit ::
  "Function \<Rightarrow> node \<Rightarrow> Value list \<Rightarrow> IRGenerator \<Rightarrow> error + node \<times> IRGenerator" where
  "ir_function_call_emit calledFunction n realParams st =
     (if length realParams \<noteq> paramCount calledFunction then Inl SemanticError
      else (let funcCallInst = FuncCallInstruction (nextId st) (fnName calledFunction) realParams
                                 (returnType calledFunction)
            in Inr ((addInst funcCallInst n)\<lparr> val := funcCallInst \<rparr>,
                    st\<lparr> nextId := Suc (nextId st) \<rparr>)))"

subsection \<open>Declarations\<close>

text \<open>
  \<^verbatim>\<open>ir_simple_var_def\<close> after the initialiser, when there is one, has been visited; the
  variable \<open>var\<close> was created before. At function scope a move is appended; at module
  scope the initialiser is attached to the global variable object.
\<close>

definition setInitializerOf :: "Value \<Rightarrow> Value \<Rightarrow> GlobalVariable list \<Rightarrow> GlobalVariable list" where
  "setInitializerOf var initVal gs =
     map (\<lambda>g. if Some (gvId g) = objId var then setInitializer initVal g else g) gs"

definition ir_simple_var_def_init :: "Value \<Rightarrow> node \<Rightarrow> IRGenerator \<Rightarrow> node \<times> IRGenerator" where
  "ir_simple_var_def_init var initNode st =
     (let n1 = addInsts (blockInsts initNode) (emptyNode\<lparr> val := var \<rparr>) in
      case currentFunction st of
        Some curF \<Rightarrow>
          (let (mv, s1) = newMove var (val initNode) st in (addInst mv n1, s1))
      | None \<Rightarrow> (n1, st\<lparr> globals := setInitializerOf var (val initNode) (globals st) \<rparr>))"

text \<open>
  The constant recorded for one dimension or index expression in
  \<^verbatim>\<open>ir_get_array_dimensions\<close>: its value if it is a \<^verbatim>\<open>ConstInt\<close>, else 10.
\<close>

definition dimConstant :: "Value \<Rightarrow> int32" where
  "dimConstant v = (if isConstInt v then getVal v else 10)"

definition ir_array_var_def_emit :: "Type \<Rightarrow> string \<Rightarrow> node \<Rightarrow> int32 list \<Rightarrow> IRGenerator \<Rightarrow> node \<times> IRGenerator" where
  "ir_array_var_def_emit ty name n dimConstants st =
     (let arrayType = ArrayType ty dimConstants;
          (arrayVar, s1) = newVarValue arrayType name st
      in (n\<lparr> val := arrayVar \<rparr>, s1))"

subsection \<open>Array addressing\<close>

text \<open>
  The loop of \<^verbatim>\<open>ir_calculate_array_offset\<close>, from index \<open>i\<close>. Reading
  \<^verbatim>\<open>fullDimensions[i]\<close> or \<^verbatim>\<open>indices[i]\<close> beyond the vector is undefined in the
  source and an error here.
\<close>

function array_offset_loop ::
  "nat \<Rightarrow> nat \<Rightarrow> Value list \<Rightarrow> int32 list \<Rightarrow> Value \<Rightarrow> node \<Rightarrow> IRGenerator
   \<Rightarrow> error + (Value \<times> node) \<times> IRGenerator" where
  "array_offset_loop i accessedDims indices fullDimensions linearOffset n st =
     (if i < accessedDims then
        (if length fullDimensions \<le> i \<or> length indices \<le> i then Inl IndexOutOfRange
         else
           (let multiplierVal = newConstInt (fullDimensions ! i);
                (mulInst, s1) = newBinary IRINST_OP_MUL_I linearOffset multiplierVal Int32Type st;
                n1 = addInst mulInst n;
                (addI, s2) = newBinary IRINST_OP_ADD_I mulInst (indices ! i) Int32Type s1;
                n2 = addInst addI n1
            in array_offset_loop (Suc i) accessedDims indices fullDimensions addI n2 s2))
      else Inr ((linearOffset, n), st))"
  by pat_completeness auto
termination
  by (relation "measure (\<lambda>(i, accessedDims, _). accessedDims - i)") auto

declare array_offset_loop.simps [simp del]

definition remainingSizeOf :: "int32 list \<Rightarrow> int32" where
  "remainingSizeOf remainingDims = foldl (\<lambda>remainingSize dim. remainingSize * dim) 1 remainingDims"

definition ir_calculate_array_offset ::
  "node \<Rightarrow> Value list \<Rightarrow> int32 list \<Rightarrow> nat \<Rightarrow> bool \<Rightarrow> int32 list \<Rightarrow> IRGenerator
   \<Rightarrow> error + (Value \<times> node) \<times> IRGenerator" where
  "ir_calculate_array_offset n indices fullDimensions accessedDims isFullAccess remainingDims st =
     (if accessedDims = 0 then Inr ((newConstInt 0, n), st)
      else if indices = [] then Inl IndexOutOfRange
      else
        (case array_offset_loop 1 accessedDims indices fullDimensions (indices ! 0) n st of
           Inl e \<Rightarrow> Inl e
         | Inr ((linearOffset, n1), s1) \<Rightarrow>
             if \<not> isFullAccess then
               (let remainingSize = remainingSizeOf remainingDims in
                if 1 <s remainingSize then
                  (let remainingSizeVal = newConstInt remainingSize;
                       (mulInst, s2) =
                          newBinary IRINST_OP_MUL_I linearOffset remainingSizeVal Int32Type s1
                   in Inr ((mulInst, addInst mulInst n1), s2))
                else Inr ((linearOffset, n1), s1))
             else Inr ((linearOffset, n1), s1)))"

definition ir_generate_array_access_instructions ::
  "node \<Rightarrow> node \<Rightarrow> Value \<Rightarrow> Type \<Rightarrow> bool \<Rightarrow> int32 list \<Rightarrow> IRGenerator \<Rightarrow> bool \<times> node \<times> IRGenerator" where
  "ir_generate_array_access_instructions n arrayNameNode linearOffset elementType isFullAccess
       remainingDims st =
     (let elementSize = newConstInt 4;
          (byteOffsetInst, s1) = newBinary IRINST_OP_MUL_I linearOffset elementSize Int32Type st;
          n1 = addInst byteOffsetInst n;
          ptrType = PointerType elementType;
          (addrInst, s2) = newBinary IRINST_OP_ADD_I (val arrayNameNode) byteOffsetInst ptrType s1;
          n2 = addInst addrInst n1
      in if isFullAccess then
           (let loadInst = LoadArrayInstruction (nextId s2) addrInst (newConstInt 0) elementType;
                s3 = s2\<lparr> nextId := Suc (nextId s2) \<rparr>;
                n3 = addInst loadInst n2
            in (True, n3\<lparr> val := loadInst, arrayAccessAddress := Some addrInst \<rparr>, s3))
         else
           (let sliceType = ArrayType elementType remainingDims;
                sliceInst = ArraySliceInstruction (nextId s2) addrInst sliceType;
                s3 = s2\<lparr> nextId := Suc (nextId s2) \<rparr>;
                n3 = addInst sliceInst n2
            in (True, n3\<lparr> val := sliceInst \<rparr>, s3)))"

text \<open>
  \<^verbatim>\<open>ir_array_access\<close> after the array name and the index expressions have been visited:
  \<open>n\<close> holds the index buffers, \<open>indices\<close> their values.
\<close>

definition ir_array_access_emit ::
  "node \<Rightarrow> node \<Rightarrow> Value list \<Rightarrow> IRGenerator \<Rightarrow> error + node \<times> IRGenerator" where
  "ir_array_access_emit arrayNameNode n indices st =
     (let n1 = addInsts (blockInsts arrayNameNode) n in
      case getType (val arrayNameNode) of
        None \<Rightarrow> Inl NullDereference
      | Some (ArrayType elementType fullDimensions) \<Rightarrow>
          (let accessedDims = length indices;
               totalDims = length fullDimensions;
               isFullAccess = (accessedDims = totalDims);
               remainingDims = (if \<not> isFullAccess then drop accessedDims fullDimensions else [])
           in case ir_calculate_array_offset n1 indices fullDimensions accessedDims isFullAccess
                     remainingDims st of
                Inl e \<Rightarrow> Inl e
              | Inr ((linearOffset, n2), s1) \<Rightarrow>
                  if linearOffset = NullV then Inl SemanticError
                  else
                    (let (ok, n3, s2) = ir_generate_array_access_instructions n2 arrayNameNode
                                          linearOffset elementType isFullAccess remainingDims s1
                     in if ok then Inr (n3, s2) else Inl SemanticError))
      | Some _ \<Rightarrow> Inl SemanticError)"

section \<open>The syntax tree and the walker\<close>

text \<open>
  \<^verbatim>\<open>ast_node\<close> is a tagged node with a vector of sons; \<^verbatim>\<open>AST.h\<close> is not among the
  source files. Each kind is a constructor here, and its arguments are the sons that the
  kind's handler reads, in the order of \<^verbatim>\<open>sons[0]\<close>, \<^verbatim>\<open>sons[1]\<close>, \<dots>:
  a son that may be \<^verbatim>\<open>nullptr\<close> or absent is an option, a container node
  (\<^verbatim>\<open>AST_OP_ARRAY_DIMS\<close>, \<^verbatim>\<open>AST_OP_FUNC_REAL_PARAMS\<close>) is the list of its sons.
  A declaration \<^verbatim>\<open>AST_OP_VAR_DECL(type, AST_OP_VAR_DEF(id, init))\<close> is
  \<open>AST_OP_VAR_DEF type id init\<close>, and likewise for \<^verbatim>\<open>AST_OP_ARRAY_DEF\<close>.
  \<^verbatim>\<open>AST_OP_BLOCK\<close> carries its \<^verbatim>\<open>needScope\<close> flag.
\<close>

datatype ast_node =
    AST_OP_LEAF_LITERAL_UINT int32
  | AST_OP_LEAF_VAR_ID string
  | AST_OP_LEAF_TYPE Type
  | AST_OP_ADD ast_node ast_node
  | AST_OP_SUB ast_node ast_node
  | AST_OP_MUL ast_node ast_node
  | AST_OP_DIV ast_node ast_node
  | AST_OP_MOD ast_node ast_node
  | AST_OP_LT ast_node ast_node
  | AST_OP_GT ast_node ast_node
  | AST_OP_LE ast_node ast_node
  | AST_OP_GE ast_node ast_node
  | AST_OP_EQ ast_node ast_node
  | AST_OP_NE ast_node ast_node
  | AST_OP_AND ast_node ast_node
  | AST_OP_OR ast_node ast_node
  | AST_OP_NEG ast_node
  | AST_OP_NOT ast_node
  | AST_OP_ASSIGN ast_node ast_node
  | AST_OP_RETURN "ast_node option"
  | AST_OP_IF ast_node "ast_node option" "ast_node option"
  | AST_OP_WHILE ast_node "ast_node option"
  | AST_OP_BREAK
  | AST_OP_CONTINUE
  | AST_OP_BLOCK bool "ast_node list"
  | AST_OP_FUNC_CALL string "ast_node list"
  | AST_OP_ARRAY_ACCESS ast_node "ast_node list"
  | AST_OP_DECL_STMT "ast_node list"
  | AST_OP_VAR_DEF Type string "ast_node option"
  | AST_OP_ARRAY_DEF Type string "ast_node list"

definition isArrayAccess :: "ast_node \<Rightarrow> bool" where
  "isArrayAccess a = (case a of AST_OP_ARRAY_ACCESS _ _ \<Rightarrow> True | _ \<Rightarrow> False)"

definition isLeafVarId :: "ast_node \<Rightarrow> bool" where
  "isLeafVarId a = (case a of AST_OP_LEAF_VAR_ID _ \<Rightarrow> True | _ \<Rightarrow> False)"

definition isVarDecl :: "ast_node \<Rightarrow> bool" where
  "isVarDecl a = (case a of AST_OP_VAR_DEF _ _ _ \<Rightarrow> True | AST_OP_ARRAY_DEF _ _ _ \<Rightarrow> True | _ \<Rightarrow> False)"

text \<open>
  A handler that returns \<^verbatim>\<open>false\<close> makes \<^verbatim>\<open>ir_visit_ast_node\<close> return
  \<^verbatim>\<open>nullptr\<close>, on which every caller returns \<^verbatim>\<open>false\<close> in turn: the error
  propagates to \<^verbatim>\<open>run\<close>, and the state after it is not used. (\<^verbatim>\<open>ir_and\<close> and
  \<^verbatim>\<open>ir_or\<close> visit their right operand also after the left one has failed, and
  return \<^verbatim>\<open>false\<close> then whatever the right one did.) Each handler is its definition
  above, applied to the results of the visits of its sons; what a handler does before it
  visits them (\<^verbatim>\<open>ir_while\<close>, \<^verbatim>\<open>ir_function_call\<close>, a declaration) is a
  definition of its own or is written out in the walker.
\<close>

definition andThen :: "error + 'a \<Rightarrow> ('a \<Rightarrow> error + 'b) \<Rightarrow> error + 'b" where
  "andThen r f = (case r of Inl e \<Rightarrow> Inl e | Inr x \<Rightarrow> f x)"

lemma andThen_cong [fundef_cong]:
  "r = r' \<Longrightarrow> (\<And>x. r' = Inr x \<Longrightarrow> f x = f' x) \<Longrightarrow> andThen r f = andThen r' f'"
  by (cases r') (simp_all add: andThen_def)

fun ir_visit_ast_node :: "ast_node \<Rightarrow> IRGenerator \<Rightarrow> error + node \<times> IRGenerator"
  and ir_visit_optional :: "ast_node option \<Rightarrow> IRGenerator \<Rightarrow> error + node option \<times> IRGenerator"
  and ir_block_sons :: "ast_node list \<Rightarrow> node \<Rightarrow> IRGenerator \<Rightarrow> error + node \<times> IRGenerator"
  and ir_function_call_args ::
    "ast_node list \<Rightarrow> node \<Rightarrow> Value list \<Rightarrow> IRGenerator \<Rightarrow> error + (node \<times> Value list) \<times> IRGenerator"
  and ir_get_array_dimensions ::
    "node \<Rightarrow> ast_node list \<Rightarrow> Value list \<Rightarrow> int32 list \<Rightarrow> IRGenerator
     \<Rightarrow> error + (node \<times> Value list \<times> int32 list) \<times> IRGenerator"
  and ir_declare_statment :: "ast_node list \<Rightarrow> node \<Rightarrow> IRGenerator \<Rightarrow> error + node \<times> IRGenerator"
where
  "ir_visit_ast_node (AST_OP_LEAF_LITERAL_UINT v) st =
     (let (ok, n) = ir_leaf_node_uint v in if ok then Inr (n, st) else Inl SemanticError)"
| "ir_visit_ast_node (AST_OP_LEAF_VAR_ID name) st =
     (let (ok, n) = ir_leaf_node_var_id name st in if ok then Inr (n, st) else Inl SemanticError)"
| "ir_visit_ast_node (AST_OP_LEAF_TYPE t) st = Inr (emptyNode, st)"
| "ir_visit_ast_node (AST_OP_ADD a b) st =
     andThen (ir_visit_ast_node a st) (\<lambda>(left, s1).
     andThen (ir_visit_ast_node b s1) (\<lambda>(right, s2). Inr (ir_add left right s2)))"
| "ir_visit_ast_node (AST_OP_SUB a b) st =
     andThen (ir_visit_ast_node a st) (\<lambda>(left, s1).
     andThen (ir_visit_ast_node b s1) (\<lambda>(right, s2). Inr (ir_sub left right s2)))"
| "ir_visit_ast_node (AST_OP_MUL a b) st =
     andThen (ir_visit_ast_node a st) (\<lambda>(left, s1).
     andThen (ir_visit_ast_node b s1) (\<lambda>(right, s2). Inr (ir_mul left right s2)))"
| "ir_visit_ast_node (AST_OP_DIV a b) st =
     andThen (ir_visit_ast_node a st) (\<lambda>(left, s1).
     andThen (ir_visit_ast_node b s1) (\<lambda>(right, s2). Inr (ir_div left right s2)))"
| "ir_visit_ast_node (AST_OP_MOD a b) st =
     andThen (ir_visit_ast_node a st) (\<lambda>(left, s1).
     andThen (ir_visit_ast_node b s1) (\<lambda>(right, s2). Inr (ir_mod left right s2)))"
| "ir_visit_ast_node (AST_OP_LT a b) st =
     andThen (ir_visit_ast_node a st) (\<lambda>(left, s1).
     andThen (ir_visit_ast_node b s1) (\<lambda>(right, s2). Inr (ir_lt left right s2)))"
| "ir_visit_ast_node (AST_OP_GT a b) st =
     andThen (ir_visit_ast_node a st) (\<lambda>(left, s1).
     andThen (ir_visit_ast_node b s1) (\<lambda>(right, s2). Inr (ir_gt left right s2)))"
| "ir_visit_ast_node (AST_OP_LE a b) st =
     andThen (ir_visit_ast_node a st) (\<lambda>(left, s1).
     andThen (ir_visit_ast_node b s1) (\<lambda>(right, s2). Inr (ir_le left right s2)))"
| "ir_visit_ast_node (AST_OP_GE a b) st =
     andThen (ir_visit_ast_node a st) (\<lambda>(left, s1).
     andThen (ir_visit_ast_node b s1) (\<lambda>(right, s2). Inr (ir_ge left right s2)))"
| "ir_visit_ast_node (AST_OP_EQ a b) st =
     andThen (ir_visit_ast_node a st) (\<lambda>(left, s1).
     andThen (ir_visit_ast_node b s1) (\<lambda>(right, s2). Inr (ir_eq left right s2)))"
| "ir_visit_ast_node (AST_OP_NE a b) st =
     andThen (ir_visit_ast_node a st) (\<lambda>(left, s1).
     andThen (ir_visit_ast_node b s1) (\<lambda>(right, s2). Inr (ir_ne left right s2)))"
| "ir_visit_ast_node (AST_OP_AND a b) st =
     andThen (ir_visit_ast_node a st) (\<lambda>(left, s1).
     andThen (ir_visit_ast_node b s1) (\<lambda>(right, s2). Inr (ir_and left right s2)))"
| "ir_visit_ast_node (AST_OP_OR a b) st =
     andThen (ir_visit_ast_node a st) (\<lambda>(left, s1).
     andThen (ir_visit_ast_node b s1) (\<lambda>(right, s2). Inr (ir_or left right s2)))"
| "ir_visit_ast_node (AST_OP_NEG a) st =
     andThen (ir_visit_ast_node a st) (\<lambda>(operand, s1). ir_neg operand s1)"
| "ir_visit_ast_node (AST_OP_NOT a) st =
     andThen (ir_visit_ast_node a st) (\<lambda>(operandNode, s1). Inr (ir_not operandNode s1))"
| "ir_visit_ast_node (AST_OP_ASSIGN a b) st =
     andThen (ir_visit_ast_node a st) (\<lambda>(left, s1).
     andThen (ir_visit_ast_node b s1) (\<lambda>(right, s2).
       Inr (ir_assign (isArrayAccess a) left right s2)))"
| "ir_visit_ast_node (AST_OP_RETURN e) st =
     andThen (ir_visit_optional e st) (\<lambda>(right, s1). ir_return right s1)"
| "ir_visit_ast_node (AST_OP_IF c t e) st =
     andThen (ir_visit_ast_node c st) (\<lambda>(condNode, s1).
     andThen (ir_visit_optional t s1) (\<lambda>(thenNode, s2).
     andThen (ir_visit_optional e s2) (\<lambda>(elseNode, s3).
       Inr (ir_if condNode thenNode elseNode s3))))"
| "ir_visit_ast_node (AST_OP_WHILE c b) st =
     (let (labels, s0) = ir_while_enter st in
      andThen (ir_visit_ast_node c s0) (\<lambda>(condNode, s1).
      andThen (ir_visit_optional b s1) (\<lambda>(bodyNode, s2).
        Inr (ir_while_emit labels condNode bodyNode s2))))"
| "ir_visit_ast_node AST_OP_BREAK st = ir_break st"
| "ir_visit_ast_node AST_OP_CONTINUE st = ir_continue st"
| "ir_visit_ast_node (AST_OP_BLOCK needScope sons) st =
     andThen (ir_block_sons sons emptyNode (if needScope then enterScope st else st)) (\<lambda>(n, s1).
       Inr (n, if needScope then leaveScope s1 else s1))"
| "ir_visit_ast_node (AST_OP_FUNC_CALL funcName params) st =
     andThen (ir_function_call_enter funcName (length params) st) (\<lambda>(calledFunction, s1).
     andThen (ir_function_call_args params emptyNode [] s1) (\<lambda>((n, realParams), s2).
       ir_function_call_emit calledFunction n realParams s2))"
| "ir_visit_ast_node (AST_OP_ARRAY_ACCESS a idx) st =
     andThen (ir_visit_ast_node a st) (\<lambda>(arrayNameNode, s1).
     andThen (ir_get_array_dimensions emptyNode idx [] [] s1) (\<lambda>((n, indices, indexConstants), s2).
       ir_array_access_emit arrayNameNode n indices s2))"
| "ir_visit_ast_node (AST_OP_DECL_STMT sons) st = ir_declare_statment sons emptyNode st"
| "ir_visit_ast_node (AST_OP_VAR_DEF ty name init) st =
     (let (var, s1) = newVarValue ty name st in
      case init of
        None \<Rightarrow> Inr (emptyNode\<lparr> val := var \<rparr>, s1)
      | Some initExpr \<Rightarrow>
          andThen (ir_visit_ast_node initExpr s1) (\<lambda>(initNode, s2).
            Inr (ir_simple_var_def_init var initNode s2)))"
| "ir_visit_ast_node (AST_OP_ARRAY_DEF ty name dims) st =
     andThen (ir_get_array_dimensions emptyNode dims [] [] st) (\<lambda>((n, dimSizes, dimConstants), s1).
       Inr (ir_array_var_def_emit ty name n dimConstants s1))"
| "ir_visit_optional None st = Inr (None, st)"
| "ir_visit_optional (Some a) st =
     andThen (ir_visit_ast_node a st) (\<lambda>(n, s1). Inr (Some n, s1))"
| "ir_block_sons [] n st = Inr (n, st)"
| "ir_block_sons (son # rest) n st =
     andThen (ir_visit_ast_node son st) (\<lambda>(temp, s1).
       ir_block_sons rest (addInsts (blockInsts temp) n) s1)"
| "ir_function_call_args [] n realParams st = Inr ((n, realParams), st)"
| "ir_function_call_args (son # rest) n realParams st =
     andThen (ir_visit_ast_node son st) (\<lambda>(temp, s1).
       if isLeafVarId son \<and> getType (val temp) = None then Inl NullDereference
       else ir_function_call_args rest (addInsts (blockInsts temp) n) (realParams @ [val temp]) s1)"
| "ir_get_array_dimensions n [] dimValues dimConstants st = Inr ((n, dimValues, dimConstants), st)"
| "ir_get_array_dimensions n (dimChild # rest) dimValues dimConstants st =
     andThen (ir_visit_ast_node dimChild st) (\<lambda>(dimNode, s1).
       ir_get_array_dimensions (addInsts (blockInsts dimNode) n) rest
         (dimValues @ [val dimNode]) (dimConstants @ [dimConstant (val dimNode)]) s1)"
| "ir_declare_statment [] n st = Inr (n, st)"
| "ir_declare_statment (child # rest) n st =
     (if \<not> isVarDecl child then Inl SemanticError
      else andThen (ir_visit_ast_node child st) (\<lambda>(c, s1).
             ir_declare_statment rest (addInsts (blockInsts c) n) s1))"

section \<open>What the IR computes\<close>

text \<open>
  The instruction selector (\<^verbatim>\<open>InstSelectorArm32.cpp\<close>) gives each IR instruction its
  meaning on 32-bit registers: \<^verbatim>\<open>add\<close>, \<^verbatim>\<open>sub\<close>, \<^verbatim>\<open>mul\<close>, \<^verbatim>\<open>sdiv\<close>; the
  remainder as \<^verbatim>\<open>a - (a sdiv b) * b\<close>; a comparison sets its destination to 0 and then
  to 1 under the condition; a conditional branch compares its condition with 0 and takes
  the true target when they differ. A machine state is the position in the instruction
  list, the content of every value, the memory, and the names of the functions called
  so far.
\<close>

definition sdiv32 :: "int32 \<Rightarrow> int32 \<Rightarrow> int32" where
  "sdiv32 a b = word_of_int (sint a sdiv sint b)"

fun binop :: "IRInstOperator \<Rightarrow> int32 \<Rightarrow> int32 \<Rightarrow> int32" where
  "binop IRINST_OP_ADD_I a b = a + b"
| "binop IRINST_OP_SUB_I a b = a - b"
| "binop IRINST_OP_MUL_I a b = a * b"
| "binop IRINST_OP_DIV_I a b = sdiv32 a b"
| "binop IRINST_OP_MOD_I a b = a - sdiv32 a b * b"
| "binop IRINST_OP_LT_I a b = (if a <s b then 1 else 0)"
| "binop IRINST_OP_GT_I a b = (if b <s a then 1 else 0)"
| "binop IRINST_OP_LE_I a b = (if a \<le>s b then 1 else 0)"
| "binop IRINST_OP_GE_I a b = (if b \<le>s a then 1 else 0)"
| "binop IRINST_OP_EQ_I a b = (if a = b then 1 else 0)"
| "binop IRINST_OP_NE_I a b = (if a \<noteq> b then 1 else 0)"

record machine =
  pc :: nat
  env :: "Value \<Rightarrow> int32"
  mem :: "int32 \<Rightarrow> int32"
  calls :: "string list"

text \<open>A constant is its value; every other value has a content.\<close>

definition valueOf :: "(Value \<Rightarrow> int32) \<Rightarrow> Value \<Rightarrow> int32" where
  "valueOf e v = (case v of ConstInt c \<Rightarrow> c | _ \<Rightarrow> e v)"

fun findLabel :: "Value \<Rightarrow> Value list \<Rightarrow> nat option" where
  "findLabel L [] = None"
| "findLabel L (x # xs) = (if x = L then Some 0 else map_option Suc (findLabel L xs))"

definition jumpTo :: "Value list \<Rightarrow> Value \<Rightarrow> machine \<Rightarrow> machine option" where
  "jumpTo code L m = map_option (\<lambda>p. m\<lparr> pc := p \<rparr>) (findLabel L code)"

text \<open>
  One instruction. \<open>ext\<close> is what a called function returns for its arguments. A load
  reads, and a store writes, the word at the address operand (the IR text is
  \<^verbatim>\<open>%t = *%addr\<close> and \<^verbatim>\<open>*%addr = %v\<close>; the offset operand is the constant 0).
  A slice is the address it wraps (\<^verbatim>\<open>ArraySliceInstruction::getIRName\<close> is the name of
  the address).
\<close>

fun exec :: "(string \<Rightarrow> int32 list \<Rightarrow> int32) \<Rightarrow> Value list \<Rightarrow> Value \<Rightarrow> machine \<Rightarrow> machine option" where
  "exec ext code (LabelInstruction i) m = Some (m\<lparr> pc := Suc (pc m) \<rparr>)"
| "exec ext code (GotoInstruction i c t f) m =
     (if c = NullV then jumpTo code t m
      else if valueOf (env m) c \<noteq> 0 then jumpTo code t m
      else jumpTo code f m)"
| "exec ext code (BinaryInstruction i opr a b t) m =
     Some (m\<lparr> pc := Suc (pc m),
              env := (env m)(BinaryInstruction i opr a b t :=
                               binop opr (valueOf (env m) a) (valueOf (env m) b)) \<rparr>)"
| "exec ext code (MoveInstruction i dst src) m =
     Some (m\<lparr> pc := Suc (pc m), env := (env m)(dst := valueOf (env m) src) \<rparr>)"
| "exec ext code (LoadArrayInstruction i base off t) m =
     Some (m\<lparr> pc := Suc (pc m),
              env := (env m)(LoadArrayInstruction i base off t := mem m (valueOf (env m) base)) \<rparr>)"
| "exec ext code (StoreArrayInstruction i v base off) m =
     Some (m\<lparr> pc := Suc (pc m),
              mem := (mem m)(valueOf (env m) base := valueOf (env m) v) \<rparr>)"
| "exec ext code (ArraySliceInstruction i a t) m =
     Some (m\<lparr> pc := Suc (pc m),
              env := (env m)(ArraySliceInstruction i a t := valueOf (env m) a) \<rparr>)"
| "exec ext code (FuncCallInstruction i f args t) m =
     Some (m\<lparr> pc := Suc (pc m),
              env := (env m)(FuncCallInstruction i f args t := ext f (map (valueOf (env m)) args)),
              calls := calls m @ [f] \<rparr>)"
| "exec ext code _ m = None"

definition step :: "(string \<Rightarrow> int32 list \<Rightarrow> int32) \<Rightarrow> Value list \<Rightarrow> machine \<Rightarrow> machine option" where
  "step ext code m = (if pc m < length code then exec ext code (code ! pc m) m else None)"

text \<open>
  The states that at most \<open>k\<close> steps pass through, the first one included; the run
  stops early where no instruction can be executed.
\<close>

fun run :: "(string \<Rightarrow> int32 list \<Rightarrow> int32) \<Rightarrow> Value list \<Rightarrow> nat \<Rightarrow> machine \<Rightarrow> machine list" where
  "run ext code 0 m = [m]"
| "run ext code (Suc k) m =
     m # (case step ext code m of None \<Rightarrow> [] | Some m' \<Rightarrow> run ext code k m')"

text \<open>A list of instructions executed one after the other, as a block without branches is.\<close>

fun execAll :: "(string \<Rightarrow> int32 list \<Rightarrow> int32) \<Rightarrow> Value list \<Rightarrow> machine \<Rightarrow> machine option" where
  "execAll ext [] m = Some m"
| "execAll ext (i # is) m =
     (case exec ext [] i m of None \<Rightarrow> None | Some m' \<Rightarrow> execAll ext is m')"

section \<open>Row-major addressing as the specification words it\<close>

text \<open>
  Section 4.6 of the specification: \<^verbatim>\<open>off = i1; for j in 2..=k: off = off*dj + ij\<close>;
  for a partial access the offset is multiplied by the product of the remaining
  dimensions; the byte offset is four times that. \<open>horner off is ds\<close> continues the loop
  with the indices \<open>is\<close> and their dimensions \<open>ds\<close>.
\<close>

fun horner :: "int32 \<Rightarrow> int32 list \<Rightarrow> int32 list \<Rightarrow> int32" where
  "horner off [] ds = off"
| "horner off (i # is) [] = off"
| "horner off (i # is) (d # ds) = horner (off * d + i) is ds"

definition spec_linear_offset :: "int32 list \<Rightarrow> int32 list \<Rightarrow> int32" where
  "spec_linear_offset is dims = (case is of [] \<Rightarrow> 0 | i1 # rest \<Rightarrow> horner i1 rest (tl dims))"

definition spec_byte_offset :: "int32 list \<Rightarrow> int32 list \<Rightarrow> int32" where
  "spec_byte_offset is dims =
     4 * (spec_linear_offset is dims * prod_list (drop (length is) dims))"

text \<open>The address that an array access computed: the operand of its load or of its slice.\<close>

definition accessAddress :: "node \<Rightarrow> Value" where
  "accessAddress n =
     (case val n of
        LoadArrayInstruction _ a _ _ \<Rightarrow> a
      | ArraySliceInstruction _ a _ \<Rightarrow> a
      | _ \<Rightarrow> NullV)"

subsection \<open>Counting instructions\<close>

definition isLoadArray :: "Value \<Rightarrow> bool" where
  "isLoadArray v = (case v of LoadArrayInstruction _ _ _ _ \<Rightarrow> True | _ \<Rightarrow> False)"

definition isStoreArray :: "Value \<Rightarrow> bool" where
  "isStoreArray v = (case v of StoreArrayInstruction _ _ _ _ \<Rightarrow> True | _ \<Rightarrow> False)"

definition isArraySlice :: "Value \<Rightarrow> bool" where
  "isArraySlice v = (case v of ArraySliceInstruction _ _ _ \<Rightarrow> True | _ \<Rightarrow> False)"

definition isBinary :: "Value \<Rightarrow> bool" where
  "isBinary v = (case v of BinaryInstruction _ _ _ _ _ \<Rightarrow> True | _ \<Rightarrow> False)"

text \<open>The sources of the moves into \<open>r\<close> in an instruction list, in order.\<close>

fun assignedTo :: "Value \<Rightarrow> Value list \<Rightarrow> Value list" where
  "assignedTo r [] = []"
| "assignedTo r (MoveInstruction i dst src # rest) =
     (if dst = r then src # assignedTo r rest else assignedTo r rest)"
| "assignedTo r (_ # rest) = assignedTo r rest"

subsection \<open>The layout of the widening pattern\<close>

text \<open>
  The eight instructions that \<^verbatim>\<open>convertBoolToInt\<close> appends, in the numbering of
  their allocation: \<open>k\<close> is the number of the result variable, which is created first.
\<close>

definition boolToIntPattern :: "nat \<Rightarrow> Value \<Rightarrow> Value \<Rightarrow> Value list" where
  "boolToIntPattern k boolValue result =
     [GotoInstruction (k + 4) boolValue (LabelInstruction (k + 1)) (LabelInstruction (k + 2)),
      LabelInstruction (k + 1),
      MoveInstruction (k + 5) result (ConstInt 1),
      GotoInstruction (k + 6) NullV (LabelInstruction (k + 3)) NullV,
      LabelInstruction (k + 2),
      MoveInstruction (k + 7) result (ConstInt 0),
      GotoInstruction (k + 8) NullV (LabelInstruction (k + 3)) NullV,
      LabelInstruction (k + 3)]"

subsection \<open>The layout of a short-circuit operator\<close>

text \<open>The instructions that a short-circuit operator places after its right operand.\<close>

definition shortCircuitTail :: "nat \<Rightarrow> Value \<Rightarrow> int32 \<Rightarrow> Value list" where
  "shortCircuitTail k rv c =
     [BinaryInstruction (k + 5) IRINST_OP_NE_I rv (ConstInt 0) BoolType,
      GotoInstruction (k + 10)
        (BinaryInstruction (k + 5) IRINST_OP_NE_I rv (ConstInt 0) BoolType)
        (LabelInstruction (k + 7)) (LabelInstruction (k + 8)),
      LabelInstruction (k + 7),
      MoveInstruction (k + 11) (LocalVariable (k + 6) [] Int32Type) (ConstInt 1),
      GotoInstruction (k + 12) NullV (LabelInstruction (k + 9)) NullV,
      LabelInstruction (k + 8),
      MoveInstruction (k + 13) (LocalVariable (k + 6) [] Int32Type) (ConstInt 0),
      GotoInstruction (k + 14) NullV (LabelInstruction (k + 9)) NullV,
      LabelInstruction (k + 9),
      GotoInstruction (k + 15) NullV (LabelInstruction (k + 2)) NullV,
      LabelInstruction (k + 1),
      MoveInstruction (k + 16) (LocalVariable (k + 6) [] Int32Type) (ConstInt c),
      GotoInstruction (k + 17) NullV (LabelInstruction (k + 2)) NullV,
      LabelInstruction (k + 2)]"

text \<open>
  The same instructions for any result variable, written with the widening pattern: the
  comparison of the right operand, its widening, the jump to the end label, and the
  block that sets the result when the left operand has decided.
\<close>

definition logicalTail :: "nat \<Rightarrow> Value \<Rightarrow> int32 \<Rightarrow> Value \<Rightarrow> Value list" where
  "logicalTail k rv c result =
     [BinaryInstruction (k + 5) IRINST_OP_NE_I rv (ConstInt 0) BoolType]
     @ boolToIntPattern (k + 6)
         (BinaryInstruction (k + 5) IRINST_OP_NE_I rv (ConstInt 0) BoolType) result
     @ [GotoInstruction (k + 15) NullV (LabelInstruction (k + 2)) NullV,
        LabelInstruction (k + 1),
        MoveInstruction (k + 16) result (ConstInt c),
        GotoInstruction (k + 17) NullV (LabelInstruction (k + 2)) NullV,
        LabelInstruction (k + 2)]"

section \<open>Instruction selection for branches\<close>

text \<open>
  Modelled from the spec: \<^verbatim>\<open>ILocArm32\<close> and \<^verbatim>\<open>SimpleRegisterAllocator\<close> are not
  among the source files. Section 4.9: the emitter owns the output text; \<^verbatim>\<open>inst\<close>
  appends one instruction line, \<^verbatim>\<open>jump\<close> an unconditional branch \<^verbatim>\<open>b label\<close>
  (section 4.8), \<^verbatim>\<open>load_var(reg, value)\<close> the load of a value into a register, whose
  text depends on where the value lives and is kept as one entry here. Section 4.7:
  \<^verbatim>\<open>allocate(v)\<close> returns a free register among \<^verbatim>\<open>r0\<close> to \<^verbatim>\<open>r10\<close>, marks it busy
  and records the binding, and fails (\<open>RegisterSpillNotSupported\<close>) when none is free;
  \<^verbatim>\<open>free(v)\<close> releases the register bound to the value.
\<close>

datatype ILocLine =
    ILocInst string "string list"
  | ILocLoadVar int Value

definition iloc_inst :: "string \<Rightarrow> string list \<Rightarrow> ILocLine list \<Rightarrow> ILocLine list" where
  "iloc_inst opc args code = code @ [ILocInst opc args]"

definition iloc_jump :: "string \<Rightarrow> ILocLine list \<Rightarrow> ILocLine list" where
  "iloc_jump label code = code @ [ILocInst ''b'' [label]]"

definition iloc_load_var :: "int \<Rightarrow> Value \<Rightarrow> ILocLine list \<Rightarrow> ILocLine list" where
  "iloc_load_var reg v code = code @ [ILocLoadVar reg v]"

datatype backend_error = RegisterSpillNotSupported | NotAGoto

record SimpleRegisterAllocator =
  busy :: "int list"
  bindings :: "(Value \<times> int) list"

definition Allocate :: "Value \<Rightarrow> SimpleRegisterAllocator \<Rightarrow> backend_error + int \<times> SimpleRegisterAllocator" where
  "Allocate v ra =
     (case filter (\<lambda>r. r \<notin> set (busy ra)) [0, 1, 2, 3, 4, 5, 6, 7, 8, 9, 10] of
        [] \<Rightarrow> Inl RegisterSpillNotSupported
      | r # _ \<Rightarrow> Inr (r, ra\<lparr> busy := r # busy ra, bindings := (v, r) # bindings ra \<rparr>))"

definition free :: "Value \<Rightarrow> SimpleRegisterAllocator \<Rightarrow> SimpleRegisterAllocator" where
  "free v ra =
     (case map_of (bindings ra) v of
        None \<Rightarrow> ra
      | Some r \<Rightarrow> ra\<lparr> busy := removeAll r (busy ra),
                      bindings := filter (\<lambda>b. fst b \<noteq> v) (bindings ra) \<rparr>)"

text \<open>
  \<^verbatim>\<open>InstSelectorArm32::translate_br\<close>. The register of a value (\<^verbatim>\<open>getRegId\<close>, -1 when
  it has none), the register names (\<^verbatim>\<open>PlatformArm32::regName\<close>) and the label names
  (\<^verbatim>\<open>getName\<close>) come from declarations that are not among the source files and are
  parameters. The handler is registered for \<^verbatim>\<open>IRINST_OP_GOTO\<close> only.
\<close>

definition translate_br ::
  "(Value \<Rightarrow> int) \<Rightarrow> (int \<Rightarrow> string) \<Rightarrow> (Value \<Rightarrow> string) \<Rightarrow> Value
   \<Rightarrow> SimpleRegisterAllocator \<times> ILocLine list
   \<Rightarrow> backend_error + SimpleRegisterAllocator \<times> ILocLine list" where
  "translate_br getRegId regName getName inst s =
     (case inst of
        GotoInstruction i cond Ltrue Lfalse \<Rightarrow>
          (let (ra, iloc) = s in
           if cond = NullV then Inr (ra, iloc_jump (getName Ltrue) iloc)
           else
             (let condReg = getRegId cond in
              case (if condReg = - 1 then
                      (case Allocate cond ra of
                         Inl e \<Rightarrow> Inl e
                       | Inr (loadReg, ra1) \<Rightarrow> Inr (loadReg, ra1, iloc_load_var loadReg cond iloc))
                    else Inr (condReg, ra, iloc)) of
                Inl e \<Rightarrow> Inl e
              | Inr (loadReg, ra1, iloc1) \<Rightarrow>
                  (let rCond = regName loadReg;
                       iloc2 = iloc_inst ''cmp'' [rCond, ''#0''] iloc1;
                       iloc3 = iloc_inst ''bne'' [getName Ltrue] iloc2;
                       iloc4 = iloc_jump (getName Lfalse) iloc3
                   in Inr (free cond ra1, iloc4))))
      | _ \<Rightarrow> Inl NotAGoto)"

section \<open>Example states\<close>

text \<open>
  The module before anything is declared, and the body of a function \<^verbatim>\<open>main\<close> with
  the locals \<^verbatim>\<open>int x, y; int a[3][4];\<close> in a module that also defines \<^verbatim>\<open>f\<close> and
  \<^verbatim>\<open>g\<close>, both without parameters.
\<close>

definition exampleModule :: IRGenerator where
  "exampleModule = \<lparr> nextId = 0, scopes = [[]], funcVector = [], globals = [],
       currentFunction = None, loopCondStack = [], loopEndStack = [] \<rparr>"

definition exampleMain :: Function where
  "exampleMain = \<lparr> fnName = ''main'', returnType = Int32Type, paramCount = 0,
       returnValue = LocalVariable 1 [] Int32Type, exitLabel = LabelInstruction 0,
       existFuncCall = False, maxFuncCallArgCnt = 0 \<rparr>"

definition exampleFunction :: IRGenerator where
  "exampleFunction = \<lparr> nextId = 5,
       scopes = [[(''x'', LocalVariable 2 ''x'' Int32Type),
                  (''y'', LocalVariable 3 ''y'' Int32Type),
                  (''a'', LocalVariable 4 ''a'' (ArrayType Int32Type [3, 4]))], []],
       funcVector = [exampleMain\<lparr> fnName := ''f'' \<rparr>, exampleMain\<lparr> fnName := ''g'' \<rparr>,
                     exampleMain],
       globals = [],
       currentFunction = Some exampleMain, loopCondStack = [], loopEndStack = [] \<rparr>"

text \<open>
  A machine in which every value holds 1000 and the memory is all zero, and the node of
  the array name \<^verbatim>\<open>a\<close> of the example function.
\<close>

definition exampleMachine :: machine where
  "exampleMachine = \<lparr> pc = 0, env = (\<lambda>v. 1000), mem = (\<lambda>a. 0), calls = [] \<rparr>"

definition exampleArray :: node where
  "exampleArray = emptyNode\<lparr> val := LocalVariable 4 ''a'' (ArrayType Int32Type [3, 4]) \<rparr>"

text \<open>
  The operands of \<^verbatim>\<open>g() && f()\<close> in the example function after both have been
  visited, the state of the generator then, and a machine that has just returned 0 from
  the call of \<^verbatim>\<open>g\<close>.
\<close>

definition exampleCallG :: node where
  "exampleCallG = \<lparr> val = FuncCallInstruction 5 ''g'' [] Int32Type,
       blockInsts = [FuncCallInstruction 5 ''g'' [] Int32Type], arrayAccessAddress = None \<rparr>"

definition exampleCallF :: node where
  "exampleCallF = \<lparr> val = FuncCallInstruction 6 ''f'' [] Int32Type,
       blockInsts = [FuncCallInstruction 6 ''f'' [] Int32Type], arrayAccessAddress = None \<rparr>"

definition exampleAfterCalls :: IRGenerator where
  "exampleAfterCalls = exampleFunction\<lparr> nextId := 7,
       currentFunction := Some (exampleMain\<lparr> existFuncCall := True \<rparr>) \<rparr>"

definition exampleAfterG :: machine where
  "exampleAfterG = \<lparr> pc = 1, env = (\<lambda>v. 0), mem = (\<lambda>a. 0), calls = [''g''] \<rparr>"

section \<open>Basic facts\<close>

lemmas alloc_defs = newLabel_def newBinary_def newMove_def newGoto_def newCondGoto_def
  newVarValue_def newConstInt_def declareInScope_def

lemmas node_defs = addInst_def addInsts_def emptyNode_def

lemmas handler_defs = convertBoolToInt_def ir_binary_def ir_add_def ir_sub_def ir_mul_def
  ir_div_def ir_mod_def ir_le_def ir_ge_def ir_eq_def ir_ne_def ir_compare_widened_def
  ir_lt_def ir_gt_def ir_and_def ir_or_def ir_not_def ir_leaf_node_var_id_def
  ir_leaf_node_uint_def ir_neg_def ir_assign_def ir_return_def isConstInt_def getVal_def
  ir_if_def ir_while_enter_def ir_while_emit_def ir_break_def ir_continue_def
  ir_function_call_enter_def ir_function_call_emit_def ir_simple_var_def_init_def
  dimConstant_def ir_array_var_def_emit_def remainingSizeOf_def ir_calculate_array_offset_def
  ir_generate_array_access_instructions_def ir_array_access_emit_def
  findVarValue_def findFunction_def enterScope_def leaveScope_def andThen_def
  isArrayAccess_def isLeafVarId_def isVarDecl_def

lemmas example_defs = exampleModule_def exampleMain_def exampleFunction_def

lemma valueOf_ConstInt: "valueOf e (ConstInt c) = c"
  by (simp add: valueOf_def)

lemma valueOf_older_update:
  "olderThan k v \<Longrightarrow> objId w = Some j \<Longrightarrow> k \<le> j \<Longrightarrow> valueOf (e(w := x)) v = valueOf e v"
  by (cases v) (auto simp: valueOf_def olderThan_def)

lemma olderThan_mono: "olderThan k v \<Longrightarrow> k \<le> k' \<Longrightarrow> olderThan k' v"
  by (auto simp: olderThan_def split: option.splits)

lemma execAll_append:
  "execAll ext (xs @ ys) m =
     (case execAll ext xs m of None \<Rightarrow> None | Some m' \<Rightarrow> execAll ext ys m')"
  by (induction xs arbitrary: m) (auto split: option.splits)

section \<open>Global variables and the BSS section\<close>

text \<open>
  C9. The claim: a global variable is in the BSS section if and only if it has no
  initialiser or its initialiser is the constant 0. \<^verbatim>\<open>setInitializer\<close> clears the flag
  for every non-null initialiser, so the declaration \<^verbatim>\<open>int g = 0;\<close> at module scope
  leaves a global whose \<^verbatim>\<open>isInBSSSection\<close> is false, against the claim and against the
  comment on the flag in \<^verbatim>\<open>GlobalVariable.h\<close>.
\<close>

theorem zero_initialised_global_leaves_bss:
  "ir_visit_ast_node (AST_OP_VAR_DEF Int32Type ''g'' (Some (AST_OP_LEAF_LITERAL_UINT 0)))
       exampleModule
   = Inr (emptyNode\<lparr> val := GlobalVar 0 ''g'' Int32Type \<rparr>,
          exampleModule\<lparr> nextId := 1, scopes := [[(''g'', GlobalVar 0 ''g'' Int32Type)]],
            globals := [\<lparr> gvId = 0, gvName = ''g'', gvType = Int32Type, alignment = 4,
                          inBSSSection = False, initializer = ConstInt 0 \<rparr>] \<rparr>)
   \<and> \<not> isInBSSSection (setInitializer (ConstInt 0) (newGlobalVariable 0 Int32Type ''g''))"
  by (simp add: exampleModule_def newVarValue_def declareInScope_def andThen_def
      ir_leaf_node_uint_def ir_simple_var_def_init_def emptyNode_def addInsts_def
      setInitializerOf_def setInitializer_def newGlobalVariable_def newConstInt_def Let_def
      isInBSSSection_def)

section \<open>Identifiers\<close>

text \<open>
  C5. The claim: an identifier that no scope has makes the lowering fail. The handler
  \<^verbatim>\<open>ir_leaf_node_var_id\<close> returns true whatever the lookup finds: the visit of an
  undeclared \<^verbatim>\<open>z\<close> succeeds, with a null value in the node.
\<close>

theorem undefined_identifier_succeeds:
  "fst (ir_leaf_node_var_id name st) = True
   \<and> ir_visit_ast_node (AST_OP_LEAF_VAR_ID ''z'') exampleFunction
       = Inr (emptyNode\<lparr> val := NullV \<rparr>, exampleFunction)"
  by (simp add: ir_leaf_node_var_id_def exampleFunction_def findVarValue_def emptyNode_def)

section \<open>Break and continue\<close>

text \<open>
  C8. A break is one unconditional goto to the back of the stack of loop ends, a
  continue one to the back of the stack of loop conditions; with an empty stack the
  handler fails and the node has no instruction. The loop that is being entered pushes
  its own \<^verbatim>\<open>L_cond\<close> and \<^verbatim>\<open>L_end\<close>, which are then the innermost entries.
\<close>

theorem break_continue_innermost_loop:
  "ir_visit_ast_node AST_OP_BREAK st =
     (if loopEndStack st = [] then Inl SemanticError
      else Inr (emptyNode\<lparr> blockInsts :=
                   [GotoInstruction (nextId st) NullV (last (loopEndStack st)) NullV] \<rparr>,
                st\<lparr> nextId := Suc (nextId st) \<rparr>))
   \<and> ir_visit_ast_node AST_OP_CONTINUE st =
     (if loopCondStack st = [] then Inl SemanticError
      else Inr (emptyNode\<lparr> blockInsts :=
                   [GotoInstruction (nextId st) NullV (last (loopCondStack st)) NullV] \<rparr>,
                st\<lparr> nextId := Suc (nextId st) \<rparr>))
   \<and> last (loopCondStack (snd (ir_while_enter st))) = fst (fst (ir_while_enter st))
   \<and> last (loopEndStack (snd (ir_while_enter st))) = snd (snd (fst (ir_while_enter st)))"
  by (simp add: ir_break_def ir_continue_def ir_while_enter_def newGoto_def newLabel_def
      addInst_def emptyNode_def Let_def)

theorem break_continue_innermost_loop_witness:
  "ir_visit_ast_node AST_OP_BREAK exampleFunction = Inl SemanticError
   \<and> ir_visit_ast_node AST_OP_CONTINUE exampleFunction = Inl SemanticError
   \<and> map_sum id (blockInsts \<circ> fst)
        (ir_visit_ast_node AST_OP_BREAK (snd (ir_while_enter exampleFunction)))
       = Inr [GotoInstruction 8 NullV (LabelInstruction 7) NullV]
   \<and> map_sum id (blockInsts \<circ> fst)
        (ir_visit_ast_node AST_OP_CONTINUE (snd (ir_while_enter exampleFunction)))
       = Inr [GotoInstruction 8 NullV (LabelInstruction 5) NullV]
   \<and> map_sum id (blockInsts \<circ> fst)
        (ir_visit_ast_node
           (AST_OP_WHILE (AST_OP_LEAF_VAR_ID ''x'')
              (Some (AST_OP_BLOCK True [AST_OP_BREAK, AST_OP_CONTINUE])))
           exampleFunction)
       = Inr [LabelInstruction 5,
              GotoInstruction 10 (LocalVariable 2 ''x'' Int32Type)
                (LabelInstruction 6) (LabelInstruction 7),
              LabelInstruction 6,
              GotoInstruction 8 NullV (LabelInstruction 7) NullV,
              GotoInstruction 9 NullV (LabelInstruction 5) NullV,
              GotoInstruction 11 NullV (LabelInstruction 5) NullV,
              LabelInstruction 7]"
proof -
  have e: "loopEndStack exampleFunction = []" "loopCondStack exampleFunction = []"
    by (simp_all add: exampleFunction_def)
  have w: "loopEndStack (snd (ir_while_enter exampleFunction)) = [LabelInstruction 7]"
    "loopCondStack (snd (ir_while_enter exampleFunction)) = [LabelInstruction 5]"
    "nextId (snd (ir_while_enter exampleFunction)) = 8"
    by (simp_all add: ir_while_enter_def newLabel_def exampleFunction_def Let_def)
  have a: "ir_visit_ast_node AST_OP_BREAK exampleFunction = Inl SemanticError
     \<and> ir_visit_ast_node AST_OP_CONTINUE exampleFunction = Inl SemanticError"
    using break_continue_innermost_loop[of exampleFunction] e by simp
  have b: "map_sum id (blockInsts \<circ> fst)
        (ir_visit_ast_node AST_OP_BREAK (snd (ir_while_enter exampleFunction)))
       = Inr [GotoInstruction 8 NullV (LabelInstruction 7) NullV]
     \<and> map_sum id (blockInsts \<circ> fst)
        (ir_visit_ast_node AST_OP_CONTINUE (snd (ir_while_enter exampleFunction)))
       = Inr [GotoInstruction 8 NullV (LabelInstruction 5) NullV]"
    using break_continue_innermost_loop[of "snd (ir_while_enter exampleFunction)"] w
    by (simp add: emptyNode_def)
  have c: "map_sum id (blockInsts \<circ> fst)
        (ir_visit_ast_node
           (AST_OP_WHILE (AST_OP_LEAF_VAR_ID ''x'')
              (Some (AST_OP_BLOCK True [AST_OP_BREAK, AST_OP_CONTINUE])))
           exampleFunction)
       = Inr [LabelInstruction 5,
              GotoInstruction 10 (LocalVariable 2 ''x'' Int32Type)
                (LabelInstruction 6) (LabelInstruction 7),
              LabelInstruction 6,
              GotoInstruction 8 NullV (LabelInstruction 7) NullV,
              GotoInstruction 9 NullV (LabelInstruction 5) NullV,
              GotoInstruction 11 NullV (LabelInstruction 5) NullV,
              LabelInstruction 7]"
    by (simp add: example_defs handler_defs alloc_defs node_defs Let_def)
  from a b c show ?thesis by blast
qed

section \<open>Constant conditions\<close>

text \<open>
  C3, as the claim states it: for an if statement whose condition is a constant, only the
  body of the branch that the constant selects is emitted. It fails for
  \<^verbatim>\<open>if (1) x = 1; else x = 2;\<close>: the buffer holds the move of the else branch as well.
\<close>

theorem constant_if_emits_both_branches:
  "map_sum id (blockInsts \<circ> fst)
     (ir_visit_ast_node
        (AST_OP_IF (AST_OP_LEAF_LITERAL_UINT 1)
           (Some (AST_OP_ASSIGN (AST_OP_LEAF_VAR_ID ''x'') (AST_OP_LEAF_LITERAL_UINT 1)))
           (Some (AST_OP_ASSIGN (AST_OP_LEAF_VAR_ID ''x'') (AST_OP_LEAF_LITERAL_UINT 2))))
        exampleFunction)
   = Inr [GotoInstruction 10 NullV (LabelInstruction 7) NullV,
          LabelInstruction 7,
          MoveInstruction 5 (LocalVariable 2 ''x'' Int32Type) (ConstInt 1),
          GotoInstruction 11 NullV (LabelInstruction 9) NullV,
          LabelInstruction 8,
          MoveInstruction 6 (LocalVariable 2 ''x'' Int32Type) (ConstInt 2),
          LabelInstruction 9]"
  by (simp add: example_defs handler_defs alloc_defs node_defs Let_def)

text \<open>
  C3, amended: for a constant condition the lowering replaces the conditional branch by
  one unconditional goto, to \<^verbatim>\<open>L_then\<close> for a non-zero constant and to \<^verbatim>\<open>L_else\<close>
  for zero; both branch bodies are still emitted, in the layout of the general case.
\<close>

theorem constant_if_branch:
  "isConstInt (val condNode) \<Longrightarrow>
   blockInsts (fst (ir_if condNode thenNode elseNode st)) =
     blockInsts condNode
     @ [GotoInstruction (nextId st + 3) NullV
          (LabelInstruction (if getVal (val condNode) \<noteq> 0 then nextId st else nextId st + 1)) NullV,
        LabelInstruction (nextId st)]
     @ (case thenNode of Some t \<Rightarrow> blockInsts t | None \<Rightarrow> [])
     @ [GotoInstruction (nextId st + 4) NullV (LabelInstruction (nextId st + 2)) NullV,
        LabelInstruction (nextId st + 1)]
     @ (case elseNode of Some e \<Rightarrow> blockInsts e | None \<Rightarrow> [])
     @ [LabelInstruction (nextId st + 2)]"
  by (simp add: ir_if_def alloc_defs node_defs Let_def split: option.splits)

theorem constant_if_branch_witness:
  "isConstInt (val (emptyNode\<lparr> val := ConstInt 0 \<rparr>))
   \<and> blockInsts (fst (ir_if (emptyNode\<lparr> val := ConstInt 0 \<rparr>)
         (Some (emptyNode\<lparr> blockInsts := [MoveInstruction 3 (LocalVariable 2 ''x'' Int32Type) (ConstInt 1)] \<rparr>))
         None exampleFunction))
     = [GotoInstruction 8 NullV (LabelInstruction 6) NullV,
        LabelInstruction 5,
        MoveInstruction 3 (LocalVariable 2 ''x'' Int32Type) (ConstInt 1),
        GotoInstruction 9 NullV (LabelInstruction 7) NullV,
        LabelInstruction 6,
        LabelInstruction 7]"
  using constant_if_branch[of "emptyNode\<lparr> val := ConstInt 0 \<rparr>"
      "Some (emptyNode\<lparr> blockInsts := [MoveInstruction 3 (LocalVariable 2 ''x'' Int32Type) (ConstInt 1)] \<rparr>)"
      None exampleFunction]
  by (simp add: isConstInt_def getVal_def emptyNode_def exampleFunction_def)

section \<open>Branches in ARM32\<close>

text \<open>
  C7. An unconditional goto is the single line \<^verbatim>\<open>b\<close> to its target. A conditional
  goto whose condition has a register is \<^verbatim>\<open>cmp r, #0\<close>, \<^verbatim>\<open>bne\<close> to the true
  target and \<^verbatim>\<open>b\<close> to the false target, in that order; when the condition has no
  register, one is allocated and the load of the condition into it comes first.
\<close>

theorem translate_br_emits:
  "translate_br getRegId regName getName (GotoInstruction i cond Ltrue Lfalse) (ra, iloc) =
     (if cond = NullV then Inr (ra, iloc @ [ILocInst ''b'' [getName Ltrue]])
      else if getRegId cond \<noteq> - 1 then
        Inr (free cond ra,
             iloc @ [ILocInst ''cmp'' [regName (getRegId cond), ''#0''],
                     ILocInst ''bne'' [getName Ltrue],
                     ILocInst ''b'' [getName Lfalse]])
      else case Allocate cond ra of
             Inl e \<Rightarrow> Inl e
           | Inr (r, ra1) \<Rightarrow>
               Inr (free cond ra1,
                    iloc @ [ILocLoadVar r cond,
                            ILocInst ''cmp'' [regName r, ''#0''],
                            ILocInst ''bne'' [getName Ltrue],
                            ILocInst ''b'' [getName Lfalse]]))"
  by (simp add: translate_br_def iloc_jump_def iloc_inst_def iloc_load_var_def Let_def
      split: sum.splits prod.splits)

theorem translate_br_emits_witness:
  "translate_br (\<lambda>v. - 1) (\<lambda>r. if r = 0 then ''r0'' else ''r1'')
      (\<lambda>l. if l = LabelInstruction 7 then ''.L1'' else ''.L2'')
      (GotoInstruction 9 (LocalVariable 2 ''x'' Int32Type) (LabelInstruction 7) (LabelInstruction 8))
      (\<lparr> busy = [], bindings = [] \<rparr>, [])
   = Inr (\<lparr> busy = [], bindings = [] \<rparr>,
          [ILocLoadVar 0 (LocalVariable 2 ''x'' Int32Type),
           ILocInst ''cmp'' [''r0'', ''#0''],
           ILocInst ''bne'' [''.L1''],
           ILocInst ''b'' [''.L2'']])"
  using translate_br_emits[of "\<lambda>v. - 1" "\<lambda>r. if r = 0 then ''r0'' else ''r1''"
      "\<lambda>l. if l = LabelInstruction 7 then ''.L1'' else ''.L2''" 9
      "LocalVariable 2 ''x'' Int32Type" "LabelInstruction 7" "LabelInstruction 8"
      "\<lparr> busy = [], bindings = [] \<rparr>" "[]"]
  by (simp add: Allocate_def free_def)

section \<open>Row-major addressing\<close>

lemma array_offset_loop_exec:
  assumes "array_offset_loop i k indices dims off n st = Inr ((off', n'), st')"
    and "\<forall>v\<in>set indices. olderThan (nextId st) v"
    and "olderThan (nextId st) off"
  shows "\<exists>new m'. blockInsts n' = blockInsts n @ new \<and> list_all isBinary new
           \<and> val n' = val n \<and> arrayAccessAddress n' = arrayAccessAddress n
           \<and> nextId st \<le> nextId st' \<and> olderThan (nextId st') off'
           \<and> execAll ext new m = Some m'
           \<and> valueOf (env m') off' =
               horner (valueOf (env m) off) (map (valueOf (env m)) (drop i (take k indices))) (drop i dims)
           \<and> (\<forall>v. olderThan (nextId st) v \<longrightarrow> valueOf (env m') v = valueOf (env m) v)
           \<and> mem m' = mem m \<and> calls m' = calls m"
  using assms
proof (induction "k - i" arbitrary: i off n st m)
  case 0
  then have "\<not> i < k" by simp
  with "0.prems"(1) have eq: "off' = off" "n' = n" "st' = st"
    by (simp_all add: array_offset_loop.simps[of i])
  from \<open>\<not> i < k\<close> have "drop i (take k indices) = []" by simp
  with eq "0.prems" show ?case
    by (intro exI[of _ "[]"] exI[of _ m]) simp
next
  case (Suc d)
  note prems = Suc.prems
    have True: "i < k" using Suc.hyps(2) by simp
  show ?case
  proof -
    from True prems(1) have len: "i < length dims" "i < length indices"
      by (auto simp: array_offset_loop.simps[of i] split: if_splits)
    define mulInst where "mulInst = BinaryInstruction (nextId st) IRINST_OP_MUL_I off
        (ConstInt (dims ! i)) Int32Type"
    define addI where "addI = BinaryInstruction (Suc (nextId st)) IRINST_OP_ADD_I mulInst
        (indices ! i) Int32Type"
    define st2 where "st2 = st\<lparr> nextId := Suc (Suc (nextId st)) \<rparr>"
    define n2 where "n2 = addInst addI (addInst mulInst n)"
    have rec: "array_offset_loop (Suc i) k indices dims addI n2 st2
                 = Inr ((off', n'), st')"
      using prems(1) True len
      by (simp add: array_offset_loop.simps[of i] alloc_defs Let_def mulInst_def addI_def st2_def n2_def)
    define m1 where "m1 = m\<lparr> pc := Suc (pc m),
        env := (env m)(mulInst := valueOf (env m) off * dims ! i) \<rparr>"
    have idx_old: "olderThan (nextId st) (indices ! i)"
      using prems(2) len by simp
    define m2 where "m2 = m1\<lparr> pc := Suc (pc m1),
        env := (env m1)(addI := valueOf (env m) off * dims ! i
                                  + valueOf (env m) (indices ! i)) \<rparr>"
    have e1: "exec ext [] mulInst m = Some m1"
      by (simp add: mulInst_def m1_def valueOf_def)
    have v1: "valueOf (env m1) mulInst = valueOf (env m) off * dims ! i"
      by (simp add: m1_def valueOf_def mulInst_def)
    have v1i: "valueOf (env m1) (indices ! i) = valueOf (env m) (indices ! i)"
      unfolding m1_def using valueOf_older_update[OF idx_old, of mulInst "nextId st"]
      by (simp add: mulInst_def)
    have e2: "exec ext [] addI m1 = Some m2"
      using v1 v1i by (simp add: addI_def m2_def)
    have old2: "\<And>v. olderThan (nextId st) v \<Longrightarrow> valueOf (env m2) v = valueOf (env m) v"
    proof -
      fix v assume o: "olderThan (nextId st) v"
      have "valueOf (env m2) v = valueOf (env m1) v"
        unfolding m2_def using valueOf_older_update[OF o, of addI "Suc (nextId st)"]
        by (simp add: addI_def)
      also have "\<dots> = valueOf (env m) v"
        unfolding m1_def using valueOf_older_update[OF o, of mulInst "nextId st"]
        by (simp add: mulInst_def)
      finally show "valueOf (env m2) v = valueOf (env m) v" .
    qed
    have p2: "\<forall>v\<in>set indices. olderThan (nextId st2) v"
      using prems(2) by (auto simp: st2_def intro: olderThan_mono)
    have p3: "olderThan (nextId st2) addI"
      by (simp add: st2_def addI_def olderThan_def)
    have dk: "d = k - Suc i" using Suc.hyps(2) by simp
    from Suc.hyps(1)[OF dk rec p2 p3, of m2]
    obtain new m' where IH:
      "blockInsts n' = blockInsts n2 @ new" "list_all isBinary new"
      "val n' = val n2" "arrayAccessAddress n' = arrayAccessAddress n2"
      "nextId st2 \<le> nextId st'" "olderThan (nextId st') off'"
      "execAll ext new m2 = Some m'"
      "valueOf (env m') off' =
         horner (valueOf (env m2) addI) (map (valueOf (env m2)) (drop (Suc i) (take k indices)))
           (drop (Suc i) dims)"
      "\<forall>v. olderThan (nextId st2) v \<longrightarrow> valueOf (env m') v = valueOf (env m2) v"
      "mem m' = mem m2" "calls m' = calls m2"
      by blast
    have map_eq: "map (valueOf (env m2)) (drop (Suc i) (take k indices))
                  = map (valueOf (env m)) (drop (Suc i) (take k indices))"
    proof (rule map_cong[OF refl])
      fix v assume "v \<in> set (drop (Suc i) (take k indices))"
      then have "v \<in> set indices" by (meson in_set_dropD in_set_takeD)
      then show "valueOf (env m2) v = valueOf (env m) v"
        using prems(2) old2 by blast
    qed
    have va: "valueOf (env m2) addI = valueOf (env m) off * dims ! i
                                  + valueOf (env m) (indices ! i)"
      by (simp add: m2_def valueOf_def addI_def)
    have dr1: "drop i (take k indices) = indices ! i # drop (Suc i) (take k indices)"
      using True len by (simp add: Cons_nth_drop_Suc[symmetric])
    have dr2: "drop i dims = dims ! i # drop (Suc i) dims"
      using len by (simp add: Cons_nth_drop_Suc)
    show ?thesis
    proof (intro exI[of _ "[mulInst, addI] @ new"] exI[of _ m'] conjI)
      show "blockInsts n' = blockInsts n @ [mulInst, addI] @ new"
        using IH(1) by (simp add: n2_def node_defs)
      show "list_all isBinary ([mulInst, addI] @ new)"
        using IH(2) by (simp add: isBinary_def mulInst_def addI_def)
      show "val n' = val n" using IH(3) by (simp add: n2_def node_defs)
      show "arrayAccessAddress n' = arrayAccessAddress n" using IH(4) by (simp add: n2_def node_defs)
      show "nextId st \<le> nextId st'" using IH(5) by (simp add: st2_def)
      show "olderThan (nextId st') off'" by (rule IH(6))
      show "execAll ext ([mulInst, addI] @ new) m = Some m'"
        using e1 e2 IH(7) by simp
      show "valueOf (env m') off' =
         horner (valueOf (env m) off) (map (valueOf (env m)) (drop i (take k indices)))
           (drop i dims)"
        using IH(8) map_eq va by (simp add: dr1 dr2)
      show "\<forall>v. olderThan (nextId st) v \<longrightarrow> valueOf (env m') v = valueOf (env m) v"
      proof (intro allI impI)
        fix v assume o: "olderThan (nextId st) v"
        then have "olderThan (nextId st2) v" by (auto simp: st2_def intro: olderThan_mono)
        then have "valueOf (env m') v = valueOf (env m2) v" using IH(9) by blast
        then show "valueOf (env m') v = valueOf (env m) v" using old2[OF o] by simp
      qed
      show "mem m' = mem m" using IH(10) by (simp add: m2_def m1_def)
      show "calls m' = calls m" using IH(11) by (simp add: m2_def m1_def)
    qed
  qed
qed


lemma array_offset_loop_total:
  "k \<le> length indices \<Longrightarrow> k \<le> length dims \<Longrightarrow>
   \<exists>r. array_offset_loop i k indices dims off n st = Inr r"
proof (induction "k - i" arbitrary: i off n st)
  case 0
  then show ?case by (simp add: array_offset_loop.simps[of i])
next
  case (Suc d)
  then have "i < k" "d = k - Suc i" by simp_all
  with Suc.prems Suc.hyps(1)[of "Suc i"] show ?case
    by (simp add: array_offset_loop.simps[of i] alloc_defs Let_def)
qed

lemma array_offset_loop_nonnull:
  "array_offset_loop i k indices dims off n st = Inr ((off', n'), st') \<Longrightarrow> off \<noteq> NullV
   \<Longrightarrow> off' \<noteq> NullV"
proof (induction "k - i" arbitrary: i off n st)
  case 0
  then show ?case by (simp add: array_offset_loop.simps[of i])
next
  case (Suc d)
  then have "i < k" "d = k - Suc i" by simp_all
  with Suc.prems Suc.hyps(1)[of "Suc i"] show ?case
    by (auto simp: array_offset_loop.simps[of i] alloc_defs Let_def split: if_splits)
qed

lemma remainingSizeOf_prod: "remainingSizeOf ds = prod_list ds"
proof -
  have "foldl (\<lambda>a d. a * d) (x::int32) ds = x * prod_list ds" for x
    by (induction ds arbitrary: x) (simp_all add: mult.assoc)
  then show ?thesis by (simp add: remainingSizeOf_def)
qed

lemma signed_one: "0 <s (x::int32) \<Longrightarrow> \<not> 1 <s x \<Longrightarrow> x = 1"
proof -
  assume "0 <s x" "\<not> 1 <s x"
  then have "sint x = 1" by (simp add: word_sless_alt)
  then have "sint x = sint (1::int32)" by simp
  then show "x = 1" by (rule signed_word_eqI)
qed


lemma spec_linear_offset_eq:
  "indices \<noteq> [] \<Longrightarrow>
   horner (f (indices ! 0)) (map f (drop 1 (take (length indices) indices))) (drop 1 dims)
   = spec_linear_offset (map f indices) dims"
  by (cases indices) (simp_all add: spec_linear_offset_def drop_Suc)


text \<open>
  C1. For an access with \<open>k\<close> indices to an array of \<open>n \<ge> k\<close> dimensions, the
  instructions that the access appends compute, from any machine state, the address
  \<open>base + 4 * off * p\<close> in 32-bit arithmetic, where \<open>off\<close> is the Horner form over the
  index values and the dimensions 2 to \<open>k\<close>, and \<open>p\<close> the product of the remaining
  dimensions; a full access then loads from that address, a partial one yields it. The
  dimensions are positive and the size of the remaining block fits an \<^verbatim>\<open>int32_t\<close> (the
  product is positive as a signed word); the index values and the array are older than
  the instructions created here, and no index is null.
\<close>

theorem row_major_addressing:
  assumes ty: "getType (val arrayNameNode) = Some (ArrayType elementType fullDimensions)"
    and kn: "length indices \<le> length fullDimensions"
    and pos: "length indices < length fullDimensions \<longrightarrow>
                0 <s prod_list (drop (length indices) fullDimensions)"
    and old: "\<forall>v\<in>set indices. olderThan (nextId st) v"
    and oldb: "olderThan (nextId st) (val arrayNameNode)"
    and nonnull: "NullV \<notin> set indices"
  shows "\<exists>n' st' new m'.
           ir_array_access_emit arrayNameNode n indices st = Inr (n', st')
         \<and> blockInsts n' = blockInsts n @ blockInsts arrayNameNode @ new
         \<and> execAll ext new m = Some m'
         \<and> valueOf (env m') (accessAddress n') =
             valueOf (env m) (val arrayNameNode)
             + spec_byte_offset (map (valueOf (env m)) indices) fullDimensions
         \<and> valueOf (env m') (val n') =
             (if length indices = length fullDimensions
              then mem m (valueOf (env m') (accessAddress n'))
              else valueOf (env m') (accessAddress n'))"
proof -
  define k where "k = length indices"
  define full where "full = (k = length fullDimensions)"
  define rem where "rem = (if \<not> full then drop k fullDimensions else [])"
  define n1 where "n1 = addInsts (blockInsts arrayNameNode) n"
  let ?V = "valueOf (env m)"
  let ?base = "val arrayNameNode"
  \<comment> \<open>the linear offset\<close>
  have "\<exists>off n2 s1 new1 m1.
          ir_calculate_array_offset n1 indices fullDimensions k full rem st = Inr ((off, n2), s1)
        \<and> blockInsts n2 = blockInsts n1 @ new1 \<and> execAll ext new1 m = Some m1
        \<and> nextId st \<le> nextId s1 \<and> olderThan (nextId s1) off \<and> off \<noteq> NullV
        \<and> valueOf (env m1) off
            = spec_linear_offset (map ?V indices) fullDimensions * prod_list (drop k fullDimensions)
        \<and> (\<forall>v. olderThan (nextId st) v \<longrightarrow> valueOf (env m1) v = ?V v)
        \<and> mem m1 = mem m"
  proof (cases "k = 0")
    case True
    then have "indices = []" by (simp add: k_def)
    then show ?thesis
      by (intro exI[of _ "ConstInt 0"] exI[of _ n1] exI[of _ st] exI[of _ "[]"] exI[of _ m])
         (simp add: ir_calculate_array_offset_def k_def newConstInt_def olderThan_def
                    spec_linear_offset_def valueOf_def)
  next
    case False
    then have ne: "indices \<noteq> []" by (simp add: k_def)
    from array_offset_loop_total[of k indices fullDimensions 1 "indices ! 0" n1 st] kn
    obtain off0 n2 s1 where
      loop: "array_offset_loop 1 k indices fullDimensions (indices ! 0) n1 st = Inr ((off0, n2), s1)"
      by (auto simp: k_def)
    have o0: "olderThan (nextId st) (indices ! 0)" using old ne by simp
    from array_offset_loop_exec[OF loop old o0, of ext m]
    obtain new0 m0 where L:
      "blockInsts n2 = blockInsts n1 @ new0" "nextId st \<le> nextId s1"
      "olderThan (nextId s1) off0" "execAll ext new0 m = Some m0"
      "valueOf (env m0) off0 =
         horner (?V (indices ! 0)) (map ?V (drop 1 (take k indices))) (drop 1 fullDimensions)"
      "\<forall>v. olderThan (nextId st) v \<longrightarrow> valueOf (env m0) v = ?V v"
      "mem m0 = mem m"
      by blast
    have lin: "valueOf (env m0) off0 = spec_linear_offset (map ?V indices) fullDimensions"
      using L(5) spec_linear_offset_eq[OF ne, of ?V fullDimensions] by (simp add: k_def)
    have "indices ! 0 \<noteq> NullV" using nonnull ne by (metis nth_mem length_greater_0_conv)
    then have nn0: "off0 \<noteq> NullV" by (rule array_offset_loop_nonnull[OF loop])
    show ?thesis
    proof (cases "\<not> full \<and> 1 <s remainingSizeOf rem")
      case False
      have one: "prod_list (drop k fullDimensions) = 1"
      proof (cases full)
        case True
        then show ?thesis by (simp add: full_def)
      next
        case nf: False
        then have "k < length fullDimensions" using kn by (simp add: full_def k_def)
        then have "0 <s prod_list (drop k fullDimensions)" using pos by (simp add: k_def)
        moreover have "\<not> 1 <s prod_list (drop k fullDimensions)"
          using False nf by (simp add: rem_def remainingSizeOf_prod)
        ultimately show ?thesis by (rule signed_one)
      qed
      have "ir_calculate_array_offset n1 indices fullDimensions k full rem st = Inr ((off0, n2), s1)"
        using loop False \<open>k \<noteq> 0\<close> ne by (auto simp: ir_calculate_array_offset_def Let_def)
      then show ?thesis
        using L lin one nn0
        by (intro exI[of _ off0] exI[of _ n2] exI[of _ s1] exI[of _ new0] exI[of _ m0]) simp
    next
      case True
      define mulInst where "mulInst = BinaryInstruction (nextId s1) IRINST_OP_MUL_I off0
          (ConstInt (remainingSizeOf rem)) Int32Type"
      define s2 where "s2 = s1\<lparr> nextId := Suc (nextId s1) \<rparr>"
      define m1 where "m1 = m0\<lparr> pc := Suc (pc m0),
          env := (env m0)(mulInst := valueOf (env m0) off0 * remainingSizeOf rem) \<rparr>"
      have rs: "remainingSizeOf rem = prod_list (drop k fullDimensions)"
        using True by (simp add: rem_def remainingSizeOf_prod)
      have calc: "ir_calculate_array_offset n1 indices fullDimensions k full rem st
                    = Inr ((mulInst, addInst mulInst n2), s2)"
        using loop True \<open>k \<noteq> 0\<close> ne
        by (auto simp: ir_calculate_array_offset_def Let_def alloc_defs mulInst_def s2_def)
      have e: "exec ext [] mulInst m0 = Some m1"
        by (simp add: mulInst_def m1_def valueOf_def)
      have old1: "\<And>v. olderThan (nextId st) v \<Longrightarrow> valueOf (env m1) v = ?V v"
      proof -
        fix v assume o: "olderThan (nextId st) v"
        then have "olderThan (nextId s1) v" using L(2) by (rule olderThan_mono)
        then have "valueOf (env m1) v = valueOf (env m0) v"
          unfolding m1_def using valueOf_older_update[of "nextId s1" v mulInst "nextId s1"]
          by (simp add: mulInst_def)
        then show "valueOf (env m1) v = ?V v" using L(6) o by simp
      qed
      show ?thesis
      proof (intro exI[of _ mulInst] exI[of _ "addInst mulInst n2"] exI[of _ s2]
                   exI[of _ "new0 @ [mulInst]"] exI[of _ m1] conjI)
        show "ir_calculate_array_offset n1 indices fullDimensions k full rem st
                = Inr ((mulInst, addInst mulInst n2), s2)" by (rule calc)
        show "blockInsts (addInst mulInst n2) = blockInsts n1 @ new0 @ [mulInst]"
          using L(1) by (simp add: node_defs)
        show "execAll ext (new0 @ [mulInst]) m = Some m1"
          using L(4) e by (simp add: execAll_append)
        show "nextId st \<le> nextId s2" using L(2) by (simp add: s2_def)
        show "olderThan (nextId s2) mulInst" by (simp add: s2_def mulInst_def olderThan_def)
        show "mulInst \<noteq> NullV" by (simp add: mulInst_def)
        show "valueOf (env m1) mulInst
                = spec_linear_offset (map ?V indices) fullDimensions * prod_list (drop k fullDimensions)"
          using lin rs by (simp add: m1_def valueOf_def mulInst_def)
        show "\<forall>v. olderThan (nextId st) v \<longrightarrow> valueOf (env m1) v = ?V v"
          using old1 by blast
        show "mem m1 = mem m" using L(7) by (simp add: m1_def)
      qed
    qed
  qed
  then obtain off n2 s1 new1 m1 where C:
      "ir_calculate_array_offset n1 indices fullDimensions k full rem st = Inr ((off, n2), s1)"
      "blockInsts n2 = blockInsts n1 @ new1" "execAll ext new1 m = Some m1"
      "nextId st \<le> nextId s1" "olderThan (nextId s1) off" "off \<noteq> NullV"
      "valueOf (env m1) off
         = spec_linear_offset (map ?V indices) fullDimensions * prod_list (drop k fullDimensions)"
      "\<forall>v. olderThan (nextId st) v \<longrightarrow> valueOf (env m1) v = ?V v"
      "mem m1 = mem m"
    by blast
  \<comment> \<open>the byte offset and the address\<close>
  define byteOffsetInst where "byteOffsetInst =
      BinaryInstruction (nextId s1) IRINST_OP_MUL_I off (ConstInt 4) Int32Type"
  define addrInst where "addrInst =
      BinaryInstruction (Suc (nextId s1)) IRINST_OP_ADD_I ?base byteOffsetInst (PointerType elementType)"
  define final where "final =
      (if full then LoadArrayInstruction (Suc (Suc (nextId s1))) addrInst (ConstInt 0) elementType
       else ArraySliceInstruction (Suc (Suc (nextId s1))) addrInst (ArrayType elementType rem))"
  define n' where "n' =
      (if full then (addInst final (addInst addrInst (addInst byteOffsetInst n2)))
                      \<lparr> val := final, arrayAccessAddress := Some addrInst \<rparr>
       else (addInst final (addInst addrInst (addInst byteOffsetInst n2)))\<lparr> val := final \<rparr>)"
  define s3 where "s3 = s1\<lparr> nextId := Suc (Suc (Suc (nextId s1))) \<rparr>"
  define m2 where "m2 = m1\<lparr> pc := Suc (pc m1),
      env := (env m1)(byteOffsetInst := valueOf (env m1) off * 4) \<rparr>"
  define m3 where "m3 = m2\<lparr> pc := Suc (pc m2),
      env := (env m2)(addrInst := ?V ?base + valueOf (env m1) off * 4) \<rparr>"
  define m4 where "m4 = m3\<lparr> pc := Suc (pc m3),
      env := (env m3)(final := (if full then mem m (?V ?base + valueOf (env m1) off * 4)
                                else ?V ?base + valueOf (env m1) off * 4)) \<rparr>"
  have emit: "ir_array_access_emit arrayNameNode n indices st = Inr (n', s3)"
    using C(1,6) ty
    by (simp add: ir_array_access_emit_def ir_generate_array_access_instructions_def Let_def
        alloc_defs k_def[symmetric] full_def[symmetric] rem_def[symmetric] n1_def[symmetric]
        byteOffsetInst_def addrInst_def final_def n'_def s3_def)
  have e1: "exec ext [] byteOffsetInst m1 = Some m2"
    by (simp add: byteOffsetInst_def m2_def valueOf_def)
  have baseold: "olderThan (nextId s1) ?base" using oldb C(4) by (rule olderThan_mono)
  have vb: "valueOf (env m2) ?base = ?V ?base"
  proof -
    have "valueOf (env m2) ?base = valueOf (env m1) ?base"
      unfolding m2_def using valueOf_older_update[OF baseold, of byteOffsetInst "nextId s1"]
      by (simp add: byteOffsetInst_def)
    then show ?thesis using C(8) oldb by simp
  qed
  have vo: "valueOf (env m2) byteOffsetInst = valueOf (env m1) off * 4"
    by (simp add: m2_def valueOf_def byteOffsetInst_def)
  have e2: "exec ext [] addrInst m2 = Some m3"
    using vb vo by (simp add: addrInst_def m3_def)
  have va: "valueOf (env m3) addrInst = ?V ?base + valueOf (env m1) off * 4"
    by (simp add: m3_def valueOf_def addrInst_def)
  have e3: "exec ext [] final m3 = Some m4"
    using va C(9) by (simp add: final_def m4_def m3_def m2_def)
  have va4: "valueOf (env m4) addrInst = ?V ?base + valueOf (env m1) off * 4"
    using va by (simp add: m4_def valueOf_def addrInst_def final_def)
  have vf4: "valueOf (env m4) final = (if full then mem m (?V ?base + valueOf (env m1) off * 4)
                                else ?V ?base + valueOf (env m1) off * 4)"
    by (simp add: m4_def valueOf_def final_def)
  have acc: "accessAddress n' = addrInst"
    by (simp add: accessAddress_def n'_def final_def node_defs)
  have valn: "val n' = final" by (simp add: n'_def)
  have byte: "valueOf (env m1) off * 4 = spec_byte_offset (map ?V indices) fullDimensions"
    using C(7) by (simp add: spec_byte_offset_def k_def mult.commute)
  show ?thesis
  proof (intro exI[of _ n'] exI[of _ s3] exI[of _ "new1 @ [byteOffsetInst, addrInst, final]"]
               exI[of _ m4] conjI)
    show "ir_array_access_emit arrayNameNode n indices st = Inr (n', s3)" by (rule emit)
    show "blockInsts n' = blockInsts n @ blockInsts arrayNameNode
            @ new1 @ [byteOffsetInst, addrInst, final]"
      using C(2) by (simp add: n'_def n1_def node_defs)
    show "execAll ext (new1 @ [byteOffsetInst, addrInst, final]) m = Some m4"
      using C(3) e1 e2 e3 by (simp add: execAll_append)
    show "valueOf (env m4) (accessAddress n') =
            ?V ?base + spec_byte_offset (map ?V indices) fullDimensions"
      using va4 byte acc by simp
    show "valueOf (env m4) (val n') =
            (if length indices = length fullDimensions
             then mem m (valueOf (env m4) (accessAddress n'))
             else valueOf (env m4) (accessAddress n'))"
      using vf4 va4 acc valn by (simp add: full_def k_def)
  qed
qed

theorem row_major_addressing_witness:
  "(\<exists>n' st' new m'.
       ir_array_access_emit exampleArray emptyNode [ConstInt 1, ConstInt 2] exampleFunction
         = Inr (n', st')
     \<and> blockInsts n' = new
     \<and> execAll (\<lambda>f args. 0) new exampleMachine = Some m'
     \<and> valueOf (env m') (accessAddress n') = 1000 + 24
     \<and> valueOf (env m') (val n') = 0)
   \<and> 0 <s prod_list (drop 1 [3, 4 :: int32])
   \<and> (\<exists>n' st' new m'.
       ir_array_access_emit exampleArray emptyNode [ConstInt 1] exampleFunction = Inr (n', st')
     \<and> blockInsts n' = new
     \<and> execAll (\<lambda>f args. 0) new exampleMachine = Some m'
     \<and> valueOf (env m') (accessAddress n') = 1000 + 16
     \<and> valueOf (env m') (val n') = 1000 + 16)"
proof -
  have pos: "0 <s prod_list (drop 1 [3, 4 :: int32])"
    by (simp add: word_sless_alt)
  have a: "getType (val exampleArray) = Some (ArrayType Int32Type [3, 4])"
    by (simp add: exampleArray_def emptyNode_def)
  have b: "olderThan (nextId exampleFunction) (val exampleArray)"
    by (simp add: exampleArray_def emptyNode_def exampleFunction_def olderThan_def)
  have v: "valueOf (env exampleMachine) (val exampleArray) = 1000"
    by (simp add: exampleArray_def emptyNode_def exampleMachine_def valueOf_def)
  have m0: "mem exampleMachine x = 0" for x by (simp add: exampleMachine_def)
  have bi: "blockInsts emptyNode = []" "blockInsts exampleArray = []"
    by (simp_all add: exampleArray_def emptyNode_def)
  from row_major_addressing[where arrayNameNode = exampleArray and indices = "[ConstInt 1, ConstInt 2]"
      and st = exampleFunction and ext = "\<lambda>f args. 0" and n = emptyNode and m = exampleMachine,
      OF a _ _ _ b]
  have full: "\<exists>n' st' new m'.
       ir_array_access_emit exampleArray emptyNode [ConstInt 1, ConstInt 2] exampleFunction
         = Inr (n', st')
     \<and> blockInsts n' = new
     \<and> execAll (\<lambda>f args. 0) new exampleMachine = Some m'
     \<and> valueOf (env m') (accessAddress n') = 1000 + 24
     \<and> valueOf (env m') (val n') = 0"
    by (simp add: olderThan_def spec_byte_offset_def spec_linear_offset_def valueOf_ConstInt v m0 bi)
  from row_major_addressing[where arrayNameNode = exampleArray and indices = "[ConstInt 1]"
      and st = exampleFunction and ext = "\<lambda>f args. 0" and n = emptyNode and m = exampleMachine,
      OF a _ _ _ b] pos
  have part: "\<exists>n' st' new m'.
       ir_array_access_emit exampleArray emptyNode [ConstInt 1] exampleFunction = Inr (n', st')
     \<and> blockInsts n' = new
     \<and> execAll (\<lambda>f args. 0) new exampleMachine = Some m'
     \<and> valueOf (env m') (accessAddress n') = 1000 + 16
     \<and> valueOf (env m') (val n') = 1000 + 16"
    by (auto simp add: olderThan_def spec_byte_offset_def spec_linear_offset_def valueOf_ConstInt v bi)
  from full pos part show ?thesis by blast
qed

section \<open>Loads and stores of array elements\<close>

text \<open>
  C2, as the claim states it: an array access on the left of an assignment has its
  \<^verbatim>\<open>LoadArray\<close> suppressed and a \<^verbatim>\<open>StoreArray\<close> in its place. It fails for
  \<^verbatim>\<open>a[1][2] = 7;\<close>: the buffer of the assignment holds one \<^verbatim>\<open>LoadArray\<close> and one
  \<^verbatim>\<open>StoreArray\<close>.
\<close>

theorem assigned_array_access_keeps_load:
  "map_sum id (\<lambda>r. (length (filter isLoadArray (blockInsts (fst r))),
                     length (filter isStoreArray (blockInsts (fst r)))))
     (ir_visit_ast_node
        (AST_OP_ASSIGN
           (AST_OP_ARRAY_ACCESS (AST_OP_LEAF_VAR_ID ''a'')
              [AST_OP_LEAF_LITERAL_UINT 1, AST_OP_LEAF_LITERAL_UINT 2])
           (AST_OP_LEAF_LITERAL_UINT 7))
        exampleFunction)
   = Inr (1, 1)"
  by (simp add: example_defs handler_defs alloc_defs node_defs Let_def array_offset_loop.simps
      isLoadArray_def isStoreArray_def)

lemma array_offset_loop_shape:
  "array_offset_loop i k indices dims off n st = Inr ((off', n'), st') \<Longrightarrow>
   \<exists>new. blockInsts n' = blockInsts n @ new \<and> list_all isBinary new"
proof (induction "k - i" arbitrary: i off n st)
  case 0
  then show ?case by (simp add: array_offset_loop.simps[of i])
next
  case (Suc d)
  then have ik: "i < k" "d = k - Suc i" by simp_all
  with Suc.prems have len: "i < length dims" "i < length indices"
    by (auto simp: array_offset_loop.simps[of i] split: if_splits)
  define mulInst where "mulInst = BinaryInstruction (nextId st) IRINST_OP_MUL_I off
      (ConstInt (dims ! i)) Int32Type"
  define addI where "addI = BinaryInstruction (Suc (nextId st)) IRINST_OP_ADD_I mulInst
      (indices ! i) Int32Type"
  have "array_offset_loop (Suc i) k indices dims addI (addInst addI (addInst mulInst n))
          (st\<lparr> nextId := Suc (Suc (nextId st)) \<rparr>) = Inr ((off', n'), st')"
    using Suc.prems ik len
    by (simp add: array_offset_loop.simps[of i] alloc_defs Let_def mulInst_def addI_def)
  from Suc.hyps(1)[OF ik(2) this] obtain new where
    "blockInsts n' = blockInsts (addInst addI (addInst mulInst n)) @ new" "list_all isBinary new"
    by blast
  then show ?case
    by (intro exI[of _ "[mulInst, addI] @ new"])
       (simp add: node_defs isBinary_def mulInst_def addI_def)
qed

lemma ir_calculate_array_offset_shape:
  assumes "ir_calculate_array_offset n indices dims k full rem st = Inr ((off, n'), st')"
  shows "\<exists>new. blockInsts n' = blockInsts n @ new \<and> list_all isBinary new"
proof (cases "k = 0")
  case True
  with assms show ?thesis by (simp add: ir_calculate_array_offset_def)
next
  case False
  with assms obtain off0 n0 s0 where
    loop: "array_offset_loop 1 k indices dims (indices ! 0) n st = Inr ((off0, n0), s0)"
    by (auto simp: ir_calculate_array_offset_def split: if_splits sum.splits)
  from array_offset_loop_shape[OF loop] obtain new0 where
    n0: "blockInsts n0 = blockInsts n @ new0" "list_all isBinary new0" by blast
  from assms False loop have
    "n' = n0 \<or> (\<exists>j x. n' = addInst (BinaryInstruction j IRINST_OP_MUL_I off0 x Int32Type) n0)"
    by (auto simp: ir_calculate_array_offset_def alloc_defs Let_def split: if_splits)
  then show ?thesis
  proof
    assume "n' = n0" with n0 show ?thesis by blast
  next
    assume "\<exists>j x. n' = addInst (BinaryInstruction j IRINST_OP_MUL_I off0 x Int32Type) n0"
    then obtain j x where "n' = addInst (BinaryInstruction j IRINST_OP_MUL_I off0 x Int32Type) n0"
      by blast
    with n0 show ?thesis
      by (intro exI[of _ "new0 @ [BinaryInstruction j IRINST_OP_MUL_I off0 x Int32Type]"])
         (simp add: node_defs isBinary_def)
  qed
qed

text \<open>
  C2, amended: an array access appends, after its index buffers and the buffer of the
  array name, binary instructions for the address and then exactly one more instruction,
  its result: a \<^verbatim>\<open>LoadArray\<close> for a full access, whose address is recorded for the
  node, a slice for a partial one. An assignment to an array access emits the buffer of
  the right side, then the whole buffer of the access, its \<^verbatim>\<open>LoadArray\<close> included,
  and then a single \<^verbatim>\<open>StoreArray\<close> to the recorded address.
\<close>

theorem array_access_load_then_store:
  assumes "ir_array_access_emit arrayNameNode n indices st = Inr (n', st')"
  shows "\<exists>offs elementType fullDimensions.
           getType (val arrayNameNode) = Some (ArrayType elementType fullDimensions)
         \<and> blockInsts n' = blockInsts n @ blockInsts arrayNameNode @ offs @ [val n']
         \<and> list_all isBinary offs
         \<and> isLoadArray (val n') = (length indices = length fullDimensions)
         \<and> isArraySlice (val n') = (length indices \<noteq> length fullDimensions)
         \<and> (length indices = length fullDimensions \<longrightarrow>
                arrayAccessAddress n' = Some (accessAddress n'))
         \<and> blockInsts (fst (ir_assign True n' right s)) =
              blockInsts right @ blockInsts n'
              @ [StoreArrayInstruction (nextId s) (val right)
                   (case arrayAccessAddress n' of Some a \<Rightarrow> a | None \<Rightarrow> NullV) (ConstInt 0)]"
proof -
  from assms obtain elementType fullDimensions where
    ty: "getType (val arrayNameNode) = Some (ArrayType elementType fullDimensions)"
    by (auto simp: ir_array_access_emit_def Let_def split: option.splits Type.splits)
  define k where "k = length indices"
  define full where "full = (k = length fullDimensions)"
  define rem where "rem = (if \<not> full then drop k fullDimensions else [])"
  define n1 where "n1 = addInsts (blockInsts arrayNameNode) n"
  from assms ty obtain off n2 s1 where
    calc: "ir_calculate_array_offset n1 indices fullDimensions k full rem st = Inr ((off, n2), s1)"
    and gen: "ir_generate_array_access_instructions n2 arrayNameNode off elementType full rem s1
                = (True, n', st')"
    by (auto simp: ir_array_access_emit_def Let_def k_def full_def rem_def n1_def
        split: sum.splits if_splits prod.splits)
  from ir_calculate_array_offset_shape[OF calc] obtain new where
    new: "blockInsts n2 = blockInsts n1 @ new" "list_all isBinary new" by blast
  define byteOffsetInst where "byteOffsetInst =
      BinaryInstruction (nextId s1) IRINST_OP_MUL_I off (ConstInt 4) Int32Type"
  define addrInst where "addrInst =
      BinaryInstruction (Suc (nextId s1)) IRINST_OP_ADD_I (val arrayNameNode) byteOffsetInst
        (PointerType elementType)"
  have blk: "blockInsts n' = blockInsts n2 @ [byteOffsetInst, addrInst, val n']"
    and vl: "isLoadArray (val n') = full" "isArraySlice (val n') = (\<not> full)"
    and ad: "arrayAccessAddress n' = (if full then Some (accessAddress n') else arrayAccessAddress n2)"
    using gen
    by (auto simp: ir_generate_array_access_instructions_def alloc_defs node_defs Let_def
        byteOffsetInst_def addrInst_def isLoadArray_def isArraySlice_def accessAddress_def
        split: if_splits)
  show ?thesis
  proof (intro exI[of _ "new @ [byteOffsetInst, addrInst]"] exI[of _ elementType]
               exI[of _ fullDimensions] conjI)
    show "getType (val arrayNameNode) = Some (ArrayType elementType fullDimensions)" by (rule ty)
    show "blockInsts n' = blockInsts n @ blockInsts arrayNameNode
            @ (new @ [byteOffsetInst, addrInst]) @ [val n']"
      using blk new(1) by (simp add: n1_def node_defs)
    show "list_all isBinary (new @ [byteOffsetInst, addrInst])"
      using new(2) by (simp add: isBinary_def byteOffsetInst_def addrInst_def)
    show "isLoadArray (val n') = (length indices = length fullDimensions)"
      using vl(1) by (simp add: full_def k_def)
    show "isArraySlice (val n') = (length indices \<noteq> length fullDimensions)"
      using vl(2) by (simp add: full_def k_def)
    show "length indices = length fullDimensions \<longrightarrow>
            arrayAccessAddress n' = Some (accessAddress n')"
      using ad by (simp add: full_def k_def)
    show "blockInsts (fst (ir_assign True n' right s)) =
            blockInsts right @ blockInsts n'
            @ [StoreArrayInstruction (nextId s) (val right)
                 (case arrayAccessAddress n' of Some a \<Rightarrow> a | None \<Rightarrow> NullV) (ConstInt 0)]"
      by (simp add: ir_assign_def node_defs newConstInt_def Let_def)
  qed
qed

theorem array_access_load_then_store_witness:
  "\<exists>n' st'.
      ir_array_access_emit exampleArray emptyNode [ConstInt 1, ConstInt 2] exampleFunction
        = Inr (n', st')
    \<and> isLoadArray (val n')
    \<and> arrayAccessAddress n' = Some (accessAddress n')
    \<and> blockInsts (fst (ir_assign True n' (emptyNode\<lparr> val := ConstInt 7 \<rparr>) st')) =
         blockInsts n'
         @ [StoreArrayInstruction (nextId st') (ConstInt 7) (accessAddress n') (ConstInt 0)]"
proof -
  have "\<exists>n' st'. ir_array_access_emit exampleArray emptyNode [ConstInt 1, ConstInt 2]
                    exampleFunction = Inr (n', st')"
    by (simp add: exampleArray_def example_defs handler_defs alloc_defs node_defs Let_def
        array_offset_loop.simps)
  then obtain n' st' where
    e: "ir_array_access_emit exampleArray emptyNode [ConstInt 1, ConstInt 2] exampleFunction
          = Inr (n', st')"
    by blast
  have ty: "getType (val exampleArray) = Some (ArrayType Int32Type [3, 4])"
    by (simp add: exampleArray_def emptyNode_def)
  from array_access_load_then_store[OF e, of "emptyNode\<lparr> val := ConstInt 7 \<rparr>" st'] ty
  have "isLoadArray (val n')
      \<and> arrayAccessAddress n' = Some (accessAddress n')
      \<and> blockInsts (fst (ir_assign True n' (emptyNode\<lparr> val := ConstInt 7 \<rparr>) st')) =
         blockInsts n'
         @ [StoreArrayInstruction (nextId st') (ConstInt 7) (accessAddress n') (ConstInt 0)]"
    by (auto simp: emptyNode_def)
  with e show ?thesis by blast
qed

section \<open>Comparisons\<close>


text \<open>The buffers and values of the comparison handlers and of a bare \<^verbatim>\<open>if\<close>.\<close>

lemma convertBoolToInt_layout:
  shows "fst (convertBoolToInt n b s) =
     ((if currentFunction s = None then GlobalVar (nextId s) [] Int32Type
       else LocalVariable (nextId s) [] Int32Type),
      addInsts (boolToIntPattern (nextId s) b
         (if currentFunction s = None then GlobalVar (nextId s) [] Int32Type
          else LocalVariable (nextId s) [] Int32Type)) n)"
  and "nextId (snd (convertBoolToInt n b s)) = nextId s + 9"
  by (auto simp: convertBoolToInt_def alloc_defs Let_def numeral_eq_Suc boolToIntPattern_def
      split: option.splits)

lemma ir_compare_widened_layout:
  shows "val (fst (ir_compare_widened opr l r st)) =
     (if currentFunction st = None then GlobalVar (nextId st + 1) [] Int32Type
      else LocalVariable (nextId st + 1) [] Int32Type)"
  and "blockInsts (fst (ir_compare_widened opr l r st)) =
     blockInsts l @ blockInsts r
     @ [BinaryInstruction (nextId st) opr (val l) (val r) BoolType]
     @ boolToIntPattern (nextId st + 1)
         (BinaryInstruction (nextId st) opr (val l) (val r) BoolType)
         (if currentFunction st = None then GlobalVar (nextId st + 1) [] Int32Type
          else LocalVariable (nextId st + 1) [] Int32Type)"
  and "nextId (snd (ir_compare_widened opr l r st)) = nextId st + 10"
  by (auto simp: ir_compare_widened_def convertBoolToInt_def alloc_defs node_defs Let_def
      numeral_eq_Suc boolToIntPattern_def split: option.splits)






section \<open>Running the emitted branches\<close>

lemma map_option_plus0: "map_option ((+) (0::nat)) x = x"
  by (cases x) simp_all

lemma findLabel_append:
  "findLabel L (xs @ ys) =
     (if L \<in> set xs then findLabel L xs else map_option (\<lambda>i. length xs + i) (findLabel L ys))"
  by (induction xs) (auto simp: option.map_comp comp_def map_option_plus0)

lemma findLabel_skip:
  "L \<notin> set xs \<Longrightarrow> findLabel L (xs @ ys) = map_option (\<lambda>i. length xs + i) (findLabel L ys)"
  by (simp add: findLabel_append)

lemma run_extend:
  "length (run ext code k m) = Suc k \<Longrightarrow> step ext code (last (run ext code k m)) = Some m'
   \<Longrightarrow> run ext code (Suc k) m = run ext code k m @ [m']"
proof (induction k arbitrary: m)
  case 0
  then show ?case by simp
next
  case (Suc k)
  show ?case
  proof (cases "step ext code m")
    case None
    with Suc.prems show ?thesis by simp
  next
    case (Some m1)
    have ne: "run ext code k m1 \<noteq> []" by (cases k) simp_all
    from Suc.prems Some have l: "length (run ext code k m1) = Suc k" by simp
    from Suc.prems Some ne have s: "step ext code (last (run ext code k m1)) = Some m'" by simp
    from Suc.IH[OF l s] Some show ?thesis by simp
  qed
qed

lemma run_first:
  "step ext code m = Some m1 \<Longrightarrow> run ext code (Suc k) m = m # run ext code k m1"
  by simp

text \<open>The widening pattern, from its branch to its join label.\<close>

lemma pattern_run:
  assumes code: "code = pre @ boolToIntPattern k b r @ post"
    and dist: "distinct code"
    and pc: "pc m = length pre"
    and b: "b \<noteq> NullV"
  shows "length (run ext code 4 m) = 5
       \<and> last (run ext code 4 m)
           = m\<lparr> pc := length pre + 7,
                 env := (env m)(r := (if valueOf (env m) b \<noteq> 0 then 1 else 0)) \<rparr>"
proof -
  let ?pat = "boolToIntPattern k b r"
  have np: "LabelInstruction (k + 1) \<notin> set pre" "LabelInstruction (k + 2) \<notin> set pre"
    "LabelInstruction (k + 3) \<notin> set pre"
    using dist by (auto simp: code boolToIntPattern_def)
  have f1: "findLabel (LabelInstruction (k + 1)) code = Some (length pre + 1)"
    using np by (simp add: code boolToIntPattern_def findLabel_append)
  have f2: "findLabel (LabelInstruction (k + 2)) code = Some (length pre + 4)"
    using np by (simp add: code boolToIntPattern_def findLabel_append)
  have f3: "findLabel (LabelInstruction (k + 3)) code = Some (length pre + 7)"
    using np by (simp add: code boolToIntPattern_def findLabel_append)
  have lp: "length ?pat = 8" by (simp add: boolToIntPattern_def)
  have nth: "code ! (length pre + j) = ?pat ! j" if "j < 8" for j
    unfolding code using that by (simp add: nth_append lp)
  have len: "length pre + 7 < length code" by (simp add: code boolToIntPattern_def)
  show ?thesis
  proof (cases "valueOf (env m) b \<noteq> 0")
    case True
    define m1 where "m1 = m\<lparr> pc := length pre + 1 \<rparr>"
    define m2 where "m2 = m1\<lparr> pc := length pre + 2 \<rparr>"
    define m3 where "m3 = m2\<lparr> pc := length pre + 3, env := (env m)(r := 1) \<rparr>"
    define m4 where "m4 = m3\<lparr> pc := length pre + 7 \<rparr>"
    have s1: "step ext code m = Some m1"
      using True b pc len nth[of 0] f1
      by (simp add: step_def boolToIntPattern_def jumpTo_def m1_def)
    have s2: "step ext code m1 = Some m2"
      using len nth[of 1] by (simp add: step_def boolToIntPattern_def m1_def m2_def)
    have s3: "step ext code m2 = Some m3"
      using len nth[of 2]
      by (simp add: step_def boolToIntPattern_def m1_def m2_def m3_def valueOf_def)
    have s4: "step ext code m3 = Some m4"
      using len nth[of 3] f3 by (simp add: step_def boolToIntPattern_def m3_def m4_def jumpTo_def)
    have "run ext code 4 m = [m, m1, m2, m3, m4]"
      using s1 s2 s3 s4 by (simp add: numeral_eq_Suc)
    then show ?thesis
      using True by (simp add: m1_def m2_def m3_def m4_def)
  next
    case False
    define m1 where "m1 = m\<lparr> pc := length pre + 4 \<rparr>"
    define m2 where "m2 = m1\<lparr> pc := length pre + 5 \<rparr>"
    define m3 where "m3 = m2\<lparr> pc := length pre + 6, env := (env m)(r := 0) \<rparr>"
    define m4 where "m4 = m3\<lparr> pc := length pre + 7 \<rparr>"
    have s1: "step ext code m = Some m1"
      using False b pc len nth[of 0] f2
      by (simp add: step_def boolToIntPattern_def jumpTo_def m1_def)
    have s2: "step ext code m1 = Some m2"
      using len nth[of 4] by (simp add: step_def boolToIntPattern_def m1_def m2_def)
    have s3: "step ext code m2 = Some m3"
      using len nth[of 5]
      by (simp add: step_def boolToIntPattern_def m1_def m2_def m3_def valueOf_def)
    have s4: "step ext code m3 = Some m4"
      using len nth[of 6] f3 by (simp add: step_def boolToIntPattern_def m3_def m4_def jumpTo_def)
    have "run ext code 4 m = [m, m1, m2, m3, m4]"
      using s1 s2 s3 s4 by (simp add: numeral_eq_Suc)
    then show ?thesis
      using False by (simp add: m1_def m2_def m3_def m4_def)
  qed
qed

text \<open>A comparison followed by the widening of its result.\<close>

lemma compare_run:
  fixes x y :: Value and i :: nat and opr :: IRInstOperator and t :: Type
  defines "cmp \<equiv> BinaryInstruction i opr x y t"
  assumes code: "code = pre @ [cmp] @ boolToIntPattern k cmp r @ post"
    and dist: "distinct code"
    and pc: "pc m = length pre"
  shows "length (run ext code 5 m) = 6
       \<and> last (run ext code 5 m)
           = m\<lparr> pc := length pre + 8,
                 env := (env m)(cmp := binop opr (valueOf (env m) x) (valueOf (env m) y),
                                r := (if binop opr (valueOf (env m) x) (valueOf (env m) y) \<noteq> 0
                                      then 1 else 0)) \<rparr>"
proof -
  define v where "v = binop opr (valueOf (env m) x) (valueOf (env m) y)"
  define m1 where "m1 = m\<lparr> pc := length pre + 1, env := (env m)(cmp := v) \<rparr>"
  have n0: "code ! length pre = cmp" unfolding code by simp
  have len: "length pre < length code" by (simp add: code)
  have s1: "step ext code m = Some m1"
    using pc len n0 by (simp add: step_def m1_def cmp_def v_def)
  have code': "code = (pre @ [cmp]) @ boolToIntPattern k cmp r @ post" using code by simp
  have pc1: "pc m1 = length (pre @ [cmp])" by (simp add: m1_def)
  have nn: "cmp \<noteq> NullV" by (simp add: cmp_def)
  have vc: "valueOf (env m1) cmp = v" by (simp add: m1_def valueOf_def cmp_def)
  from pattern_run[OF code' dist pc1 nn, of ext]
  have P: "length (run ext code 4 m1) = 5"
    "last (run ext code 4 m1)
       = m1\<lparr> pc := length (pre @ [cmp]) + 7,
              env := (env m1)(r := (if valueOf (env m1) cmp \<noteq> 0 then 1 else 0)) \<rparr>"
    by simp_all
  have ne: "run ext code 4 m1 \<noteq> []" using P(1) by auto
  have r5: "run ext code 5 m = m # run ext code 4 m1"
    using run_first[OF s1, of 4] by (simp add: numeral_eq_Suc)
  show ?thesis
    using P ne by (simp add: r5 vc) (simp add: m1_def v_def)
qed

lemma ir_not_layout:
  shows "val (fst (ir_not l st)) =
     (if currentFunction st = None then GlobalVar (nextId st + 1) [] Int32Type
      else LocalVariable (nextId st + 1) [] Int32Type)"
  and "blockInsts (fst (ir_not l st)) =
     blockInsts l
     @ [BinaryInstruction (nextId st) IRINST_OP_EQ_I (val l) (ConstInt 0) BoolType]
     @ boolToIntPattern (nextId st + 1)
         (BinaryInstruction (nextId st) IRINST_OP_EQ_I (val l) (ConstInt 0) BoolType)
         (if currentFunction st = None then GlobalVar (nextId st + 1) [] Int32Type
          else LocalVariable (nextId st + 1) [] Int32Type)"
  by (auto simp: ir_not_def convertBoolToInt_def alloc_defs node_defs Let_def
      numeral_eq_Suc boolToIntPattern_def split: option.splits)

lemma ir_and_layout:
  shows "val (fst (ir_and l r st)) =
     (if currentFunction st = None then GlobalVar (nextId st + 6) [] Int32Type
      else LocalVariable (nextId st + 6) [] Int32Type)"
  and "blockInsts (fst (ir_and l r st)) =
     blockInsts l
     @ [BinaryInstruction (nextId st + 3) IRINST_OP_NE_I (val l) (ConstInt 0) BoolType,
        GotoInstruction (nextId st + 4)
          (BinaryInstruction (nextId st + 3) IRINST_OP_NE_I (val l) (ConstInt 0) BoolType)
          (LabelInstruction (nextId st)) (LabelInstruction (nextId st + 1)),
        LabelInstruction (nextId st)]
     @ blockInsts r
     @ logicalTail (nextId st) (val r) 0
         (if currentFunction st = None then GlobalVar (nextId st + 6) [] Int32Type
          else LocalVariable (nextId st + 6) [] Int32Type)"
  by (auto simp: ir_and_def convertBoolToInt_def alloc_defs node_defs Let_def
      numeral_eq_Suc boolToIntPattern_def logicalTail_def split: option.splits)

lemma ir_or_layout:
  shows "val (fst (ir_or l r st)) =
     (if currentFunction st = None then GlobalVar (nextId st + 6) [] Int32Type
      else LocalVariable (nextId st + 6) [] Int32Type)"
  and "blockInsts (fst (ir_or l r st)) =
     blockInsts l
     @ [BinaryInstruction (nextId st + 3) IRINST_OP_NE_I (val l) (ConstInt 0) BoolType,
        GotoInstruction (nextId st + 4)
          (BinaryInstruction (nextId st + 3) IRINST_OP_NE_I (val l) (ConstInt 0) BoolType)
          (LabelInstruction (nextId st + 1)) (LabelInstruction (nextId st)),
        LabelInstruction (nextId st)]
     @ blockInsts r
     @ logicalTail (nextId st) (val r) 1
         (if currentFunction st = None then GlobalVar (nextId st + 6) [] Int32Type
          else LocalVariable (nextId st + 6) [] Int32Type)"
  by (auto simp: ir_or_def convertBoolToInt_def alloc_defs node_defs Let_def
      numeral_eq_Suc boolToIntPattern_def logicalTail_def split: option.splits)

text \<open>From the comparison of the right operand to the end label of the operator.\<close>

lemma logical_right_run:
  fixes k :: nat and rv res :: Value and c :: int32
  defines "cmpR \<equiv> BinaryInstruction (k + 5) IRINST_OP_NE_I rv (ConstInt 0) BoolType"
  assumes code: "code = pre @ logicalTail k rv c res @ post"
    and dist: "distinct code"
    and pc: "pc m = length pre"
  shows "length (run ext code 7 m) = 8
       \<and> last (run ext code 7 m)
           = m\<lparr> pc := length pre + 13,
                 env := (env m)(cmpR := (if valueOf (env m) rv \<noteq> 0 then 1 else 0),
                                res := (if valueOf (env m) rv \<noteq> 0 then 1 else 0)) \<rparr>"
proof -
  let ?rest = "[GotoInstruction (k + 15) NullV (LabelInstruction (k + 2)) NullV,
        LabelInstruction (k + 1),
        MoveInstruction (k + 16) res (ConstInt c),
        GotoInstruction (k + 17) NullV (LabelInstruction (k + 2)) NullV,
        LabelInstruction (k + 2)]"
  define v :: int32 where "v = (if valueOf (env m) rv \<noteq> 0 then 1 else 0)"
  define m5 where "m5 = m\<lparr> pc := length pre + 8, env := (env m)(cmpR := v, res := v) \<rparr>"
  define m6 where "m6 = m5\<lparr> pc := length pre + 9 \<rparr>"
  define m7 where "m7 = m6\<lparr> pc := length pre + 13 \<rparr>"
  have code1: "code = pre @ [cmpR] @ boolToIntPattern (k + 6) cmpR res @ (?rest @ post)"
    using code by (simp add: logicalTail_def cmpR_def)
  have bv: "binop IRINST_OP_NE_I (valueOf (env m) rv) (valueOf (env m) (ConstInt 0)) = v"
    by (simp add: v_def valueOf_ConstInt)
  have vv: "(if v \<noteq> 0 then 1 else 0) = v" by (simp add: v_def)
  from compare_run[OF code1[unfolded cmpR_def] dist pc, of ext]
  have R5: "length (run ext code 5 m) = 6" "last (run ext code 5 m) = m5"
    by (auto simp: m5_def cmpR_def v_def valueOf_ConstInt)
  let ?P = "pre @ [cmpR] @ boolToIntPattern (k + 6) cmpR res"
  have lpat: "length (boolToIntPattern (k + 6) cmpR res) = 8" by (simp add: boolToIntPattern_def)
  have lenP: "length ?P = length pre + 9" by (simp add: lpat)
  have code2: "code = ?P @ ?rest @ post" using code1 by simp
  have np: "LabelInstruction (k + 2) \<notin> set ?P"
    using dist unfolding code2 by auto
  have fl: "findLabel (LabelInstruction (k + 2)) code = Some (length pre + 13)"
    by (subst code2, subst findLabel_skip[OF np]) (simp add: lpat)
  have n8: "code ! (length pre + 8) = LabelInstruction (k + 9)"
    unfolding code1 by (simp add: nth_append boolToIntPattern_def)
  have n9: "code ! (length pre + 9) = GotoInstruction (k + 15) NullV (LabelInstruction (k + 2)) NullV"
  proof -
    have "code ! (length ?P + 0) = (?rest @ post) ! 0"
      by (subst code2) (rule nth_append_length_plus)
    then show ?thesis by (simp add: lpat)
  qed
  have len: "length code = length pre + 14 + length post"
    by (simp add: code logicalTail_def boolToIntPattern_def)
  have s6: "step ext code m5 = Some m6"
    using len n8 by (simp add: step_def m5_def m6_def)
  have s7: "step ext code m6 = Some m7"
    using len n9 fl by (simp add: step_def m5_def m6_def m7_def jumpTo_def)
  have r6: "run ext code 6 m = run ext code 5 m @ [m6]"
    using run_extend[of ext code 5 m m6] R5 s6 by simp
  have l6: "length (run ext code 6 m) = 7" "last (run ext code 6 m) = m6"
    using R5(1) by (simp_all add: r6)
  have r7: "run ext code 7 m = run ext code 6 m @ [m7]"
    using run_extend[of ext code 6 m m7] l6 s7 by simp
  show ?thesis
    using l6(1) by (simp add: r7) (simp add: m7_def m6_def m5_def v_def)
qed

text \<open>From the comparison of the left operand, when it decides, to the end label.\<close>

lemma logical_short_run:
  fixes k :: nat and lv rv res Lt Lf :: Value and c :: int32
  defines "cmpL \<equiv> BinaryInstruction (k + 3) IRINST_OP_NE_I lv (ConstInt 0) BoolType"
  assumes code: "code = pre @ [cmpL, GotoInstruction (k + 4) cmpL Lt Lf, LabelInstruction k]
                          @ rb @ logicalTail k rv c res @ post"
    and dist: "distinct code"
    and pc: "pc m = length pre"
    and taken: "(if valueOf (env m) lv \<noteq> 0 then Lt else Lf) = LabelInstruction (k + 1)"
  shows "length (run ext code 5 m) = 6
       \<and> last (run ext code 5 m)
           = m\<lparr> pc := length pre + length rb + 16,
                 env := (env m)(cmpL := (if valueOf (env m) lv \<noteq> 0 then 1 else 0),
                                res := c) \<rparr>
       \<and> (\<forall>s \<in> set (run ext code 5 m).
             \<not> (length pre + 3 \<le> pc s \<and> pc s < length pre + 3 + length rb))"
proof -
  let ?own = "[cmpL, GotoInstruction (k + 4) cmpL Lt Lf, LabelInstruction k]"
  let ?P = "pre @ ?own @ rb"
  let ?T = "logicalTail k rv c res"
  have code2: "code = ?P @ ?T @ post" using code by simp
  have np: "LabelInstruction (k + 1) \<notin> set ?P" "LabelInstruction (k + 2) \<notin> set ?P"
    using dist unfolding code by (auto simp: logicalTail_def boolToIntPattern_def cmpL_def)
  have lenP: "length ?P = length pre + length rb + 3" by simp
  have t1: "findLabel (LabelInstruction (k + 1)) (?T @ post) = Some 10"
    by (simp add: logicalTail_def boolToIntPattern_def)
  have t2: "findLabel (LabelInstruction (k + 2)) (?T @ post) = Some 13"
    by (simp add: logicalTail_def boolToIntPattern_def)
  have f1: "findLabel (LabelInstruction (k + 1)) code = Some (length pre + length rb + 13)"
    by (subst code2, subst findLabel_skip[OF np(1)], subst t1) simp
  have f2: "findLabel (LabelInstruction (k + 2)) code = Some (length pre + length rb + 16)"
    by (subst code2, subst findLabel_skip[OF np(2)], subst t2) simp
  have lt: "length ?T = 14" by (simp add: logicalTail_def boolToIntPattern_def)
  have nthT: "code ! (length pre + length rb + 3 + j) = ?T ! j" if "j < 14" for j
  proof -
    have e: "length pre + length rb + 3 + j = length ?P + j" by simp
    have "code ! (length ?P + j) = (?T @ post) ! j"
      by (subst code2) (rule nth_append_length_plus)
    also have "\<dots> = ?T ! j" using that by (simp add: nth_append lt)
    finally show ?thesis by (simp only: e)
  qed
  have nth0: "code ! length pre = cmpL"
    "code ! (length pre + 1) = GotoInstruction (k + 4) cmpL Lt Lf"
    unfolding code by (simp_all add: nth_append)
  have len: "length code = length pre + length rb + 17 + length post"
    by (simp add: code lt)
  define v where "v = (if valueOf (env m) lv \<noteq> 0 then 1 else 0 :: int32)"
  define m1 where "m1 = m\<lparr> pc := length pre + 1, env := (env m)(cmpL := v) \<rparr>"
  define m2 where "m2 = m1\<lparr> pc := length pre + length rb + 13 \<rparr>"
  define m3 where "m3 = m2\<lparr> pc := length pre + length rb + 14 \<rparr>"
  define m4 where "m4 = m3\<lparr> pc := length pre + length rb + 15, env := (env m1)(res := c) \<rparr>"
  define m5 where "m5 = m4\<lparr> pc := length pre + length rb + 16 \<rparr>"
  have s1: "step ext code m = Some m1"
    using pc len nth0(1) by (simp add: step_def m1_def cmpL_def v_def valueOf_def)
  have vc: "valueOf (env m1) cmpL = v"
    by (simp add: m1_def valueOf_def cmpL_def)
  have tgt: "(if valueOf (env m1) cmpL \<noteq> 0 then Lt else Lf) = LabelInstruction (k + 1)"
  proof (cases "valueOf (env m) lv \<noteq> 0")
    case True
    then have "v \<noteq> 0" by (simp add: v_def)
    with True taken show ?thesis by (simp only: vc if_True)
  next
    case False
    then have "v = 0" by (simp add: v_def)
    with False taken show ?thesis by (simp only: vc) simp
  qed
  have s2: "step ext code m1 = Some m2"
  proof -
    have "exec ext code (GotoInstruction (k + 4) cmpL Lt Lf) m1 =
            jumpTo code (LabelInstruction (k + 1)) m1"
      using tgt by (simp add: cmpL_def split: if_splits)
    then show ?thesis
      using len nth0(2) f1 by (simp add: step_def m1_def m2_def jumpTo_def)
  qed
  have s3: "step ext code m2 = Some m3"
    using len nthT[of 10]
    by (simp add: step_def m2_def m3_def logicalTail_def boolToIntPattern_def add.assoc)
  have s4: "step ext code m3 = Some m4"
    using len nthT[of 11]
    by (simp add: step_def m3_def m4_def m2_def logicalTail_def boolToIntPattern_def add.assoc
        valueOf_def)
  have s5: "step ext code m4 = Some m5"
    using len nthT[of 12] f2
    by (simp add: step_def m4_def m5_def logicalTail_def boolToIntPattern_def add.assoc jumpTo_def)
  have r: "run ext code 5 m = [m, m1, m2, m3, m4, m5]"
    unfolding numeral_eq_Suc pred_numeral_simps Suc_eq_plus1_left[symmetric]
    by (simp only: run.simps s1 s2 s3 s4 s5 option.case BitM.simps numeral_eq_Suc
        pred_numeral_simps numeral_One)
  have p: "pc m1 = length pre + 1" "pc m2 = length pre + length rb + 13"
    "pc m3 = length pre + length rb + 14" "pc m4 = length pre + length rb + 15"
    "pc m5 = length pre + length rb + 16"
    by (simp_all add: m1_def m2_def m3_def m4_def m5_def)
  have e: "m5 = m\<lparr> pc := length pre + length rb + 16, env := (env m)(cmpL := v, res := c) \<rparr>"
    by (simp add: m1_def m2_def m3_def m4_def m5_def)
  show ?thesis
    unfolding r using p pc e by (simp add: v_def)
qed

lemma deepOlder_olderThan: "deepOlder k v \<Longrightarrow> olderThan k v"
  by (cases v) (simp_all add: olderThan_def)

lemma assignedTo_append: "assignedTo r (xs @ ys) = assignedTo r xs @ assignedTo r ys"
  by (induction r xs rule: assignedTo.induct) simp_all

lemma assignedTo_older:
  "list_all (deepOlder k) insts \<Longrightarrow> objId r = Some j \<Longrightarrow> k \<le> j \<Longrightarrow> assignedTo r insts = []"
proof (induction r insts rule: assignedTo.induct)
  case (2 r i dst src rest)
  then have "deepOlder k dst" by simp
  then have "olderThan k dst" by (rule deepOlder_olderThan)
  with 2 have "dst \<noteq> r" by (auto simp: olderThan_def)
  with 2 show ?case by simp
qed simp_all

lemma assignedTo_pattern:
  "assignedTo res (boolToIntPattern k b res) = [ConstInt 1, ConstInt 0]"
  by (simp add: boolToIntPattern_def)

lemma assignedTo_logicalTail:
  "assignedTo res (logicalTail k rv c res) = [ConstInt 1, ConstInt 0, ConstInt c]"
  by (simp add: logicalTail_def boolToIntPattern_def)

lemma assignedTo_fresh:
  assumes "list_all (deepOlder k) insts"
  shows "assignedTo (if g then GlobalVar (k + j) [] Int32Type
                     else LocalVariable (k + j) [] Int32Type) insts = []"
  using assignedTo_older[OF assms, of _ "k + j"] by (cases g) simp_all

lemma last_pattern: "last (xs @ boolToIntPattern k b res) = LabelInstruction (k + 3)"
  by (simp add: boolToIntPattern_def)

lemma last_logicalTail: "last (xs @ logicalTail k rv c res) = LabelInstruction (k + 2)"
  by (simp add: logicalTail_def)

lemma length_pattern: "length (boolToIntPattern k b res) = 8"
  by (simp add: boolToIntPattern_def)

lemma length_logicalTail: "length (logicalTail k rv c res) = 14"
  by (simp add: logicalTail_def boolToIntPattern_def)

lemma nth_last_segment:
  assumes "ys \<noteq> []"
  shows "(pre @ ys @ post) ! (length pre + length ys - 1) = last ys"
proof -
  from assms have l: "length ys - 1 < length ys" by (cases ys) simp_all
  from assms have e: "length pre + length ys - 1 = length pre + (length ys - 1)"
    by (cases ys) simp_all
  have "(pre @ ys @ post) ! (length pre + (length ys - 1)) = (ys @ post) ! (length ys - 1)"
    by (rule nth_append_length_plus)
  also have "\<dots> = ys ! (length ys - 1)" using l by (simp add: nth_append)
  also have "\<dots> = last ys" using assms by (simp add: last_conv_nth)
  finally show ?thesis by (simp only: e)
qed

lemma join_reached:
  assumes code: "code = pre @ insts @ post"
    and lst: "insts \<noteq> [] \<and> last insts = LabelInstruction join"
    and fin: "length (run ext code steps m) = Suc steps
              \<and> last (run ext code steps m) = m\<lparr> pc := p, env := E \<rparr>"
    and p: "p = length pre + length insts - 1"
    and v: "E result = v"
  shows "last insts = LabelInstruction join
       \<and> length (run ext code steps m) = Suc steps
       \<and> pc (last (run ext code steps m)) = length pre + length insts - 1
       \<and> code ! pc (last (run ext code steps m)) = LabelInstruction join
       \<and> env (last (run ext code steps m)) result = v"
proof -
  have "code ! (length pre + length insts - 1) = last insts"
    unfolding code using lst by (intro nth_last_segment) simp
  then show ?thesis using lst fin p v by simp
qed

section \<open>The widened boolean\<close>

text \<open>
  C10, as the claim states it: the value of the bool-to-int pattern is a new local
  variable. \<^verbatim>\<open>convertBoolToInt\<close> takes its variable from \<^verbatim>\<open>newVarValue\<close> whatever the
  scope. In the initialiser of \<^verbatim>\<open>int g = !0;\<close> at module scope, where no function is
  active, the variable is a global one, and it becomes the initialiser of \<^verbatim>\<open>g\<close>.
\<close>

theorem widened_value_is_global_at_module_scope:
  "ir_visit_ast_node (AST_OP_NOT (AST_OP_LEAF_LITERAL_UINT 0)) exampleModule
   = Inr (\<lparr> val = GlobalVar 1 [] Int32Type,
            blockInsts =
              [BinaryInstruction 0 IRINST_OP_EQ_I (ConstInt 0) (ConstInt 0) BoolType,
               GotoInstruction 5
                 (BinaryInstruction 0 IRINST_OP_EQ_I (ConstInt 0) (ConstInt 0) BoolType)
                 (LabelInstruction 2) (LabelInstruction 3),
               LabelInstruction 2,
               MoveInstruction 6 (GlobalVar 1 [] Int32Type) (ConstInt 1),
               GotoInstruction 7 NullV (LabelInstruction 4) NullV,
               LabelInstruction 3,
               MoveInstruction 8 (GlobalVar 1 [] Int32Type) (ConstInt 0),
               GotoInstruction 9 NullV (LabelInstruction 4) NullV,
               LabelInstruction 4],
            arrayAccessAddress = None \<rparr>,
          exampleModule\<lparr> nextId := 10, globals := [newGlobalVariable 1 Int32Type []] \<rparr>)
   \<and> map_sum id (globals \<circ> snd)
       (ir_visit_ast_node
          (AST_OP_VAR_DEF Int32Type ''g'' (Some (AST_OP_NOT (AST_OP_LEAF_LITERAL_UINT 0))))
          exampleModule)
     = Inr [\<lparr> gvId = 0, gvName = ''g'', gvType = Int32Type, alignment = 4,
              inBSSSection = False, initializer = GlobalVar 2 [] Int32Type \<rparr>,
            \<lparr> gvId = 2, gvName = [], gvType = Int32Type, alignment = 4,
              inBSSSection = True, initializer = NullV \<rparr>]"
  by (simp add: exampleModule_def handler_defs alloc_defs node_defs Let_def
      setInitializerOf_def setInitializer_def newGlobalVariable_def)

text \<open>
  C10, amended: inside a function the value of the bool-to-int pattern is a new local
  variable; the buffer moves into it the constants 1 and 0 and nothing else; and every
  run to the join label leaves 0 or 1 in it. (At module scope all of this holds of the
  global variable of the example above.) Each row of the table is one way to the join
  label: the exposed value, the buffer, the allocation number of the variable and that
  of the join label, both counted from the generator's counter, the position in the
  buffer at which the run starts, the number of steps, the condition under which this
  way is taken, and the value at the join label. The rows are: the bare pattern from its
  branch on a non-null condition; \<^verbatim>\<open><\<close>, \<^verbatim>\<open>>\<close> and \<^verbatim>\<open>!\<close> from their comparison,
  which follows the operands; \<^verbatim>\<open>&&\<close> and \<^verbatim>\<open>||\<close> from the comparison of the left
  operand when it decides, and from the comparison of the right operand otherwise. The
  operands' buffers hold only objects older than the operator's own, the join label is
  the last instruction of the buffer, and every instruction is in the function body
  once.
\<close>

theorem widened_value_is_zero_or_one:
  fixes l r :: node and st :: IRGenerator and m :: machine and b :: Value
  defines "k \<equiv> nextId st"
    and "nl \<equiv> length (blockInsts l)" and "nr \<equiv> length (blockInsts r)"
    and "lv \<equiv> valueOf (env m) (val l)" and "rv \<equiv> valueOf (env m) (val r)"
  assumes row: "(result, insts, j, join, entry, steps, taken, v) \<in>
      {(fst (fst (convertBoolToInt l b st)), blockInsts (snd (fst (convertBoolToInt l b st))),
          0, k + 3, nl, 4, b \<noteq> NullV, if valueOf (env m) b \<noteq> 0 then 1 else 0),
       (val (fst (ir_lt l r st)), blockInsts (fst (ir_lt l r st)),
          1, k + 4, nl + nr, 5, True, if lv <s rv then 1 else 0),
       (val (fst (ir_gt l r st)), blockInsts (fst (ir_gt l r st)),
          1, k + 4, nl + nr, 5, True, if rv <s lv then 1 else 0),
       (val (fst (ir_not l st)), blockInsts (fst (ir_not l st)),
          1, k + 4, nl, 5, True, if lv = 0 then 1 else 0),
       (val (fst (ir_and l r st)), blockInsts (fst (ir_and l r st)),
          6, k + 2, nl, 5, lv = 0, 0),
       (val (fst (ir_and l r st)), blockInsts (fst (ir_and l r st)),
          6, k + 2, nl + 3 + nr, 7, True, if rv \<noteq> 0 then 1 else 0),
       (val (fst (ir_or l r st)), blockInsts (fst (ir_or l r st)),
          6, k + 2, nl, 5, lv \<noteq> 0, 1),
       (val (fst (ir_or l r st)), blockInsts (fst (ir_or l r st)),
          6, k + 2, nl + 3 + nr, 7, True, if rv \<noteq> 0 then 1 else 0)}"
    and old: "list_all (deepOlder (nextId st)) (blockInsts l @ blockInsts r)"
    and code: "code = pre @ insts @ post"
    and dist: "distinct code"
    and pc: "pc m = length pre + entry"
    and taken: "taken"
  shows "result = (if currentFunction st = None then GlobalVar (k + j) [] Int32Type
                   else LocalVariable (k + j) [] Int32Type)
       \<and> set (assignedTo result insts) = {ConstInt 1, ConstInt 0}
       \<and> last insts = LabelInstruction join
       \<and> length (run ext code steps m) = Suc steps
       \<and> pc (last (run ext code steps m)) = length pre + length insts - 1
       \<and> code ! pc (last (run ext code steps m)) = LabelInstruction join
       \<and> env (last (run ext code steps m)) result = v
       \<and> v \<in> {0, 1}"
proof -
  let ?g = "currentFunction st = None"
  define res where "res j = (if ?g then GlobalVar (k + j) [] Int32Type
                             else LocalVariable (k + j) [] Int32Type)" for j
  have oldl: "list_all (deepOlder k) (blockInsts l)" and oldr: "list_all (deepOlder k) (blockInsts r)"
    using old by (simp_all add: k_def)
  have al: "assignedTo (res j) (blockInsts l) = []" for j
    unfolding res_def by (rule assignedTo_fresh[OF oldl])
  have ar: "assignedTo (res j) (blockInsts r) = []" for j
    unfolding res_def by (rule assignedTo_fresh[OF oldr])
  have widened: ?thesis
    if r: "result = val (fst (ir_compare_widened opr l r st))"
      and i: "insts = blockInsts (fst (ir_compare_widened opr l r st))"
      and o: "j = 1" "join = k + 4" "entry = nl + nr" "steps = 5"
      and v: "v = (if binop opr lv rv \<noteq> 0 then 1 else 0)" for opr
  proof -
    let ?cmp = "BinaryInstruction k opr (val l) (val r) BoolType"
    have r': "result = res 1"
      using r by (simp add: ir_compare_widened_layout(1) res_def k_def)
    have i': "insts = blockInsts l @ blockInsts r @ [?cmp] @ boolToIntPattern (k + 1) ?cmp (res 1)"
      using i by (simp add: ir_compare_widened_layout(2) res_def k_def)
    have code': "code = (pre @ blockInsts l @ blockInsts r) @ [?cmp]
                   @ boolToIntPattern (k + 1) ?cmp (res 1) @ post"
      using code i' by simp
    have pc': "pc m = length (pre @ blockInsts l @ blockInsts r)"
      using pc o by (simp add: nl_def nr_def)
    have mv: "set (assignedTo result insts) = {ConstInt 1, ConstInt 0}"
      by (simp add: r' i' assignedTo_append al ar assignedTo_pattern)
    have lst: "insts \<noteq> [] \<and> last insts = LabelInstruction join"
      unfolding i' o by (simp add: boolToIntPattern_def)
    have p: "length (pre @ blockInsts l @ blockInsts r) + 8 = length pre + length insts - 1"
      by (simp add: i' length_pattern)
    have F: "length (run ext code 5 m) = Suc 5
       \<and> last (run ext code 5 m)
           = m\<lparr> pc := length (pre @ blockInsts l @ blockInsts r) + 8,
                 env := (env m)(?cmp := binop opr (valueOf (env m) (val l)) (valueOf (env m) (val r)),
                                res 1 := (if binop opr (valueOf (env m) (val l))
                                               (valueOf (env m) (val r)) \<noteq> 0
                                          then 1 else 0)) \<rparr>"
      using compare_run[OF code' dist pc', of ext] by simp
    have V: "((env m)(?cmp := binop opr (valueOf (env m) (val l)) (valueOf (env m) (val r)),
                      res 1 := (if binop opr (valueOf (env m) (val l))
                                     (valueOf (env m) (val r)) \<noteq> 0
                                then 1 else 0))) result = v"
      by (simp add: r' v lv_def rv_def)
    have v01: "v \<in> {0, 1}" by (simp add: v)
    have rj: "result = (if currentFunction st = None then GlobalVar (k + j) [] Int32Type
                   else LocalVariable (k + j) [] Int32Type)"
      by (simp add: r' res_def o)
    from join_reached[OF code lst F p V] mv rj v01 show ?thesis
      unfolding o by blast
  qed
  have plain: ?thesis
    if r: "result = fst (fst (convertBoolToInt l b st))"
      and i: "insts = blockInsts (snd (fst (convertBoolToInt l b st)))"
      and o: "j = 0" "join = k + 3" "entry = nl" "steps = 4"
      and t: "taken = (b \<noteq> NullV)"
      and v: "v = (if valueOf (env m) b \<noteq> 0 then 1 else 0)"
  proof -
    have r': "result = res 0"
      using r by (simp add: convertBoolToInt_layout(1) res_def k_def)
    have i': "insts = blockInsts l @ boolToIntPattern k b (res 0)"
      using i by (simp add: convertBoolToInt_layout(1) res_def k_def addInsts_def)
    have code': "code = (pre @ blockInsts l) @ boolToIntPattern k b (res 0) @ post"
      using code i' by simp
    have pc': "pc m = length (pre @ blockInsts l)"
      using pc o by (simp add: nl_def)
    have nn: "b \<noteq> NullV" using taken t by simp
    have mv: "set (assignedTo result insts) = {ConstInt 1, ConstInt 0}"
      by (simp add: r' i' assignedTo_append al assignedTo_pattern)
    have lst: "insts \<noteq> [] \<and> last insts = LabelInstruction join"
      unfolding i' o by (simp add: boolToIntPattern_def)
    have p: "length (pre @ blockInsts l) + 7 = length pre + length insts - 1"
      by (simp add: i' length_pattern)
    have F: "length (run ext code 4 m) = Suc 4
       \<and> last (run ext code 4 m)
           = m\<lparr> pc := length (pre @ blockInsts l) + 7,
                 env := (env m)(res 0 := (if valueOf (env m) b \<noteq> 0 then 1 else 0)) \<rparr>"
      using pattern_run[OF code' dist pc' nn, of ext] by simp
    have V: "((env m)(res 0 := (if valueOf (env m) b \<noteq> 0 then 1 else 0))) result = v"
      by (simp add: r' v)
    have v01: "v \<in> {0, 1}" by (simp add: v)
    have rj: "result = (if currentFunction st = None then GlobalVar (k + j) [] Int32Type
                   else LocalVariable (k + j) [] Int32Type)"
      by (simp add: r' res_def o)
    from join_reached[OF code lst F p V] mv rj v01 show ?thesis
      unfolding o by blast
  qed
  have negated: ?thesis
    if r: "result = val (fst (ir_not l st))"
      and i: "insts = blockInsts (fst (ir_not l st))"
      and o: "j = 1" "join = k + 4" "entry = nl" "steps = 5"
      and v: "v = (if lv = 0 then 1 else 0)"
  proof -
    let ?cmp = "BinaryInstruction k IRINST_OP_EQ_I (val l) (ConstInt 0) BoolType"
    have r': "result = res 1"
      using r by (simp add: ir_not_layout(1) res_def k_def)
    have i': "insts = blockInsts l @ [?cmp] @ boolToIntPattern (k + 1) ?cmp (res 1)"
      using i by (simp add: ir_not_layout(2) res_def k_def)
    have code': "code = (pre @ blockInsts l) @ [?cmp]
                   @ boolToIntPattern (k + 1) ?cmp (res 1) @ post"
      using code i' by simp
    have pc': "pc m = length (pre @ blockInsts l)"
      using pc o by (simp add: nl_def)
    have mv: "set (assignedTo result insts) = {ConstInt 1, ConstInt 0}"
      by (simp add: r' i' assignedTo_append al assignedTo_pattern)
    have lst: "insts \<noteq> [] \<and> last insts = LabelInstruction join"
      unfolding i' o by (simp add: boolToIntPattern_def)
    have p: "length (pre @ blockInsts l) + 8 = length pre + length insts - 1"
      by (simp add: i' length_pattern)
    have F: "length (run ext code 5 m) = Suc 5
       \<and> last (run ext code 5 m)
           = m\<lparr> pc := length (pre @ blockInsts l) + 8,
                 env := (env m)(?cmp := binop IRINST_OP_EQ_I (valueOf (env m) (val l))
                                          (valueOf (env m) (ConstInt 0)),
                                res 1 := (if binop IRINST_OP_EQ_I (valueOf (env m) (val l))
                                               (valueOf (env m) (ConstInt 0)) \<noteq> 0
                                          then 1 else 0)) \<rparr>"
      using compare_run[OF code' dist pc', of ext] by simp
    have V: "((env m)(?cmp := binop IRINST_OP_EQ_I (valueOf (env m) (val l))
                                          (valueOf (env m) (ConstInt 0)),
                      res 1 := (if binop IRINST_OP_EQ_I (valueOf (env m) (val l))
                                     (valueOf (env m) (ConstInt 0)) \<noteq> 0
                                then 1 else 0))) result = v"
      by (simp add: r' v lv_def valueOf_ConstInt)
    have v01: "v \<in> {0, 1}" by (simp add: v)
    have rj: "result = (if currentFunction st = None then GlobalVar (k + j) [] Int32Type
                   else LocalVariable (k + j) [] Int32Type)"
      by (simp add: r' res_def o)
    from join_reached[OF code lst F p V] mv rj v01 show ?thesis
      unfolding o by blast
  qed
  have logical: ?thesis
    if r: "result = res 6"
      and i: "insts = blockInsts l
                @ [BinaryInstruction (k + 3) IRINST_OP_NE_I (val l) (ConstInt 0) BoolType,
                   GotoInstruction (k + 4)
                     (BinaryInstruction (k + 3) IRINST_OP_NE_I (val l) (ConstInt 0) BoolType) Lt Lf,
                   LabelInstruction k]
                @ blockInsts r @ logicalTail k (val r) c (res 6)"
      and c: "c = 0 \<or> c = 1"
      and o: "j = 6" "join = k + 2"
      and e: "entry = nl + 3 + nr \<and> steps = 7 \<and> v = (if rv \<noteq> 0 then 1 else 0)
              \<or> entry = nl \<and> steps = 5 \<and> v = c
                 \<and> (if lv \<noteq> 0 then Lt else Lf) = LabelInstruction (k + 1)"
    for Lt Lf c
  proof -
    let ?cmpL = "BinaryInstruction (k + 3) IRINST_OP_NE_I (val l) (ConstInt 0) BoolType"
    let ?cmpR = "BinaryInstruction (k + 5) IRINST_OP_NE_I (val r) (ConstInt 0) BoolType"
    let ?own = "[?cmpL, GotoInstruction (k + 4) ?cmpL Lt Lf, LabelInstruction k]"
    have mv: "set (assignedTo result insts) = {ConstInt 1, ConstInt 0}"
      using c by (auto simp: r i assignedTo_append al ar assignedTo_logicalTail)
    have lst: "insts \<noteq> [] \<and> last insts = LabelInstruction join"
      unfolding i o by (simp add: logicalTail_def)
    have rj: "result = (if currentFunction st = None then GlobalVar (k + j) [] Int32Type
                   else LocalVariable (k + j) [] Int32Type)"
      by (simp add: r res_def o)
    have li: "length insts = nl + nr + 17"
      by (simp add: i length_logicalTail nl_def nr_def)
    from e show ?thesis
    proof
      assume a: "entry = nl + 3 + nr \<and> steps = 7 \<and> v = (if rv \<noteq> 0 then 1 else 0)"
      have code': "code = (pre @ blockInsts l @ ?own @ blockInsts r)
                     @ logicalTail k (val r) c (res 6) @ post"
        using code i by simp
      have pc': "pc m = length (pre @ blockInsts l @ ?own @ blockInsts r)"
        using pc a by (simp add: nl_def nr_def)
      have p: "length (pre @ blockInsts l @ ?own @ blockInsts r) + 13
                 = length pre + length insts - 1"
        by (simp add: li nl_def nr_def)
      have F: "length (run ext code 7 m) = Suc 7
         \<and> last (run ext code 7 m)
             = m\<lparr> pc := length (pre @ blockInsts l @ ?own @ blockInsts r) + 13,
                   env := (env m)(?cmpR := (if valueOf (env m) (val r) \<noteq> 0 then 1 else 0),
                                  res 6 := (if valueOf (env m) (val r) \<noteq> 0 then 1 else 0)) \<rparr>"
        using logical_right_run[OF code' dist pc', of ext] by simp
      have V: "((env m)(?cmpR := (if valueOf (env m) (val r) \<noteq> 0 then 1 else 0),
                        res 6 := (if valueOf (env m) (val r) \<noteq> 0 then 1 else 0))) result = v"
        using a by (simp add: r rv_def)
      have v01: "v \<in> {0, 1}" using a by simp
      have s: "steps = 7" using a by simp
      from join_reached[OF code lst F p V] mv rj v01 show ?thesis
        unfolding s by blast
    next
      assume a: "entry = nl \<and> steps = 5 \<and> v = c
                 \<and> (if lv \<noteq> 0 then Lt else Lf) = LabelInstruction (k + 1)"
      have code': "code = (pre @ blockInsts l) @ ?own @ blockInsts r
                     @ logicalTail k (val r) c (res 6) @ post"
        using code i by simp
      have pc': "pc m = length (pre @ blockInsts l)"
        using pc a by (simp add: nl_def)
      have tk: "(if valueOf (env m) (val l) \<noteq> 0 then Lt else Lf) = LabelInstruction (k + 1)"
        using a by (simp add: lv_def)
      have p: "length (pre @ blockInsts l) + length (blockInsts r) + 16
                 = length pre + length insts - 1"
        by (simp add: li nl_def nr_def)
      have F: "length (run ext code 5 m) = Suc 5
         \<and> last (run ext code 5 m)
             = m\<lparr> pc := length (pre @ blockInsts l) + length (blockInsts r) + 16,
                   env := (env m)(?cmpL := (if valueOf (env m) (val l) \<noteq> 0 then 1 else 0),
                                  res 6 := c) \<rparr>"
        using logical_short_run[OF code' dist pc' tk, of ext] by simp
      have V: "((env m)(?cmpL := (if valueOf (env m) (val l) \<noteq> 0 then 1 else 0),
                        res 6 := c)) result = v"
        using a by (simp add: r)
      have v01: "v \<in> {0, 1}" using a c by auto
      have s: "steps = 5" using a by simp
      from join_reached[OF code lst F p V] mv rj v01 show ?thesis
        unfolding s by blast
    qed
  qed
  have andL: "blockInsts (fst (ir_and l r st)) = blockInsts l
                @ [BinaryInstruction (k + 3) IRINST_OP_NE_I (val l) (ConstInt 0) BoolType,
                   GotoInstruction (k + 4)
                     (BinaryInstruction (k + 3) IRINST_OP_NE_I (val l) (ConstInt 0) BoolType)
                     (LabelInstruction k) (LabelInstruction (k + 1)),
                   LabelInstruction k]
                @ blockInsts r @ logicalTail k (val r) 0 (res 6)"
    "val (fst (ir_and l r st)) = res 6"
    by (simp_all add: ir_and_layout res_def k_def)
  have orL: "blockInsts (fst (ir_or l r st)) = blockInsts l
                @ [BinaryInstruction (k + 3) IRINST_OP_NE_I (val l) (ConstInt 0) BoolType,
                   GotoInstruction (k + 4)
                     (BinaryInstruction (k + 3) IRINST_OP_NE_I (val l) (ConstInt 0) BoolType)
                     (LabelInstruction (k + 1)) (LabelInstruction k),
                   LabelInstruction k]
                @ blockInsts r @ logicalTail k (val r) 1 (res 6)"
    "val (fst (ir_or l r st)) = res 6"
    by (simp_all add: ir_or_layout res_def k_def)
  from row show ?thesis
  proof (elim insertE emptyE, goal_cases)
    case 1
    then have "result = fst (fst (convertBoolToInt l b st))"
        "insts = blockInsts (snd (fst (convertBoolToInt l b st)))"
        "j = 0" "join = k + 3" "entry = nl" "steps = 4" "taken = (b \<noteq> NullV)"
        "v = (if valueOf (env m) b \<noteq> 0 then 1 else 0)"
      by simp_all
    then show ?case by (rule plain)
  next
    case 2
    then have "result = val (fst (ir_compare_widened IRINST_OP_LT_I l r st))"
        "insts = blockInsts (fst (ir_compare_widened IRINST_OP_LT_I l r st))"
        "j = 1" "join = k + 4" "entry = nl + nr" "steps = 5"
        "v = (if binop IRINST_OP_LT_I lv rv \<noteq> 0 then 1 else 0)"
      by (simp_all add: ir_lt_def)
    then show ?case by (rule widened)
  next
    case 3
    then have "result = val (fst (ir_compare_widened IRINST_OP_GT_I l r st))"
        "insts = blockInsts (fst (ir_compare_widened IRINST_OP_GT_I l r st))"
        "j = 1" "join = k + 4" "entry = nl + nr" "steps = 5"
        "v = (if binop IRINST_OP_GT_I lv rv \<noteq> 0 then 1 else 0)"
      by (simp_all add: ir_gt_def)
    then show ?case by (rule widened)
  next
    case 4
    then have "result = val (fst (ir_not l st))" "insts = blockInsts (fst (ir_not l st))"
        "j = 1" "join = k + 4" "entry = nl" "steps = 5" "v = (if lv = 0 then 1 else 0)"
      by simp_all
    then show ?case by (rule negated)
  next
    case 5
    then have "result = res 6" "insts = blockInsts (fst (ir_and l r st))"
        "(0::int32) = 0 \<or> (0::int32) = 1" "j = 6" "join = k + 2"
        "entry = nl + 3 + nr \<and> steps = 7 \<and> v = (if rv \<noteq> 0 then 1 else 0)
         \<or> entry = nl \<and> steps = 5 \<and> v = 0
            \<and> (if lv \<noteq> 0 then LabelInstruction k else LabelInstruction (k + 1))
                = LabelInstruction (k + 1)"
      using taken andL(2) by simp_all
    then show ?case unfolding andL(1) by (rule logical)
  next
    case 6
    then have "result = res 6" "insts = blockInsts (fst (ir_and l r st))"
        "(0::int32) = 0 \<or> (0::int32) = 1" "j = 6" "join = k + 2"
        "entry = nl + 3 + nr \<and> steps = 7 \<and> v = (if rv \<noteq> 0 then 1 else 0)
         \<or> entry = nl \<and> steps = 5 \<and> v = 0
            \<and> (if lv \<noteq> 0 then LabelInstruction k else LabelInstruction (k + 1))
                = LabelInstruction (k + 1)"
      using andL(2) by simp_all
    then show ?case unfolding andL(1) by (rule logical)
  next
    case 7
    then have "result = res 6" "insts = blockInsts (fst (ir_or l r st))"
        "(1::int32) = 0 \<or> (1::int32) = 1" "j = 6" "join = k + 2"
        "entry = nl + 3 + nr \<and> steps = 7 \<and> v = (if rv \<noteq> 0 then 1 else 0)
         \<or> entry = nl \<and> steps = 5 \<and> v = 1
            \<and> (if lv \<noteq> 0 then LabelInstruction (k + 1) else LabelInstruction k)
                = LabelInstruction (k + 1)"
      using taken orL(2) by simp_all
    then show ?case unfolding orL(1) by (rule logical)
  next
    case 8
    then have "result = res 6" "insts = blockInsts (fst (ir_or l r st))"
        "(1::int32) = 0 \<or> (1::int32) = 1" "j = 6" "join = k + 2"
        "entry = nl + 3 + nr \<and> steps = 7 \<and> v = (if rv \<noteq> 0 then 1 else 0)
         \<or> entry = nl \<and> steps = 5 \<and> v = 1
            \<and> (if lv \<noteq> 0 then LabelInstruction (k + 1) else LabelInstruction k)
                = LabelInstruction (k + 1)"
      using orL(2) by simp_all
    then show ?case unfolding orL(1) by (rule logical)
  qed
qed

theorem widened_value_is_zero_or_one_witness:
  "ir_visit_ast_node (AST_OP_NOT (AST_OP_LEAF_VAR_ID ''x'')) exampleFunction
     = Inr (ir_not (emptyNode\<lparr> val := LocalVariable 2 ''x'' Int32Type \<rparr>) exampleFunction)
   \<and> val (fst (ir_not (emptyNode\<lparr> val := LocalVariable 2 ''x'' Int32Type \<rparr>) exampleFunction))
       = LocalVariable 6 [] Int32Type
   \<and> set (assignedTo (LocalVariable 6 [] Int32Type)
        (blockInsts (fst (ir_not (emptyNode\<lparr> val := LocalVariable 2 ''x'' Int32Type \<rparr>)
           exampleFunction))))
       = {ConstInt 1, ConstInt 0}
   \<and> length (run (\<lambda>f args. 0)
        (blockInsts (fst (ir_not (emptyNode\<lparr> val := LocalVariable 2 ''x'' Int32Type \<rparr>)
           exampleFunction))) 5 exampleMachine) = 6
   \<and> pc (last (run (\<lambda>f args. 0)
        (blockInsts (fst (ir_not (emptyNode\<lparr> val := LocalVariable 2 ''x'' Int32Type \<rparr>)
           exampleFunction))) 5 exampleMachine)) = 8
   \<and> blockInsts (fst (ir_not (emptyNode\<lparr> val := LocalVariable 2 ''x'' Int32Type \<rparr>)
         exampleFunction)) ! 8 = LabelInstruction 9
   \<and> env (last (run (\<lambda>f args. 0)
        (blockInsts (fst (ir_not (emptyNode\<lparr> val := LocalVariable 2 ''x'' Int32Type \<rparr>)
           exampleFunction))) 5 exampleMachine)) (LocalVariable 6 [] Int32Type) = 0
   \<and> ir_visit_ast_node (AST_OP_NOT (AST_OP_LEAF_LITERAL_UINT 0)) exampleModule
     = Inr (ir_not (emptyNode\<lparr> val := ConstInt 0 \<rparr>) exampleModule)
   \<and> val (fst (ir_not (emptyNode\<lparr> val := ConstInt 0 \<rparr>) exampleModule))
       = GlobalVar 1 [] Int32Type
   \<and> pc (last (run (\<lambda>f args. 0)
        (blockInsts (fst (ir_not (emptyNode\<lparr> val := ConstInt 0 \<rparr>) exampleModule)))
        5 exampleMachine)) = 8
   \<and> blockInsts (fst (ir_not (emptyNode\<lparr> val := ConstInt 0 \<rparr>) exampleModule)) ! 8
       = LabelInstruction 4
   \<and> env (last (run (\<lambda>f args. 0)
        (blockInsts (fst (ir_not (emptyNode\<lparr> val := ConstInt 0 \<rparr>) exampleModule)))
        5 exampleMachine)) (GlobalVar 1 [] Int32Type) = 1"
proof -
  let ?X = "emptyNode\<lparr> val := LocalVariable 2 ''x'' Int32Type \<rparr>"
  let ?Z = "emptyNode\<lparr> val := ConstInt 0 \<rparr>"
  let ?ext = "\<lambda>(f::string) (args::int32 list). 0::int32"
  have wx: "ir_visit_ast_node (AST_OP_NOT (AST_OP_LEAF_VAR_ID ''x'')) exampleFunction
              = Inr (ir_not ?X exampleFunction)"
    by (simp add: example_defs ir_leaf_node_var_id_def findVarValue_def andThen_def Let_def)
  have wz: "ir_visit_ast_node (AST_OP_NOT (AST_OP_LEAF_LITERAL_UINT 0)) exampleModule
              = Inr (ir_not ?Z exampleModule)"
    by (simp add: ir_leaf_node_uint_def newConstInt_def andThen_def Let_def)
  have ix: "blockInsts (fst (ir_not ?X exampleFunction)) =
      [BinaryInstruction 5 IRINST_OP_EQ_I (LocalVariable 2 ''x'' Int32Type) (ConstInt 0) BoolType,
       GotoInstruction 10
         (BinaryInstruction 5 IRINST_OP_EQ_I (LocalVariable 2 ''x'' Int32Type) (ConstInt 0) BoolType)
         (LabelInstruction 7) (LabelInstruction 8),
       LabelInstruction 7,
       MoveInstruction 11 (LocalVariable 6 [] Int32Type) (ConstInt 1),
       GotoInstruction 12 NullV (LabelInstruction 9) NullV,
       LabelInstruction 8,
       MoveInstruction 13 (LocalVariable 6 [] Int32Type) (ConstInt 0),
       GotoInstruction 14 NullV (LabelInstruction 9) NullV,
       LabelInstruction 9]"
    by (simp add: ir_not_layout boolToIntPattern_def example_defs emptyNode_def)
  have iz: "blockInsts (fst (ir_not ?Z exampleModule)) =
      [BinaryInstruction 0 IRINST_OP_EQ_I (ConstInt 0) (ConstInt 0) BoolType,
       GotoInstruction 5
         (BinaryInstruction 0 IRINST_OP_EQ_I (ConstInt 0) (ConstInt 0) BoolType)
         (LabelInstruction 2) (LabelInstruction 3),
       LabelInstruction 2,
       MoveInstruction 6 (GlobalVar 1 [] Int32Type) (ConstInt 1),
       GotoInstruction 7 NullV (LabelInstruction 4) NullV,
       LabelInstruction 3,
       MoveInstruction 8 (GlobalVar 1 [] Int32Type) (ConstInt 0),
       GotoInstruction 9 NullV (LabelInstruction 4) NullV,
       LabelInstruction 4]"
    by (simp add: ir_not_layout boolToIntPattern_def example_defs emptyNode_def)
  have dx: "distinct ([] @ blockInsts (fst (ir_not ?X exampleFunction)) @ [])"
    by (simp add: ix)
  have dz: "distinct ([] @ blockInsts (fst (ir_not ?Z exampleModule)) @ [])"
    by (simp add: iz)
  have ox: "list_all (deepOlder (nextId exampleFunction)) (blockInsts ?X @ blockInsts emptyNode)"
    by (simp add: emptyNode_def)
  have oz: "list_all (deepOlder (nextId exampleModule)) (blockInsts ?Z @ blockInsts emptyNode)"
    by (simp add: emptyNode_def)
  have px: "pc exampleMachine = length ([] :: Value list) + length (blockInsts ?X)"
    by (simp add: exampleMachine_def emptyNode_def)
  have pz: "pc exampleMachine = length ([] :: Value list) + length (blockInsts ?Z)"
    by (simp add: exampleMachine_def emptyNode_def)
  have vx: "valueOf (env exampleMachine) (val ?X) = 1000"
    by (simp add: valueOf_def exampleMachine_def emptyNode_def)
  have vz: "valueOf (env exampleMachine) (val ?Z) = 0"
    by (simp add: valueOf_def emptyNode_def)
  have kx: "nextId exampleFunction = 5" "currentFunction exampleFunction \<noteq> None"
    by (simp_all add: example_defs)
  have kz: "nextId exampleModule = 0" "currentFunction exampleModule = None"
    by (simp_all add: example_defs)
  have lx: "blockInsts ?X = []" and lz: "blockInsts ?Z = []"
    by (simp_all add: emptyNode_def)
  have rx: "val (fst (ir_not ?X exampleFunction)) = LocalVariable 6 [] Int32Type"
    by (simp add: ir_not_layout kx)
  have rz: "val (fst (ir_not ?Z exampleModule)) = GlobalVar 1 [] Int32Type"
    by (simp add: ir_not_layout kz)
  have row: "x \<in> insert a (insert b (insert c (insert x S)))"
    for x :: "Value \<times> Value list \<times> nat \<times> nat \<times> nat \<times> nat \<times> bool \<times> int32" and a b c S
    by simp
  from widened_value_is_zero_or_one[OF row ox refl dx px TrueI, of ?ext]
  have 1: "val (fst (ir_not ?X exampleFunction)) = LocalVariable 6 [] Int32Type
     \<and> set (assignedTo (LocalVariable 6 [] Int32Type) (blockInsts (fst (ir_not ?X exampleFunction))))
         = {ConstInt 1, ConstInt 0}
     \<and> length (run ?ext (blockInsts (fst (ir_not ?X exampleFunction))) 5 exampleMachine) = 6
     \<and> pc (last (run ?ext (blockInsts (fst (ir_not ?X exampleFunction))) 5 exampleMachine)) = 8
     \<and> blockInsts (fst (ir_not ?X exampleFunction)) ! 8 = LabelInstruction 9
     \<and> env (last (run ?ext (blockInsts (fst (ir_not ?X exampleFunction))) 5 exampleMachine))
           (LocalVariable 6 [] Int32Type) = 0"
    unfolding vx by (simp add: rx kx ix lx)
  from widened_value_is_zero_or_one[OF row oz refl dz pz TrueI, of ?ext]
  have 2: "val (fst (ir_not ?Z exampleModule)) = GlobalVar 1 [] Int32Type
     \<and> pc (last (run ?ext (blockInsts (fst (ir_not ?Z exampleModule))) 5 exampleMachine)) = 8
     \<and> blockInsts (fst (ir_not ?Z exampleModule)) ! 8 = LabelInstruction 4
     \<and> env (last (run ?ext (blockInsts (fst (ir_not ?Z exampleModule))) 5 exampleMachine))
           (GlobalVar 1 [] Int32Type) = 1"
    unfolding vz by (simp add: rz kz iz lz)
  from wx wz 1 2 show ?thesis by simp
qed

section \<open>Short-circuit evaluation\<close>

lemma ir_and_unfold:
  assumes "currentFunction st \<noteq> None"
  shows "blockInsts (fst (ir_and l r st)) =
           blockInsts l
           @ [BinaryInstruction (nextId st + 3) IRINST_OP_NE_I (val l) (ConstInt 0) BoolType,
              GotoInstruction (nextId st + 4)
                (BinaryInstruction (nextId st + 3) IRINST_OP_NE_I (val l) (ConstInt 0) BoolType)
                (LabelInstruction (nextId st)) (LabelInstruction (nextId st + 1)),
              LabelInstruction (nextId st)]
           @ blockInsts r @ shortCircuitTail (nextId st) (val r) 0"
    and "val (fst (ir_and l r st)) = LocalVariable (nextId st + 6) [] Int32Type"
  using assms
  by (auto simp: ir_and_def convertBoolToInt_def alloc_defs node_defs Let_def numeral_eq_Suc
      shortCircuitTail_def)

lemma ir_or_unfold:
  assumes "currentFunction st \<noteq> None"
  shows "blockInsts (fst (ir_or l r st)) =
           blockInsts l
           @ [BinaryInstruction (nextId st + 3) IRINST_OP_NE_I (val l) (ConstInt 0) BoolType,
              GotoInstruction (nextId st + 4)
                (BinaryInstruction (nextId st + 3) IRINST_OP_NE_I (val l) (ConstInt 0) BoolType)
                (LabelInstruction (nextId st + 1)) (LabelInstruction (nextId st)),
              LabelInstruction (nextId st)]
           @ blockInsts r @ shortCircuitTail (nextId st) (val r) 1"
    and "val (fst (ir_or l r st)) = LocalVariable (nextId st + 6) [] Int32Type"
  using assms
  by (auto simp: ir_or_def convertBoolToInt_def alloc_defs node_defs Let_def numeral_eq_Suc
      shortCircuitTail_def)

lemma short_circuit_run:
  fixes k :: nat and lv rv :: Value and c :: int32
  defines "cmpL \<equiv> BinaryInstruction (k + 3) IRINST_OP_NE_I lv (ConstInt 0) BoolType"
  defines "res \<equiv> LocalVariable (k + 6) [] Int32Type"
  assumes code: "code = pre @ [cmpL, GotoInstruction (k + 4) cmpL Lt Lf, LabelInstruction k]
                          @ rb @ shortCircuitTail k rv c @ post"
    and dist: "distinct code"
    and pc: "pc m = length pre"
    and taken: "(if valueOf (env m) lv \<noteq> 0 then Lt else Lf) = LabelInstruction (k + 1)"
  shows "\<exists>m1 m2 m3 m4 m5 m6. run ext code 6 m = [m, m1, m2, m3, m4, m5, m6]
           \<and> pc m1 = length pre + 1
           \<and> pc m2 = length pre + length rb + 13
           \<and> pc m3 = length pre + length rb + 14
           \<and> pc m4 = length pre + length rb + 15
           \<and> pc m5 = length pre + length rb + 16
           \<and> pc m6 = length pre + length rb + 17
           \<and> env m6 res = c
           \<and> (\<forall>s \<in> {m1, m2, m3, m4, m5, m6}. calls s = calls m)"
proof -
  let ?own = "[cmpL, GotoInstruction (k + 4) cmpL Lt Lf, LabelInstruction k]"
  let ?P = "pre @ ?own @ rb"
  have code2: "code = ?P @ shortCircuitTail k rv c @ post" using code by simp
  have np: "LabelInstruction (k + 1) \<notin> set ?P" "LabelInstruction (k + 2) \<notin> set ?P"
    using dist unfolding code by (auto simp: shortCircuitTail_def cmpL_def)
  have lenP: "length ?P = length pre + length rb + 3" by simp
  have t1: "findLabel (LabelInstruction (k + 1)) (shortCircuitTail k rv c @ post) = Some 10"
    by (simp add: shortCircuitTail_def)
  have t2: "findLabel (LabelInstruction (k + 2)) (shortCircuitTail k rv c @ post) = Some 13"
    by (simp add: shortCircuitTail_def)
  have f1: "findLabel (LabelInstruction (k + 1)) code = Some (length pre + length rb + 13)"
    by (subst code2, subst findLabel_skip[OF np(1)], subst t1) simp
  have f2: "findLabel (LabelInstruction (k + 2)) code = Some (length pre + length rb + 16)"
    by (subst code2, subst findLabel_skip[OF np(2)], subst t2) simp
  have lt: "length (shortCircuitTail k rv c) = 14" by (simp add: shortCircuitTail_def)
  have nthT: "code ! (length pre + length rb + 3 + j) = shortCircuitTail k rv c ! j"
    if "j < 14" for j
  proof -
    have e: "length pre + length rb + 3 + j = length ?P + j" by simp
    have "code ! (length ?P + j) = (shortCircuitTail k rv c @ post) ! j"
      by (subst code2) (rule nth_append_length_plus)
    also have "\<dots> = shortCircuitTail k rv c ! j" using that by (simp add: nth_append lt)
    finally show ?thesis by (simp only: e)
  qed
  have nth0: "code ! length pre = cmpL" "code ! (length pre + 1) = GotoInstruction (k + 4) cmpL Lt Lf"
    unfolding code by (simp_all add: nth_append)
  have len: "length code = length pre + length rb + 17 + length post"
    by (simp add: code lt)
  define v where "v = (if valueOf (env m) lv \<noteq> 0 then 1 else 0 :: int32)"
  define m1 where "m1 = m\<lparr> pc := length pre + 1, env := (env m)(cmpL := v) \<rparr>"
  define m2 where "m2 = m1\<lparr> pc := length pre + length rb + 13 \<rparr>"
  define m3 where "m3 = m2\<lparr> pc := length pre + length rb + 14 \<rparr>"
  define m4 where "m4 = m3\<lparr> pc := length pre + length rb + 15, env := (env m1)(res := c) \<rparr>"
  define m5 where "m5 = m4\<lparr> pc := length pre + length rb + 16 \<rparr>"
  define m6 where "m6 = m5\<lparr> pc := length pre + length rb + 17 \<rparr>"
  have s1: "step ext code m = Some m1"
    using pc len nth0(1) by (simp add: step_def m1_def cmpL_def v_def valueOf_def)
  have vc: "valueOf (env m1) cmpL = v"
    by (simp add: m1_def valueOf_def cmpL_def)
  have tgt: "(if valueOf (env m1) cmpL \<noteq> 0 then Lt else Lf) = LabelInstruction (k + 1)"
  proof (cases "valueOf (env m) lv \<noteq> 0")
    case True
    then have "v \<noteq> 0" by (simp add: v_def)
    with True taken show ?thesis by (simp only: vc if_True)
  next
    case False
    then have "v = 0" by (simp add: v_def)
    with False taken show ?thesis by (simp only: vc) simp
  qed
  have s2: "step ext code m1 = Some m2"
  proof -
    have "exec ext code (GotoInstruction (k + 4) cmpL Lt Lf) m1 =
            jumpTo code (LabelInstruction (k + 1)) m1"
      using tgt by (simp add: cmpL_def split: if_splits)
    then show ?thesis
      using len nth0(2) f1 by (simp add: step_def m1_def m2_def jumpTo_def)
  qed
  have s3: "step ext code m2 = Some m3"
    using len nthT[of 10] by (simp add: step_def m2_def m3_def shortCircuitTail_def add.assoc)
  have s4: "step ext code m3 = Some m4"
    using len nthT[of 11]
    by (simp add: step_def m3_def m4_def m2_def shortCircuitTail_def add.assoc valueOf_def res_def)
  have s5: "step ext code m4 = Some m5"
    using len nthT[of 12] f2
    by (simp add: step_def m4_def m5_def shortCircuitTail_def add.assoc jumpTo_def)
  have s6: "step ext code m5 = Some m6"
    using len nthT[of 13]
    by (simp add: step_def m5_def m6_def shortCircuitTail_def add.assoc)
  have r: "run ext code 6 m = [m, m1, m2, m3, m4, m5, m6]"
    unfolding numeral_eq_Suc pred_numeral_simps Suc_eq_plus1_left[symmetric]
    by (simp only: run.simps s1 s2 s3 s4 s5 s6 option.case BitM.simps numeral_eq_Suc
        pred_numeral_simps numeral_One)
  have p: "pc m1 = length pre + 1" "pc m2 = length pre + length rb + 13"
    "pc m3 = length pre + length rb + 14" "pc m4 = length pre + length rb + 15"
    "pc m5 = length pre + length rb + 16" "pc m6 = length pre + length rb + 17"
    by (simp_all add: m1_def m2_def m3_def m4_def m5_def m6_def)
  have e: "env m6 res = c"
    by (simp add: m4_def m5_def m6_def)
  have c: "calls m1 = calls m" "calls m2 = calls m" "calls m3 = calls m" "calls m4 = calls m"
    "calls m5 = calls m" "calls m6 = calls m"
    by (simp_all add: m1_def m2_def m3_def m4_def m5_def m6_def)
  from r p e c show ?thesis by blast
qed

lemma short_circuit_at:
  fixes k :: nat and lv rv :: Value and c :: int32
  assumes code: "code = (pre @ lb) @ [cmpL, GotoInstruction (k + 4) cmpL Lt Lf, LabelInstruction k]
                          @ rb @ shortCircuitTail k rv c @ post"
    and cmpL: "cmpL = BinaryInstruction (k + 3) IRINST_OP_NE_I lv (ConstInt 0) BoolType"
    and dist: "distinct code"
    and pc: "pc m = length pre + length lb"
    and taken: "(if valueOf (env m) lv \<noteq> 0 then Lt else Lf) = LabelInstruction (k + 1)"
  shows "take (length rb) (drop (length pre + length lb + 3) code) = rb
       \<and> code ! (length pre + length lb + 2) = LabelInstruction k
       \<and> code ! (length pre + length lb + 1) = GotoInstruction (k + 4) cmpL Lt Lf
       \<and> length (run ext code 6 m) = 7
       \<and> (\<forall>s \<in> set (run ext code 6 m).
             \<not> (length pre + length lb + 3 \<le> pc s \<and> pc s < length pre + length lb + 3 + length rb)
             \<and> calls s = calls m)
       \<and> pc (last (run ext code 6 m)) = length pre + length lb + length rb + 17
       \<and> env (last (run ext code 6 m)) (LocalVariable (k + 6) [] Int32Type) = c"
proof -
  have pc': "pc m = length (pre @ lb)" using pc by simp
  from short_circuit_run[OF code[unfolded cmpL] dist pc' taken, of ext]
  obtain m1 m2 m3 m4 m5 m6 where R:
    "run ext code 6 m = [m, m1, m2, m3, m4, m5, m6]"
    "pc m1 = length (pre @ lb) + 1"
    "pc m2 = length (pre @ lb) + length rb + 13"
    "pc m3 = length (pre @ lb) + length rb + 14"
    "pc m4 = length (pre @ lb) + length rb + 15"
    "pc m5 = length (pre @ lb) + length rb + 16"
    "pc m6 = length (pre @ lb) + length rb + 17"
    "env m6 (LocalVariable (k + 6) [] Int32Type) = c"
    "\<forall>s \<in> {m1, m2, m3, m4, m5, m6}. calls s = calls m"
    by blast
  have d: "drop (length pre + length lb + 3) code = rb @ shortCircuitTail k rv c @ post"
  proof -
    have "code = ((pre @ lb) @ [cmpL, GotoInstruction (k + 4) cmpL Lt Lf, LabelInstruction k])
                   @ (rb @ shortCircuitTail k rv c @ post)"
      using code by simp
    moreover have "length ((pre @ lb) @ [cmpL, GotoInstruction (k + 4) cmpL Lt Lf, LabelInstruction k])
                     = length pre + length lb + 3" by simp
    ultimately show ?thesis by (metis append_eq_conv_conj)
  qed
  have n2: "code ! (length pre + length lb + 2) = LabelInstruction k"
    and n1: "code ! (length pre + length lb + 1) = GotoInstruction (k + 4) cmpL Lt Lf"
    unfolding code by (simp_all add: nth_append)
  show ?thesis
    using R pc n1 n2 by (simp add: d)
qed

text \<open>
  C6. In the buffer of \<^verbatim>\<open>a && b\<close> the right operand's buffer follows the label
  \<^verbatim>\<open>L_rhs\<close>, which is the true target of the branch on \<^verbatim>\<open>a != 0\<close> (for
  \<^verbatim>\<open>a || b\<close> its false target). When the left operand is 0 (for \<^verbatim>\<open>||\<close>: non-zero),
  the run from the end of the left operand's buffer reaches the end of the node's buffer
  in six steps, none of them at an instruction of the right operand's buffer and none of
  them a call; the result is then 0 (for \<^verbatim>\<open>||\<close>: 1). Every instruction is in the
  function body once.
\<close>

theorem short_circuit_skips_right_operand:
  assumes fn: "currentFunction st \<noteq> None"
    and h: "h = ir_and l r st \<and> valueOf (env m) (val l) = 0
            \<or> h = ir_or l r st \<and> valueOf (env m) (val l) \<noteq> 0"
    and code: "code = pre @ blockInsts (fst h) @ post"
    and dist: "distinct code"
    and pc: "pc m = length pre + length (blockInsts l)"
  shows "take (length (blockInsts r)) (drop (length pre + length (blockInsts l) + 3) code)
           = blockInsts r
       \<and> code ! (length pre + length (blockInsts l) + 2) = LabelInstruction (nextId st)
       \<and> (if valueOf (env m) (val l) = 0
           then getTrueTarget (code ! (length pre + length (blockInsts l) + 1))
           else getFalseTarget (code ! (length pre + length (blockInsts l) + 1)))
           = LabelInstruction (nextId st)
       \<and> getCond (code ! (length pre + length (blockInsts l) + 1))
           = BinaryInstruction (nextId st + 3) IRINST_OP_NE_I (val l) (ConstInt 0) BoolType
       \<and> length (run ext code 6 m) = 7
       \<and> (\<forall>s \<in> set (run ext code 6 m).
             \<not> (length pre + length (blockInsts l) + 3 \<le> pc s
                \<and> pc s < length pre + length (blockInsts l) + 3 + length (blockInsts r))
             \<and> calls s = calls m)
       \<and> pc (last (run ext code 6 m)) = length pre + length (blockInsts (fst h))
       \<and> env (last (run ext code 6 m)) (val (fst h))
           = (if valueOf (env m) (val l) = 0 then 0 else 1)"
proof -
  let ?k = "nextId st"
  let ?cmpL = "BinaryInstruction (?k + 3) IRINST_OP_NE_I (val l) (ConstInt 0) BoolType"
  from h show ?thesis
  proof
    assume a: "h = ir_and l r st \<and> valueOf (env m) (val l) = 0"
    have code': "code = (pre @ blockInsts l)
          @ [?cmpL, GotoInstruction (?k + 4) ?cmpL (LabelInstruction ?k) (LabelInstruction (?k + 1)),
             LabelInstruction ?k]
          @ blockInsts r @ shortCircuitTail ?k (val r) 0 @ post"
      using code a ir_and_unfold(1)[OF fn, of l r] by simp
    have taken: "(if valueOf (env m) (val l) \<noteq> 0 then LabelInstruction ?k
                  else LabelInstruction (?k + 1)) = LabelInstruction (?k + 1)"
      using a by simp
    have len: "length (blockInsts (fst h)) = length (blockInsts l) + length (blockInsts r) + 17"
      using a ir_and_unfold(1)[OF fn, of l r] by (simp add: shortCircuitTail_def)
    from short_circuit_at[OF code' refl dist pc taken, of ext] a len
      ir_and_unfold(2)[OF fn, of l r]
    show ?thesis by simp
  next
    assume a: "h = ir_or l r st \<and> valueOf (env m) (val l) \<noteq> 0"
    have code': "code = (pre @ blockInsts l)
          @ [?cmpL, GotoInstruction (?k + 4) ?cmpL (LabelInstruction (?k + 1)) (LabelInstruction ?k),
             LabelInstruction ?k]
          @ blockInsts r @ shortCircuitTail ?k (val r) 1 @ post"
      using code a ir_or_unfold(1)[OF fn, of l r] by simp
    have taken: "(if valueOf (env m) (val l) \<noteq> 0 then LabelInstruction (?k + 1)
                  else LabelInstruction ?k) = LabelInstruction (?k + 1)"
      using a by simp
    have len: "length (blockInsts (fst h)) = length (blockInsts l) + length (blockInsts r) + 17"
      using a ir_or_unfold(1)[OF fn, of l r] by (simp add: shortCircuitTail_def)
    from short_circuit_at[OF code' refl dist pc taken, of ext] a len
      ir_or_unfold(2)[OF fn, of l r]
    show ?thesis by simp
  qed
qed

theorem short_circuit_skips_right_operand_witness:
  "ir_visit_ast_node (AST_OP_AND (AST_OP_FUNC_CALL ''g'' []) (AST_OP_FUNC_CALL ''f'' []))
      exampleFunction = Inr (ir_and exampleCallG exampleCallF exampleAfterCalls)
   \<and> distinct (blockInsts (fst (ir_and exampleCallG exampleCallF exampleAfterCalls)))
   \<and> valueOf (env exampleAfterG) (val exampleCallG) = 0
   \<and> take 1 (drop 4 (blockInsts (fst (ir_and exampleCallG exampleCallF exampleAfterCalls))))
       = [FuncCallInstruction 6 ''f'' [] Int32Type]
   \<and> length (run (\<lambda>f args. 0)
               (blockInsts (fst (ir_and exampleCallG exampleCallF exampleAfterCalls))) 6
               exampleAfterG) = 7
   \<and> list_all (\<lambda>s. pc s \<noteq> 4 \<and> calls s = [''g''])
        (run (\<lambda>f args. 0)
           (blockInsts (fst (ir_and exampleCallG exampleCallF exampleAfterCalls))) 6
           exampleAfterG)
   \<and> pc (last (run (\<lambda>f args. 0)
                 (blockInsts (fst (ir_and exampleCallG exampleCallF exampleAfterCalls))) 6
                 exampleAfterG)) = 19
   \<and> env (last (run (\<lambda>f args. 0)
                  (blockInsts (fst (ir_and exampleCallG exampleCallF exampleAfterCalls))) 6
                  exampleAfterG))
         (val (fst (ir_and exampleCallG exampleCallF exampleAfterCalls))) = 0"
proof -
  let ?h = "ir_and exampleCallG exampleCallF exampleAfterCalls"
  let ?code = "blockInsts (fst ?h)"
  have fn: "currentFunction exampleAfterCalls \<noteq> None" by (simp add: exampleAfterCalls_def)
  have v: "valueOf (env exampleAfterG) (val exampleCallG) = 0"
    by (simp add: exampleAfterG_def valueOf_def exampleCallG_def)
  have h: "?h = ir_and exampleCallG exampleCallF exampleAfterCalls
             \<and> valueOf (env exampleAfterG) (val exampleCallG) = 0
           \<or> ?h = ir_or exampleCallG exampleCallF exampleAfterCalls
             \<and> valueOf (env exampleAfterG) (val exampleCallG) \<noteq> 0"
    using v by simp
  have code: "?code = [] @ blockInsts (fst ?h) @ []" by simp
  have cu: "?code =
      [FuncCallInstruction 5 ''g'' [] Int32Type,
       BinaryInstruction 10 IRINST_OP_NE_I (FuncCallInstruction 5 ''g'' [] Int32Type) (ConstInt 0)
         BoolType,
       GotoInstruction 11
         (BinaryInstruction 10 IRINST_OP_NE_I (FuncCallInstruction 5 ''g'' [] Int32Type) (ConstInt 0)
            BoolType)
         (LabelInstruction 7) (LabelInstruction 8),
       LabelInstruction 7,
       FuncCallInstruction 6 ''f'' [] Int32Type]
      @ shortCircuitTail 7 (FuncCallInstruction 6 ''f'' [] Int32Type) 0"
    unfolding ir_and_unfold(1)[OF fn]
    by (simp add: exampleCallG_def exampleCallF_def exampleAfterCalls_def)
  have dist: "distinct ?code"
    unfolding cu by (simp add: shortCircuitTail_def)
  have pc: "pc exampleAfterG = length ([] :: Value list) + length (blockInsts exampleCallG)"
    by (simp add: exampleAfterG_def exampleCallG_def)
  have visit: "ir_visit_ast_node
      (AST_OP_AND (AST_OP_FUNC_CALL ''g'' []) (AST_OP_FUNC_CALL ''f'' [])) exampleFunction
      = Inr ?h"
    by (simp add: andThen_def ir_function_call_enter_def ir_function_call_emit_def
        findFunction_def example_defs node_defs exampleCallG_def exampleCallF_def
        exampleAfterCalls_def Let_def)
  have lens: "length ([] :: Value list) + length (blockInsts exampleCallG) = 1"
    "length (blockInsts exampleCallF) = 1"
    "blockInsts exampleCallF = [FuncCallInstruction 6 ''f'' [] Int32Type]"
    "length ([] :: Value list) + length ?code = 19"
    "calls exampleAfterG = [''g'']"
    unfolding cu
    by (simp_all add: exampleCallG_def exampleCallF_def exampleAfterG_def shortCircuitTail_def)
  note T = short_circuit_skips_right_operand[OF fn h code dist pc, of "\<lambda>f args. 0",
      unfolded lens]
  have main: "take 1 (drop 4 ?code) = [FuncCallInstruction 6 ''f'' [] Int32Type]
     \<and> length (run (\<lambda>f args. 0) ?code 6 exampleAfterG) = 7
     \<and> list_all (\<lambda>s. pc s \<noteq> 4 \<and> calls s = [''g''])
          (run (\<lambda>f args. 0) ?code 6 exampleAfterG)
     \<and> pc (last (run (\<lambda>f args. 0) ?code 6 exampleAfterG)) = 19
     \<and> env (last (run (\<lambda>f args. 0) ?code 6 exampleAfterG)) (val (fst ?h)) = 0"
    using T v by (auto simp: list_all_iff)
  from visit dist v main show ?thesis by blast
qed

end
